theory Spec2Isabelle
  imports Main "HOL-Library.Word"
begin

unbundle bit_operations_syntax

section \<open>Go library functions the code calls\<close>

text \<open>
  The functions of this section belong to the Go standard library (packages
  \<open>strings\<close>, \<open>strconv\<close> and \<open>net\<close>), not to the repository. Each is written
  out as the library computes it, on byte strings.
\<close>

subsection \<open>Package strings\<close>

text \<open>\<open>strings.Split(s, sep)\<close> for a one-byte separator: the pieces between the
  separators, in order; a string without separator (also the empty string) is one piece.\<close>

fun Split :: "char \<Rightarrow> string \<Rightarrow> string list" where
  "Split sep [] = [[]]"
| "Split sep (c # cs) =
     (if c = sep then [] # Split sep cs
      else (case Split sep cs of [] \<Rightarrow> [[c]] | w # ws \<Rightarrow> (c # w) # ws))"

text \<open>\<open>strings.Replace(s, "//", "", -1)\<close>: every non-overlapping occurrence of
  two slashes, from the left, is deleted.\<close>

fun Replace_slashes :: "string \<Rightarrow> string" where
  "Replace_slashes (a # b # cs) =
     (if a = CHR ''/'' \<and> b = CHR ''/'' then Replace_slashes cs
      else a # Replace_slashes (b # cs))"
| "Replace_slashes cs = cs"

definition HasPrefix :: "string \<Rightarrow> string \<Rightarrow> bool" where
  "HasPrefix s p = (take (length p) s = p)"

text \<open>\<open>strings.Join(xs, sep)\<close>.\<close>

fun Join :: "string list \<Rightarrow> string \<Rightarrow> string" where
  "Join [] sep = []"
| "Join [x] sep = x"
| "Join (x # y # ys) sep = x @ sep @ Join (y # ys) sep"

subsection \<open>Decimal numbers\<close>

definition isDigit :: "char \<Rightarrow> bool" where
  "isDigit c = (48 \<le> (of_char c :: nat) \<and> (of_char c :: nat) \<le> 57)"

definition digitVal :: "char \<Rightarrow> nat" where
  "digitVal c = of_char c - 48"

text \<open>\<open>dtoi\<close> of package \<open>net\<close>: the decimal number at the start of the string, the
  number of bytes read, and whether a number below \<open>big = 0xFFFFFF\<close> was read.\<close>

definition big :: nat where
  "big = 16777215"

fun dtoi_loop :: "nat \<Rightarrow> nat \<Rightarrow> string \<Rightarrow> nat \<times> nat \<times> bool" where
  "dtoi_loop n i [] = (n, i, True)"
| "dtoi_loop n i (c # cs) =
     (if isDigit c then
        (let n' = n * 10 + digitVal c in
         if n' \<ge> big then (big, i, False) else dtoi_loop n' (Suc i) cs)
      else (n, i, True))"

definition dtoi :: "string \<Rightarrow> nat \<times> nat \<times> bool" where
  "dtoi s =
     (case dtoi_loop 0 0 s of
        (n, i, ok) \<Rightarrow>
          if \<not> ok then (n, i, False)
          else if i = 0 then (0, 0, False)
          else (n, i, True))"


text \<open>\<open>strconv.ParseUint(s, 10, 32)\<close>: the digits are taken one by one; a byte that is
  no decimal digit is a syntax error, a number that leaves 32 bits a range error. The first
  bound of the loop is the library's guard for 64 bits, \<open>(2^64 - 1) / 10 + 1\<close>.\<close>

datatype NumError = ErrSyntax | ErrRange

fun ParseUint32_loop :: "nat \<Rightarrow> string \<Rightarrow> NumError + nat" where
  "ParseUint32_loop n [] = Inr n"
| "ParseUint32_loop n (d # s) =
     (if \<not> isDigit d then Inl ErrSyntax
      else if n \<ge> 1844674407370955162 then Inl ErrRange
      else
        (let n1 = n * 10 + digitVal d in
         if n1 > 4294967295 then Inl ErrRange else ParseUint32_loop n1 s))"

definition ParseUint32 :: "string \<Rightarrow> NumError + nat" where
  "ParseUint32 s = (if s = [] then Inl ErrSyntax else ParseUint32_loop 0 s)"

text \<open>\<open>%d\<close> of a non-negative number.\<close>

definition digitChar :: "nat \<Rightarrow> char" where
  "digitChar d = ''0123456789'' ! d"

fun itoa :: "nat \<Rightarrow> string" where
  "itoa n = (if n < 10 then [digitChar n] else itoa (n div 10) @ [digitChar (n mod 10)])"

declare itoa.simps [simp del]

subsection \<open>Package net: addresses\<close>

text \<open>
  An address (\<open>net.IP\<close>) is a slice of bytes: four bytes for an IPv4 address, sixteen for
  an IPv6 address, or for an IPv4 address in its IPv4-mapped form \<open>::ffff:a.b.c.d\<close>. The
  \<open>nil\<close> slice is the empty list. A mask (\<open>net.IPMask\<close>) is a slice of bytes as well.
\<close>

type_synonym byte = "8 word"

type_synonym IP = "byte list"

type_synonym IPMask = "byte list"

fun IndexByte :: "string \<Rightarrow> char \<Rightarrow> nat option" where
  "IndexByte [] c = None"
| "IndexByte (x # xs) c =
     (if x = c then Some 0 else map_option Suc (IndexByte xs c))"

fun LastIndexByte :: "string \<Rightarrow> char \<Rightarrow> nat option" where
  "LastIndexByte [] c = None"
| "LastIndexByte (x # xs) c =
     (case LastIndexByte xs c of
        Some i \<Rightarrow> Some (Suc i)
      | None \<Rightarrow> if x = c then Some 0 else None)"

text \<open>\<open>net.IPv4(a, b, c, d)\<close>: the address in its sixteen-byte form.\<close>

definition v4InV6Prefix :: "byte list" where
  "v4InV6Prefix = [0, 0, 0, 0, 0, 0, 0, 0, 0, 0, 0xff, 0xff]"

definition IPv4 :: "byte \<Rightarrow> byte \<Rightarrow> byte \<Rightarrow> byte \<Rightarrow> IP" where
  "IPv4 a b c d = v4InV6Prefix @ [a, b, c, d]"

text \<open>\<open>parseIPv4\<close>: four decimal octets separated by dots, each at most 255, and
  nothing after them. The counter is the number of octets still to read.\<close>

fun parseIPv4_octets :: "nat \<Rightarrow> bool \<Rightarrow> string \<Rightarrow> (nat list \<times> string) option" where
  "parseIPv4_octets 0 first s = Some ([], s)"
| "parseIPv4_octets (Suc k) first s =
     (if s = [] then None
      else if \<not> first \<and> hd s \<noteq> CHR ''.'' then None
      else
        (let s1 = (if first then s else tl s) in
         case dtoi s1 of
           (n, c, ok) \<Rightarrow>
             if \<not> ok \<or> n > 255 then None
             else
               (case parseIPv4_octets k False (drop c s1) of
                  None \<Rightarrow> None
                | Some (ns, r) \<Rightarrow> Some (n # ns, r))))"

definition parseIPv4 :: "string \<Rightarrow> IP option" where
  "parseIPv4 s =
     (case parseIPv4_octets (Suc (Suc (Suc (Suc 0)))) True s of
        None \<Rightarrow> None
      | Some (ns, r) \<Rightarrow>
          if r \<noteq> [] then None
          else Some (IPv4 (of_nat (ns ! 0)) (of_nat (ns ! 1)) (of_nat (ns ! 2)) (of_nat (ns ! 3))))"

text \<open>\<open>xtoi\<close>: the hexadecimal number at the start of the string, the number of bytes
  read, and whether a number below \<open>big\<close> was read.\<close>

definition hexVal :: "char \<Rightarrow> nat option" where
  "hexVal c =
     (let v = (of_char c :: nat) in
      if 48 \<le> v \<and> v \<le> 57 then Some (v - 48)
      else if 97 \<le> v \<and> v \<le> 102 then Some (v - 97 + 10)
      else if 65 \<le> v \<and> v \<le> 70 then Some (v - 65 + 10)
      else None)"

fun xtoi_loop :: "nat \<Rightarrow> nat \<Rightarrow> string \<Rightarrow> nat \<times> nat \<times> bool" where
  "xtoi_loop n i [] = (n, i, True)"
| "xtoi_loop n i (c # cs) =
     (case hexVal c of
        None \<Rightarrow> (n, i, True)
      | Some v \<Rightarrow>
          (let n' = n * 16 + v in
           if n' \<ge> big then (0, i, False) else xtoi_loop n' (Suc i) cs))"

definition xtoi :: "string \<Rightarrow> nat \<times> nat \<times> bool" where
  "xtoi s =
     (case xtoi_loop 0 0 s of
        (n, i, ok) \<Rightarrow>
          if \<not> ok then (n, i, False)
          else if i = 0 then (0, i, False)
          else (n, i, True))"

text \<open>
  \<open>parseIPv6\<close> (without a zone). The loop reads groups of four hexadecimal digits
  separated by colons; \<open>bytes\<close> are the bytes written so far (the index \<open>i\<close> of the code is
  their number), \<open>ellipsis\<close> the position of \<open>::\<close> among them, if it was seen. The counter is
  the number of groups the sixteen bytes still have room for. The loop ends with the bytes,
  the ellipsis and what is left of the string. A dot after a number starts a trailing IPv4
  address, which ends the loop.
\<close>

fun parseIPv6_loop ::
  "nat \<Rightarrow> byte list \<Rightarrow> nat option \<Rightarrow> string \<Rightarrow> (byte list \<times> nat option \<times> string) option" where
  "parseIPv6_loop 0 bytes ellipsis s = Some (bytes, ellipsis, s)"
| "parseIPv6_loop (Suc k) bytes ellipsis s =
     (case xtoi s of
        (n, c, ok) \<Rightarrow>
          if \<not> ok \<or> n > 0xFFFF then None
          else if c < length s \<and> s ! c = CHR ''.'' then
            (if ellipsis = None \<and> length bytes \<noteq> 12 then None
             else if length bytes + 4 > 16 then None
             else
               (case parseIPv4 s of
                  None \<Rightarrow> None
                | Some ip4 \<Rightarrow> Some (bytes @ drop 12 ip4, ellipsis, [])))
          else
            (let bytes' = bytes @ [of_nat (n div 256 mod 256), of_nat (n mod 256)];
                 s1 = drop c s
             in
               if s1 = [] then Some (bytes', ellipsis, s1)
               else if hd s1 \<noteq> CHR '':'' \<or> length s1 = 1 then None
               else
                 (let s2 = tl s1 in
                  if hd s2 = CHR '':'' then
                    (if ellipsis \<noteq> None then None
                     else if tl s2 = [] then Some (bytes', Some (length bytes'), [])
                     else parseIPv6_loop k bytes' (Some (length bytes')) (tl s2))
                  else parseIPv6_loop k bytes' ellipsis s2)))"

definition parseIPv6_expand :: "(byte list \<times> nat option \<times> string) option \<Rightarrow> IP option" where
  "parseIPv6_expand r =
     (case r of
        None \<Rightarrow> None
      | Some (bytes, ellipsis, s) \<Rightarrow>
          if s \<noteq> [] then None
          else if length bytes < 16 then
            (case ellipsis of
               None \<Rightarrow> None
             | Some e \<Rightarrow> Some (take e bytes @ replicate (16 - length bytes) 0 @ drop e bytes))
          else if ellipsis \<noteq> None then None
          else Some bytes)"

definition parseIPv6 :: "string \<Rightarrow> IP option" where
  "parseIPv6 s =
     (if length s \<ge> 2 \<and> s ! 0 = CHR '':'' \<and> s ! 1 = CHR '':'' then
        (if drop 2 s = [] then Some (replicate 16 0)
         else parseIPv6_expand (parseIPv6_loop 8 [] (Some 0) (drop 2 s)))
      else parseIPv6_expand (parseIPv6_loop 8 [] None s))"

text \<open>\<open>net.ParseIP\<close>: the first dot or colon of the string decides between the
  IPv4 and the IPv6 parser; a string with neither is no address.\<close>

fun ParseIP_scan :: "string \<Rightarrow> string \<Rightarrow> IP option" where
  "ParseIP_scan [] s = None"
| "ParseIP_scan (c # cs) s =
     (if c = CHR ''.'' then parseIPv4 s
      else if c = CHR '':'' then parseIPv6 s
      else ParseIP_scan cs s)"

definition ParseIP :: "string \<Rightarrow> IP option" where
  "ParseIP s = ParseIP_scan s s"

text \<open>\<open>net.SplitHostPort\<close>.\<close>

datatype AddrError =
    missingPort | tooManyColons | missingBracket | unexpectedLBracket | unexpectedRBracket

definition SplitHostPort_tail ::
  "string \<Rightarrow> nat \<Rightarrow> nat \<Rightarrow> nat \<Rightarrow> string \<Rightarrow> AddrError + (string \<times> string)" where
  "SplitHostPort_tail hostport i j k host =
     (if IndexByte (drop j hostport) (CHR ''['') \<noteq> None then Inl unexpectedLBracket
      else if IndexByte (drop k hostport) (CHR '']'') \<noteq> None then Inl unexpectedRBracket
      else Inr (host, drop (Suc i) hostport))"

definition SplitHostPort :: "string \<Rightarrow> AddrError + (string \<times> string)" where
  "SplitHostPort hostport =
     (case LastIndexByte hostport (CHR '':'') of
        None \<Rightarrow> Inl missingPort
      | Some i \<Rightarrow>
          if hd hostport = CHR ''['' then
            (case IndexByte hostport (CHR '']'') of
               None \<Rightarrow> Inl missingBracket
             | Some e \<Rightarrow>
                 if Suc e = length hostport then Inl missingPort
                 else if Suc e = i then
                   SplitHostPort_tail hostport i 1 (Suc e) (drop 1 (take e hostport))
                 else if hostport ! Suc e = CHR '':'' then Inl tooManyColons
                 else Inl missingPort)
          else
            (let host = take i hostport in
             if IndexByte host (CHR '':'') \<noteq> None then Inl tooManyColons
             else SplitHostPort_tail hostport i 0 0 host))"

subsection \<open>Package net: networks\<close>

text \<open>\<open>IP.To4()\<close>: the four bytes of an IPv4 address, in either form; \<open>nil\<close> for any
  other slice.\<close>

definition To4 :: "IP \<Rightarrow> IP" where
  "To4 ip =
     (if length ip = 4 then ip
      else if length ip = 16 \<and> list_all (\<lambda>b. b = 0) (take 10 ip) \<and>
              ip ! 10 = 0xff \<and> ip ! 11 = 0xff
      then drop 12 ip
      else [])"

text \<open>\<open>IP.String()\<close>: dotted decimal for an IPv4 address; for an IPv6 address the eight
  groups in hexadecimal without leading zeros, the longest run of two or more zero groups
  (the first of them, among equals) written \<open>::\<close>.\<close>

definition hexDigit :: "nat \<Rightarrow> char" where
  "hexDigit d = ''0123456789abcdef'' ! d"

fun appendHex :: "nat \<Rightarrow> string" where
  "appendHex n = (if n < 16 then [hexDigit n] else appendHex (n div 16) @ [hexDigit (n mod 16)])"

declare appendHex.simps [simp del]

definition hexString :: "byte list \<Rightarrow> string" where
  "hexString b = concat (map (\<lambda>x. [hexDigit (unat x div 16), hexDigit (unat x mod 16)]) b)"

fun groups :: "byte list \<Rightarrow> nat list" where
  "groups (a # b # p) = (unat a * 256 + unat b) # groups p"
| "groups p = []"

text \<open>The search for the longest run of zero groups: \<open>i\<close> is the group looked at, and
  \<open>(e0, e1)\<close> the run found so far, from group \<open>e0\<close> up to group \<open>e1\<close>, empty at the start.\<close>

function zeroRun :: "nat list \<Rightarrow> nat \<Rightarrow> nat \<times> nat \<Rightarrow> nat \<times> nat" where
  "zeroRun gs i (e0, e1) =
     (if i \<ge> length gs then (e0, e1)
      else
        (let j = i + length (takeWhile (\<lambda>g. g = 0) (drop i gs)) in
         if j > i \<and> j - i > e1 - e0 then zeroRun gs (Suc j) (i, j)
         else zeroRun gs (Suc i) (e0, e1)))"
  by pat_completeness auto

termination
  by (relation "measure (\<lambda>(gs, i, e). length gs - i)") auto

declare zeroRun.simps [simp del]

definition IP_String :: "IP \<Rightarrow> string" where
  "IP_String ip =
     (if length ip = 0 then ''<nil>''
      else if length (To4 ip) = 4 then
        itoa (unat (To4 ip ! 0)) @ ''.'' @ itoa (unat (To4 ip ! 1)) @ ''.'' @
        itoa (unat (To4 ip ! 2)) @ ''.'' @ itoa (unat (To4 ip ! 3))
      else if length ip \<noteq> 16 then ''?'' @ hexString ip
      else
        (case zeroRun (groups ip) 0 (0, 0) of
           (e0, e1) \<Rightarrow>
             if e1 - e0 \<le> 1 then Join (map appendHex (groups ip)) '':''
             else
               Join (map appendHex (take e0 (groups ip))) '':'' @ ''::'' @
               Join (map appendHex (drop e1 (groups ip))) '':''))"

text \<open>A network (\<open>net.IPNet\<close>): an address and a mask.\<close>

record IPNet =
  IP :: IP
  Mask :: IPMask

text \<open>\<open>net.CIDRMask(ones, bits)\<close>: a mask of \<open>bits\<close> bits, \<open>ones\<close> one bits followed by
  zero bits; \<open>nil\<close> unless \<open>bits\<close> is 32 or 128 and \<open>ones\<close> at most \<open>bits\<close>. The loop
  writes \<open>l\<close> bytes, with \<open>n\<close> one bits still to write.\<close>

fun CIDRMask_loop :: "nat \<Rightarrow> nat \<Rightarrow> byte list" where
  "CIDRMask_loop 0 n = []"
| "CIDRMask_loop (Suc l) n =
     (if n \<ge> 8 then 0xff # CIDRMask_loop l (n - 8)
      else NOT (drop_bit n 0xff) # CIDRMask_loop l 0)"

definition CIDRMask :: "nat \<Rightarrow> nat \<Rightarrow> IPMask" where
  "CIDRMask ones bits =
     (if bits \<noteq> 32 \<and> bits \<noteq> 128 then []
      else if ones > bits then []
      else CIDRMask_loop (bits div 8) ones)"

text \<open>\<open>IP.Mask(mask)\<close>: the address with the mask applied, byte by byte, after a
  sixteen-byte mask for an IPv4 address, or a sixteen-byte IPv4 address under a four-byte
  mask, is cut to four bytes; \<open>nil\<close> when the lengths differ.\<close>

definition IP_Mask :: "IP \<Rightarrow> IPMask \<Rightarrow> IP" where
  "IP_Mask ip0 mask0 =
     (let mask =
            (if length mask0 = 16 \<and> length ip0 = 4 \<and> list_all (\<lambda>b. b = 0xff) (take 12 mask0)
             then drop 12 mask0 else mask0);
          ip =
            (if length mask = 4 \<and> length ip0 = 16 \<and> take 12 ip0 = v4InV6Prefix
             then drop 12 ip0 else ip0)
      in if length ip \<noteq> length mask then [] else map2 (AND) ip mask)"

text \<open>\<open>IPMask.Size()\<close>: the number of leading one bits, and 0 when a one bit follows
  a zero bit. \<open>simpleMaskLength\<close> passes the bytes \<open>0xff\<close>, counts the leading one bits
  of the first other byte by shifting it to the left (\<open>leadingOnes\<close>, whose counter is the
  number of bits of a byte), and wants all that follows to be zero; its \<open>-1\<close> is \<open>None\<close>.\<close>

fun leadingOnes :: "nat \<Rightarrow> byte \<Rightarrow> nat \<times> byte" where
  "leadingOnes 0 v = (0, v)"
| "leadingOnes (Suc k) v =
     (if v AND 0x80 \<noteq> 0 then
        (case leadingOnes k (push_bit 1 v) of (n, v') \<Rightarrow> (Suc n, v'))
      else (0, v))"

fun simpleMaskLength :: "IPMask \<Rightarrow> nat option" where
  "simpleMaskLength [] = Some 0"
| "simpleMaskLength (v # rest) =
     (if v = 0xff then map_option (\<lambda>n. n + 8) (simpleMaskLength rest)
      else
        (case leadingOnes 8 v of
           (n, v') \<Rightarrow>
             if v' \<noteq> 0 then None
             else if list_all (\<lambda>b. b = 0) rest then Some n
             else None))"

definition Mask_Size :: "IPMask \<Rightarrow> nat" where
  "Mask_Size m = (case simpleMaskLength m of Some n \<Rightarrow> n | None \<Rightarrow> 0)"

text \<open>\<open>networkNumberAndMask\<close>: address and mask of a network in one length, four bytes
  for an IPv4 network; \<open>(nil, nil)\<close> when the lengths do not fit.\<close>

definition networkNumberAndMask :: "IPNet \<Rightarrow> IP \<times> IPMask" where
  "networkNumberAndMask n =
     (let ip = (if To4 (IP n) \<noteq> [] then To4 (IP n) else IP n) in
      if To4 (IP n) = [] \<and> length (IP n) \<noteq> 16 then ([], [])
      else if length (Mask n) = 4 then
        (if length ip \<noteq> 4 then ([], []) else (ip, Mask n))
      else if length (Mask n) = 16 then
        (ip, if length ip = 4 then drop 12 (Mask n) else Mask n)
      else ([], []))"

text \<open>\<open>IPNet.Contains(ip)\<close>.\<close>

definition Contains :: "IPNet \<Rightarrow> IP \<Rightarrow> bool" where
  "Contains n ip0 =
     (case networkNumberAndMask n of
        (nn, m) \<Rightarrow>
          (let ip = (if To4 ip0 \<noteq> [] then To4 ip0 else ip0) in
           length ip = length nn \<and>
           list_all (\<lambda>i. nn ! i AND m ! i = ip ! i AND m ! i) [0..<length ip]))"

text \<open>\<open>net.ParseCIDR\<close>: an IPv4 or else an IPv6 address before the first slash, and
  after it a prefix length of at most 32 or 128; the result is the address and the
  network, whose address is masked.\<close>

definition ParseCIDR :: "string \<Rightarrow> (IP \<times> IPNet) option" where
  "ParseCIDR s =
     (case IndexByte s (CHR ''/'') of
        None \<Rightarrow> None
      | Some i \<Rightarrow>
          (let addr = take i s;
               mask = drop (Suc i) s;
               (iplen, ip) =
                 (case parseIPv4 addr of
                    Some ip4 \<Rightarrow> (4, Some ip4)
                  | None \<Rightarrow> (16, parseIPv6 addr))
           in
             case dtoi mask of
               (n, j, ok) \<Rightarrow>
                 (case ip of
                    None \<Rightarrow> None
                  | Some ip' \<Rightarrow>
                      if \<not> ok \<or> j \<noteq> length mask \<or> n > 8 * iplen then None
                      else
                        (let m = CIDRMask n (8 * iplen) in
                         Some (ip', \<lparr>IP = IP_Mask ip' m, Mask = m\<rparr>)))))"

section \<open>Package config (go-controller/pkg/config/config.go)\<close>

subsection \<open>Configuration structures\<close>

record DefaultConfig =
  MTU :: int
  ConntrackZone :: int
  EncapType :: string
  EncapIP :: string
  InactivityProbe :: int

record LoggingConfig =
  File :: string
  Level :: int

record CNIConfig =
  ConfDir :: string
  Plugin :: string
  WinHNSNetworkID :: string

record KubernetesConfig =
  Kubeconfig :: string
  CACert :: string
  APIServer :: string
  Token :: string

record rawOvnAuthConfig =
  Address :: string
  ClientPrivKey :: string
  ClientCert :: string
  ClientCACert :: string

type_synonym OvnDBScheme = string

definition OvnDBSchemeSSL :: OvnDBScheme where
  "OvnDBSchemeSSL = ''ssl''"

definition OvnDBSchemeTCP :: OvnDBScheme where
  "OvnDBSchemeTCP = ''tcp''"

definition OvnDBSchemeUnix :: OvnDBScheme where
  "OvnDBSchemeUnix = ''unix''"

text \<open>\<open>OvnDBAuth\<close>, without its handle \<open>exec\<close> for running commands: the commands
  a model function runs are answered by the \<open>host\<close> it is given.\<close>

record OvnDBAuth =
  OvnAddressForClient :: string
  PrivKey :: string
  Cert :: string
  CACert :: string
  Scheme :: OvnDBScheme
  ctlCmd :: string
  externalID :: string

text \<open>\<open>OvnAuthConfig\<close>: the pointer \<open>ClientAuth\<close> is \<open>None\<close> when nil.\<close>

record OvnAuthConfig =
  ClientAuth :: "OvnDBAuth option"

text \<open>The structure \<open>config\<close>: what the configuration file, or the command line
  (\<open>cliConfig\<close>), sets. A field that was not set holds its zero value.\<close>

record config =
  Default :: DefaultConfig
  Logging :: LoggingConfig
  CNI :: CNIConfig
  Kubernetes :: KubernetesConfig
  OvnNorth :: rawOvnAuthConfig
  OvnSouth :: rawOvnAuthConfig

text \<open>The package's variables \<open>Default\<close>, \<open>Logging\<close>, \<open>CNI\<close>, \<open>Kubernetes\<close>,
  \<open>OvnNorth\<close> and \<open>OvnSouth\<close>: the configuration in effect.\<close>

record globals =
  Default :: DefaultConfig
  Logging :: LoggingConfig
  CNI :: CNIConfig
  Kubernetes :: KubernetesConfig
  OvnNorth :: OvnAuthConfig
  OvnSouth :: OvnAuthConfig

record Defaults =
  OvnNorthAddress :: bool
  K8sAPIServer :: bool
  K8sToken :: bool
  K8sCert :: bool

definition zero_rawOvnAuthConfig :: rawOvnAuthConfig where
  "zero_rawOvnAuthConfig =
     \<lparr>Address = [], ClientPrivKey = [], ClientCert = [], ClientCACert = []\<rparr>"

definition zero_config :: config where
  "zero_config =
     \<lparr>config.Default =
        \<lparr>MTU = 0, ConntrackZone = 0, EncapType = [], EncapIP = [], InactivityProbe = 0\<rparr>,
      config.Logging = \<lparr>File = [], Level = 0\<rparr>,
      config.CNI = \<lparr>ConfDir = [], Plugin = [], WinHNSNetworkID = []\<rparr>,
      config.Kubernetes =
        \<lparr>Kubeconfig = [], KubernetesConfig.CACert = [], APIServer = [], Token = []\<rparr>,
      config.OvnNorth = zero_rawOvnAuthConfig,
      config.OvnSouth = zero_rawOvnAuthConfig\<rparr>"

definition zero_Defaults :: Defaults where
  "zero_Defaults =
     \<lparr>OvnNorthAddress = False, K8sAPIServer = False, K8sToken = False, K8sCert = False\<rparr>"

text \<open>The values the package's variables are declared with.\<close>

definition initial_globals :: globals where
  "initial_globals =
     \<lparr>globals.Default =
        \<lparr>MTU = 1400, ConntrackZone = 64000, EncapType = ''geneve'', EncapIP = [],
         InactivityProbe = 100000\<rparr>,
      globals.Logging = \<lparr>File = [], Level = 4\<rparr>,
      globals.CNI =
        \<lparr>ConfDir = ''/etc/cni/net.d'', Plugin = ''ovn-k8s-cni-overlay'', WinHNSNetworkID = []\<rparr>,
      globals.Kubernetes =
        \<lparr>Kubeconfig = [], KubernetesConfig.CACert = [], APIServer = ''http://localhost:8080'',
         Token = []\<rparr>,
      globals.OvnNorth = \<lparr>ClientAuth = None\<rparr>,
      globals.OvnSouth = \<lparr>ClientAuth = None\<rparr>\<rparr>"

subsection \<open>Errors\<close>

datatype error =
    CertificateOrKeyGiven
      \<comment> \<open>certificate or key given; perhaps you mean to use the 'ssl' scheme?\<close>
  | FailedToParseOVNAddress string
      \<comment> \<open>Failed to parse OVN address \<open>urlString\<close>\<close>
  | InvalidProtocols string
      \<comment> \<open>Invalid protocols in OVN address \<open>urlString\<close>\<close>
  | FailedToParseHostPort string AddrError
      \<comment> \<open>failed to parse OVN DB host/port \<open>hostPort\<close>: \<open>err\<close>\<close>
  | HostMustBeIP string
      \<comment> \<open>OVN DB host \<open>hostPort\<close> must be an IP address, not a DNS name\<close>
  | MustSpecifyKeyAndCerts
      \<comment> \<open>must specify private key, certificate, and CA certificate for 'ssl' scheme\<close>
  | UnknownScheme string
      \<comment> \<open>unknown OVN DB scheme \<open>scheme\<close>\<close>
  | KubeconfigNotFound string
  | KubernetesCACertNotFound string
  | APIServerAddressInvalid string
  | APIServerSchemeInvalid string
  | FailedToOpenConfigFile string
  | FailedToParseConfigFile string
  | FailedToParseOvnAddressForClient string
      \<comment> \<open>failed to parse OvnDBAuth a.OvnAddressForClient: \<open>address\<close>\<close>
  | FailedToUpdateOvnNorth error
  | FailedToUpdateOvnSouth error
  | NilPointerDereference
      \<comment> \<open>the run-time panic of a method call through a nil \<open>ClientAuth\<close>\<close>

subsection \<open>The host\<close>

text \<open>
  What the code asks of the machine it runs on: running a command (\<open>exec\<close>, with the
  command's combined output, or \<open>None\<close> when it cannot be found or fails), whether
  a path exists, and reading the configuration file. \<open>url_Parse\<close> stands for
  \<open>net/url.Parse\<close>: the scheme of the parsed URL, or \<open>None\<close> when the library
  rejects the string. \<open>defaultConfigFile\<close> is the path \<open>getConfigFilePath\<close> falls
  back to (\<open>/etc/openvswitch/ovn_k8s.conf\<close> except on Windows).
\<close>

datatype file_read = OpenFailed | ParseFailed | Parsed config

record host =
  exec :: "string \<Rightarrow> string list \<Rightarrow> string option"
  pathExists :: "string \<Rightarrow> bool"
  readConfigFile :: "string \<Rightarrow> file_read"
  url_Parse :: "string \<Rightarrow> string option"
  defaultConfigFile :: string

text \<open>
  \<open>strings.TrimSpace\<close> cuts the white space of Unicode (\<open>unicode.IsSpace\<close>) from both
  ends of a string. A string is a sequence of bytes, read as UTF-8: \<open>spaceRunes\<close> are the
  encodings of the white space runes, the six of ASCII, then U+0085, U+00A0, U+1680,
  U+2000 to U+200A, U+2028, U+2029, U+202F, U+205F and U+3000. No encoding is the start or
  the end of another rune's, so the rune at an end of the string is white space exactly
  when the string begins, or ends, with one of them.
\<close>

definition spaceRunes :: "string list" where
  "spaceRunes =
     [[CHR 0x09], [CHR 0x0A], [CHR 0x0B], [CHR 0x0C], [CHR 0x0D], [CHR 0x20],
      [CHR 0xC2, CHR 0x85], [CHR 0xC2, CHR 0xA0], [CHR 0xE1, CHR 0x9A, CHR 0x80],
      [CHR 0xE2, CHR 0x80, CHR 0x80], [CHR 0xE2, CHR 0x80, CHR 0x81],
      [CHR 0xE2, CHR 0x80, CHR 0x82], [CHR 0xE2, CHR 0x80, CHR 0x83],
      [CHR 0xE2, CHR 0x80, CHR 0x84], [CHR 0xE2, CHR 0x80, CHR 0x85],
      [CHR 0xE2, CHR 0x80, CHR 0x86], [CHR 0xE2, CHR 0x80, CHR 0x87],
      [CHR 0xE2, CHR 0x80, CHR 0x88], [CHR 0xE2, CHR 0x80, CHR 0x89],
      [CHR 0xE2, CHR 0x80, CHR 0x8A], [CHR 0xE2, CHR 0x80, CHR 0xA8],
      [CHR 0xE2, CHR 0x80, CHR 0xA9], [CHR 0xE2, CHR 0x80, CHR 0xAF],
      [CHR 0xE2, CHR 0x81, CHR 0x9F], [CHR 0xE3, CHR 0x80, CHR 0x80]]"

definition HasSuffix :: "string \<Rightarrow> string \<Rightarrow> bool" where
  "HasSuffix s suffix =
     (length s \<ge> length suffix \<and> drop (length s - length suffix) s = suffix)"

text \<open>The number of bytes of the white space rune a string begins with, or ends with; 0
  when the rune there is no white space.\<close>

definition spaceWidthFirst :: "string \<Rightarrow> nat" where
  "spaceWidthFirst s =
     (case find (\<lambda>r. HasPrefix s r) spaceRunes of None \<Rightarrow> 0 | Some r \<Rightarrow> length r)"

definition spaceWidthLast :: "string \<Rightarrow> nat" where
  "spaceWidthLast s =
     (case find (\<lambda>r. HasSuffix s r) spaceRunes of None \<Rightarrow> 0 | Some r \<Rightarrow> length r)"

function TrimLeftSpace :: "string \<Rightarrow> string" where
  "TrimLeftSpace s =
     (if spaceWidthFirst s = 0 then s else TrimLeftSpace (drop (spaceWidthFirst s) s))"
  by pat_completeness auto

termination
proof (relation "measure length")
  fix s :: string
  assume "spaceWidthFirst s \<noteq> 0"
  then obtain r where "find (\<lambda>r. HasPrefix s r) spaceRunes = Some r" "r \<noteq> []"
    by (auto simp: spaceWidthFirst_def split: option.splits)
  then have "s \<noteq> []"
    by (auto simp: find_Some_iff HasPrefix_def)
  with \<open>spaceWidthFirst s \<noteq> 0\<close> show "(drop (spaceWidthFirst s) s, s) \<in> measure length"
    by simp
qed simp

function TrimRightSpace :: "string \<Rightarrow> string" where
  "TrimRightSpace s =
     (if spaceWidthLast s = 0 then s else TrimRightSpace (take (length s - spaceWidthLast s) s))"
  by pat_completeness auto

termination
proof (relation "measure length")
  fix s :: string
  assume "spaceWidthLast s \<noteq> 0"
  then obtain r where "find (\<lambda>r. HasSuffix s r) spaceRunes = Some r" "r \<noteq> []"
    by (auto simp: spaceWidthLast_def split: option.splits)
  then have "s \<noteq> []"
    by (auto simp: find_Some_iff HasSuffix_def)
  with \<open>spaceWidthLast s \<noteq> 0\<close>
  show "(take (length s - spaceWidthLast s) s, s) \<in> measure length"
    by simp
qed simp

declare TrimLeftSpace.simps [simp del] TrimRightSpace.simps [simp del]

definition TrimSpace :: "string \<Rightarrow> string" where
  "TrimSpace s = TrimRightSpace (TrimLeftSpace s)"

text \<open>\<open>strings.Trim(s, "\"")\<close>.\<close>

definition Trim_quotes :: "string \<Rightarrow> string" where
  "Trim_quotes s =
     rev (dropWhile (\<lambda>c. c = CHR 0x22) (rev (dropWhile (\<lambda>c. c = CHR 0x22) s)))"

definition rawExec :: "host \<Rightarrow> string \<Rightarrow> string list \<Rightarrow> string option" where
  "rawExec h cmd args = map_option TrimSpace (exec h cmd args)"

definition ovsVsctlCommand :: string where
  "ovsVsctlCommand = ''ovs-vsctl''"

definition runOVSVsctl :: "host \<Rightarrow> string list \<Rightarrow> string option" where
  "runOVSVsctl h args =
     map_option (\<lambda>out. Trim_quotes (TrimSpace out))
       (rawExec h ovsVsctlCommand (''--timeout=15'' # args))"

definition getOVSExternalID :: "host \<Rightarrow> string \<Rightarrow> string" where
  "getOVSExternalID h name =
     (case runOVSVsctl h
        [''--if-exists'', ''get'', ''Open_vSwitch'', ''.'', ''external_ids:'' @ name] of
        None \<Rightarrow> []
      | Some out \<Rightarrow> out)"

subsection \<open>overrideFields\<close>

text \<open>
  \<open>overrideFields(dst, src)\<close> walks the fields of two structures of one type and copies
  a field of \<open>src\<close> into \<open>dst\<close> when it is a non-empty string or a non-zero int.
  The structures it is called on have string and int fields only, so none of its panics
  is reached; the walk is written out for each of them.
\<close>

definition overrideString :: "string \<Rightarrow> string \<Rightarrow> string" where
  "overrideString dstField srcField = (if srcField \<noteq> [] then srcField else dstField)"

definition overrideInt :: "int \<Rightarrow> int \<Rightarrow> int" where
  "overrideInt dstField srcField = (if srcField \<noteq> 0 then srcField else dstField)"

definition overrideFields_DefaultConfig :: "DefaultConfig \<Rightarrow> DefaultConfig \<Rightarrow> DefaultConfig" where
  "overrideFields_DefaultConfig dst src =
     \<lparr>MTU = overrideInt (MTU dst) (MTU src),
      ConntrackZone = overrideInt (ConntrackZone dst) (ConntrackZone src),
      EncapType = overrideString (EncapType dst) (EncapType src),
      EncapIP = overrideString (EncapIP dst) (EncapIP src),
      InactivityProbe = overrideInt (InactivityProbe dst) (InactivityProbe src)\<rparr>"

definition overrideFields_LoggingConfig :: "LoggingConfig \<Rightarrow> LoggingConfig \<Rightarrow> LoggingConfig" where
  "overrideFields_LoggingConfig dst src =
     \<lparr>File = overrideString (File dst) (File src),
      Level = overrideInt (Level dst) (Level src)\<rparr>"

definition overrideFields_CNIConfig :: "CNIConfig \<Rightarrow> CNIConfig \<Rightarrow> CNIConfig" where
  "overrideFields_CNIConfig dst src =
     \<lparr>ConfDir = overrideString (ConfDir dst) (ConfDir src),
      Plugin = overrideString (Plugin dst) (Plugin src),
      WinHNSNetworkID = overrideString (WinHNSNetworkID dst) (WinHNSNetworkID src)\<rparr>"

definition overrideFields_KubernetesConfig ::
  "KubernetesConfig \<Rightarrow> KubernetesConfig \<Rightarrow> KubernetesConfig" where
  "overrideFields_KubernetesConfig dst src =
     \<lparr>Kubeconfig = overrideString (Kubeconfig dst) (Kubeconfig src),
      KubernetesConfig.CACert =
        overrideString (KubernetesConfig.CACert dst) (KubernetesConfig.CACert src),
      APIServer = overrideString (APIServer dst) (APIServer src),
      Token = overrideString (Token dst) (Token src)\<rparr>"

definition overrideFields_rawOvnAuthConfig ::
  "rawOvnAuthConfig \<Rightarrow> rawOvnAuthConfig \<Rightarrow> rawOvnAuthConfig" where
  "overrideFields_rawOvnAuthConfig dst src =
     \<lparr>Address = overrideString (Address dst) (Address src),
      ClientPrivKey = overrideString (ClientPrivKey dst) (ClientPrivKey src),
      ClientCert = overrideString (ClientCert dst) (ClientCert src),
      ClientCACert = overrideString (ClientCACert dst) (ClientCACert src)\<rparr>"


subsection \<open>newOvnDBAuth\<close>

text \<open>
  The loop of \<open>newOvnDBAuth\<close> over the addresses of the connection string. Its state
  is the scheme seen so far (empty before the first) and the client address built so far;
  \<open>urlString\<close> is only quoted in errors.
\<close>

fun newOvnDBAuth_loop ::
  "string \<Rightarrow> string \<Rightarrow> string \<Rightarrow> string list \<Rightarrow> error + (string \<times> string)" where
  "newOvnDBAuth_loop urlString scheme addressForClient [] = Inr (scheme, addressForClient)"
| "newOvnDBAuth_loop urlString scheme addressForClient (ovnAddress # rest) =
     (let splits = Split (CHR '':'') ovnAddress in
      if length splits \<noteq> 3 then Inl (FailedToParseOVNAddress urlString)
      else
        (let hostPort = splits ! 1 @ '':'' @ splits ! 2 in
         if scheme \<noteq> [] \<and> scheme \<noteq> splits ! 0 then Inl (InvalidProtocols urlString)
         else
           (let scheme' = (if scheme = [] then splits ! 0 else scheme) in
            case SplitHostPort hostPort of
              Inl err \<Rightarrow> Inl (FailedToParseHostPort hostPort err)
            | Inr (host, port) \<Rightarrow>
                if ParseIP host = None then Inl (HostMustBeIP hostPort)
                else
                  newOvnDBAuth_loop urlString scheme'
                    (if addressForClient = [] then scheme' @ '':'' @ host @ '':'' @ port
                     else addressForClient @ '','' @ scheme' @ '':'' @ host @ '':'' @ port)
                    rest)))"

definition newOvnDBAuth ::
  "string \<Rightarrow> string \<Rightarrow> string \<Rightarrow> string \<Rightarrow> string \<Rightarrow> string \<Rightarrow> error + OvnDBAuth" where
  "newOvnDBAuth ctlCmd' externalID' urlString privkey cert cacert =
     (if urlString = [] then
        (if privkey \<noteq> [] \<or> cert \<noteq> [] \<or> cacert \<noteq> [] then Inl CertificateOrKeyGiven
         else
           Inr \<lparr>OvnAddressForClient = [], PrivKey = [], Cert = [], CACert = [],
                Scheme = OvnDBSchemeUnix, ctlCmd = ctlCmd', externalID = externalID'\<rparr>)
      else
        (let urlString' = Replace_slashes urlString in
         case newOvnDBAuth_loop urlString' [] [] (Split (CHR '','') urlString') of
           Inl err \<Rightarrow> Inl err
         | Inr (scheme, addressForClient) \<Rightarrow>
             if scheme = ''ssl'' then
               (if privkey = [] \<or> cert = [] \<or> cacert = [] then Inl MustSpecifyKeyAndCerts
                else
                  Inr \<lparr>OvnAddressForClient = addressForClient, PrivKey = privkey, Cert = cert,
                       CACert = cacert, Scheme = OvnDBSchemeSSL, ctlCmd = ctlCmd',
                       externalID = externalID'\<rparr>)
             else if scheme = ''tcp'' then
               (if privkey \<noteq> [] \<or> cert \<noteq> [] \<or> cacert \<noteq> [] then Inl CertificateOrKeyGiven
                else
                  Inr \<lparr>OvnAddressForClient = addressForClient, PrivKey = [], Cert = [],
                       CACert = [], Scheme = OvnDBSchemeTCP, ctlCmd = ctlCmd',
                       externalID = externalID'\<rparr>)
             else Inl (UnknownScheme scheme)))"

subsection \<open>buildKubernetesConfig and buildOvnAuth\<close>

text \<open>\<open>buildKubernetesConfig\<close> assigns the variable \<open>Kubernetes\<close> before it checks
  it: the result is the new value of the variable and the error, if any.\<close>

definition buildKubernetesConfig ::
  "host \<Rightarrow> config \<Rightarrow> config \<Rightarrow> Defaults \<Rightarrow> KubernetesConfig \<Rightarrow> KubernetesConfig \<times> error option" where
  "buildKubernetesConfig h cli file defaults k0 =
     (let k1 = (if K8sAPIServer defaults
                then k0\<lparr>APIServer := getOVSExternalID h ''k8s-api-server''\<rparr> else k0);
          k2 = (if K8sToken defaults
                then k1\<lparr>Token := getOVSExternalID h ''k8s-api-token''\<rparr> else k1);
          k3 = (if K8sCert defaults
                then k2\<lparr>KubernetesConfig.CACert := getOVSExternalID h ''k8s-ca-certificate''\<rparr>
                else k2);
          k4 = overrideFields_KubernetesConfig k3 (config.Kubernetes file);
          k = overrideFields_KubernetesConfig k4 (config.Kubernetes cli)
      in
        if Kubeconfig k \<noteq> [] \<and> \<not> pathExists h (Kubeconfig k)
        then (k, Some (KubeconfigNotFound (Kubeconfig k)))
        else if KubernetesConfig.CACert k \<noteq> [] \<and> \<not> pathExists h (KubernetesConfig.CACert k)
        then (k, Some (KubernetesCACertNotFound (KubernetesConfig.CACert k)))
        else
          (case url_Parse h (APIServer k) of
             None \<Rightarrow> (k, Some (APIServerAddressInvalid (APIServer k)))
           | Some urlScheme \<Rightarrow>
               if urlScheme \<noteq> ''https'' \<and> urlScheme \<noteq> ''http''
               then (k, Some (APIServerSchemeInvalid urlScheme))
               else (k, None)))"

text \<open>The first half of \<open>buildOvnAuth\<close>: the raw settings handed to \<open>newOvnDBAuth\<close>.\<close>

definition buildOvnAuth_raw ::
  "host \<Rightarrow> string \<Rightarrow> rawOvnAuthConfig \<Rightarrow> rawOvnAuthConfig \<Rightarrow> bool \<Rightarrow> rawOvnAuthConfig" where
  "buildOvnAuth_raw h direction cliAuth confAuth readAddress =
     (let address0 = Address cliAuth;
          address1 = (if address0 = [] then Address confAuth else address0);
          address = (if address1 = [] \<and> readAddress
                     then getOVSExternalID h (''ovn-'' @ direction) else address1);
          auth0 = \<lparr>Address = address, ClientPrivKey = [], ClientCert = [], ClientCACert = []\<rparr>;
          auth1 = (if HasPrefix address ''ssl'' then
                     auth0\<lparr>ClientCACert := ''/etc/openvswitch/ovn'' @ direction @ ''-ca.cert'',
                           ClientPrivKey := ''/etc/openvswitch/ovn'' @ direction @ ''-privkey.pem'',
                           ClientCert := ''/etc/openvswitch/ovn'' @ direction @ ''-cert.pem''\<rparr>
                   else auth0)
      in overrideFields_rawOvnAuthConfig (overrideFields_rawOvnAuthConfig auth1 confAuth) cliAuth)"

definition buildOvnAuth ::
  "host \<Rightarrow> string \<Rightarrow> string \<Rightarrow> rawOvnAuthConfig \<Rightarrow> rawOvnAuthConfig \<Rightarrow> bool \<Rightarrow>
     error + OvnAuthConfig" where
  "buildOvnAuth h direction externalID' cliAuth confAuth readAddress =
     (let ctlCmd' = ''ovn-'' @ direction @ ''ctl'';
          auth = buildOvnAuth_raw h direction cliAuth confAuth readAddress
      in
        case newOvnDBAuth ctlCmd' externalID' (Address auth) (ClientPrivKey auth)
               (ClientCert auth) (ClientCACert auth) of
          Inl err \<Rightarrow> Inl err
        | Inr clientAuth \<Rightarrow> Inr \<lparr>ClientAuth = Some clientAuth\<rparr>)"

subsection \<open>InitConfig\<close>

text \<open>
  \<open>getConfigFilePath\<close>: the path given by the flag \<open>config-file\<close>, or the platform's
  default path; the flag tells which.
\<close>

definition getConfigFilePath :: "host \<Rightarrow> string \<Rightarrow> string \<times> bool" where
  "getConfigFilePath h configFileFlag =
     (if configFileFlag \<noteq> [] then (configFileFlag, False) else (defaultConfigFile h, True))"

text \<open>
  \<open>InitConfigWithPath\<close>. The command line reaches it as \<open>cliConfig\<close> (the flags that
  write into a field) and as the value of the flag \<open>config-file\<close>. It assigns the
  package's variables as it goes, also on the way to an error: the result is the
  variables as it leaves them, and the error or the path it returns. Setting up the log
  output, whose failures the code ignores, is left out.
\<close>

definition InitConfigWithPath ::
  "host \<Rightarrow> config \<Rightarrow> string \<Rightarrow> string \<Rightarrow> Defaults option \<Rightarrow> globals \<Rightarrow>
     globals \<times> (error + string)" where
  "InitConfigWithPath h cliConfig configFileFlag configFile0 defaults0 g =
     (let (configFile, configFileIsDefault) =
            (if configFile0 = [] then getConfigFilePath h configFileFlag
             else (configFile0, False));
          retConfigFile = (if \<not> configFileIsDefault then configFile else [])
      in
        case readConfigFile h configFile of
          ParseFailed \<Rightarrow> (g, Inl (FailedToParseConfigFile configFile))
        | f \<Rightarrow>
            if f = OpenFailed \<and> \<not> configFileIsDefault
            then (g, Inl (FailedToOpenConfigFile configFile))
            else
              (let cfg = (case f of Parsed c \<Rightarrow> c | _ \<Rightarrow> zero_config);
                   defaults = (case defaults0 of None \<Rightarrow> zero_Defaults | Some d \<Rightarrow> d);
                   g1 = g\<lparr>globals.Default :=
                          overrideFields_DefaultConfig
                            (overrideFields_DefaultConfig (globals.Default g) (config.Default cfg))
                            (config.Default cliConfig)\<rparr>;
                   g2 = g1\<lparr>globals.CNI :=
                          overrideFields_CNIConfig
                            (overrideFields_CNIConfig (globals.CNI g1) (config.CNI cfg))
                            (config.CNI cliConfig)\<rparr>;
                   g3 = g2\<lparr>globals.Logging :=
                          overrideFields_LoggingConfig
                            (overrideFields_LoggingConfig (globals.Logging g2) (config.Logging cfg))
                            (config.Logging cliConfig)\<rparr>;
                   (k, kerr) = buildKubernetesConfig h cliConfig cfg defaults (globals.Kubernetes g3);
                   g4 = g3\<lparr>globals.Kubernetes := k\<rparr>
               in
                 case kerr of
                   Some err \<Rightarrow> (g4, Inl err)
                 | None \<Rightarrow>
                     (case buildOvnAuth h ''nb'' ''ovn-nb'' (config.OvnNorth cliConfig)
                             (config.OvnNorth cfg) (OvnNorthAddress defaults) of
                        Inl err \<Rightarrow> (g4\<lparr>globals.OvnNorth := \<lparr>ClientAuth = None\<rparr>\<rparr>, Inl err)
                      | Inr north \<Rightarrow>
                          (let g5 = g4\<lparr>globals.OvnNorth := north\<rparr> in
                           case buildOvnAuth h ''sb'' ''ovn-remote'' (config.OvnSouth cliConfig)
                                  (config.OvnSouth cfg) False of
                             Inl err \<Rightarrow> (g5\<lparr>globals.OvnSouth := \<lparr>ClientAuth = None\<rparr>\<rparr>, Inl err)
                           | Inr south \<Rightarrow> (g5\<lparr>globals.OvnSouth := south\<rparr>, Inr retConfigFile)))))"

definition InitConfig ::
  "host \<Rightarrow> config \<Rightarrow> string \<Rightarrow> Defaults option \<Rightarrow> globals \<Rightarrow> globals \<times> (error + string)" where
  "InitConfig h cliConfig configFileFlag defaults g =
     InitConfigWithPath h cliConfig configFileFlag [] defaults g"

subsection \<open>updateIP and UpdateOvnNodeAuth\<close>

text \<open>\<open>updateIP\<close> changes the structure it is called on: the result is the structure
  as it leaves it, and the error, if any.\<close>

definition updateIP :: "OvnDBAuth \<Rightarrow> string \<Rightarrow> OvnDBAuth \<times> error option" where
  "updateIP a newIP =
     (if OvnAddressForClient a \<noteq> [] then
        (let s = Split (CHR '':'') (OvnAddressForClient a) in
         if length s \<noteq> 3
         then (a, Some (FailedToParseOvnAddressForClient (OvnAddressForClient a)))
         else (a\<lparr>OvnAddressForClient := s ! 0 @ '':'' @ newIP @ s ! 2\<rparr>, None))
      else (a, None))"

definition UpdateOvnNodeAuth :: "string \<Rightarrow> globals \<Rightarrow> globals \<times> error option" where
  "UpdateOvnNodeAuth masterIP g =
     (case ClientAuth (globals.OvnNorth g) of
        None \<Rightarrow> (g, Some NilPointerDereference)
      | Some north \<Rightarrow>
          (case updateIP north masterIP of
             (north', Some err) \<Rightarrow>
               (g\<lparr>globals.OvnNorth := \<lparr>ClientAuth = Some north'\<rparr>\<rparr>, Some (FailedToUpdateOvnNorth err))
           | (north', None) \<Rightarrow>
               (let g1 = g\<lparr>globals.OvnNorth := \<lparr>ClientAuth = Some north'\<rparr>\<rparr> in
                case ClientAuth (globals.OvnSouth g1) of
                  None \<Rightarrow> (g1, Some NilPointerDereference)
                | Some south \<Rightarrow>
                    (case updateIP south masterIP of
                       (south', Some err) \<Rightarrow>
                         (g1\<lparr>globals.OvnSouth := \<lparr>ClientAuth = Some south'\<rparr>\<rparr>,
                          Some (FailedToUpdateOvnSouth err))
                     | (south', None) \<Rightarrow>
                         (g1\<lparr>globals.OvnSouth := \<lparr>ClientAuth = Some south'\<rparr>\<rparr>, None)))))"

text \<open>The endpoints of a connection string: what the loop of \<open>newOvnDBAuth\<close> runs over.\<close>

definition ovnAddresses :: "string \<Rightarrow> string list" where
  "ovnAddresses urlString = Split (CHR '','') (Replace_slashes urlString)"

text \<open>An endpoint whose host is a numeric IP address: three fields between colons, the
  last two a host and a port that \<open>net.SplitHostPort\<close> separates, and a host that
  \<open>net.ParseIP\<close> reads.\<close>

definition hostIsIP :: "string \<Rightarrow> bool" where
  "hostIsIP ovnAddress =
     (let splits = Split (CHR '':'') ovnAddress in
      length splits = 3 \<and>
      (case SplitHostPort (splits ! 1 @ '':'' @ splits ! 2) of
         Inl err \<Rightarrow> False
       | Inr (host, port) \<Rightarrow> ParseIP host \<noteq> None))"

text \<open>The precedence the specification gives for a field: the command line's value when
  it is set, else the configuration file's when it is set, else what lies beneath both.
  A value is set when it differs from the zero value of its type.\<close>

definition chosen :: "'a \<Rightarrow> 'a \<Rightarrow> 'a \<Rightarrow> 'a \<Rightarrow> 'a" where
  "chosen unset cliValue fileValue beneath =
     (if cliValue \<noteq> unset then cliValue
      else if fileValue \<noteq> unset then fileValue
      else beneath)"

text \<open>The configuration that the file contributes to \<open>InitConfigWithPath\<close>: its parsed
  content, or nothing when the default file is absent.\<close>

definition fileConfig :: "host \<Rightarrow> string \<Rightarrow> string \<Rightarrow> config" where
  "fileConfig h configFileFlag configFile0 =
     (case readConfigFile h
             (if configFile0 = [] then fst (getConfigFilePath h configFileFlag) else configFile0) of
        Parsed c \<Rightarrow> c
      | _ \<Rightarrow> zero_config)"

text \<open>A host with no configuration file, no Open vSwitch tools and no files, on which
  \<open>url_Parse\<close> answers with the text before the first colon.\<close>

definition bare_host :: host where
  "bare_host =
     \<lparr>exec = (\<lambda>cmd args. None),
      pathExists = (\<lambda>path. False),
      readConfigFile = (\<lambda>path. OpenFailed),
      url_Parse = (\<lambda>s. Some (takeWhile (\<lambda>c. c \<noteq> CHR '':'') s)),
      defaultConfigFile = ''/etc/openvswitch/ovn_k8s.conf''\<rparr>"

text \<open>The command line \<open>-nb-address=ssl://1.2.3.4:6641\<close>, and nothing else.\<close>

definition cli_nb_address_ssl :: config where
  "cli_nb_address_ssl =
     zero_config\<lparr>config.OvnNorth := zero_rawOvnAuthConfig\<lparr>Address := ''ssl://1.2.3.4:6641''\<rparr>\<rparr>"

text \<open>A configuration file that sets \<open>mtu=1500\<close> and \<open>conntrack-zone=64321\<close>, a
  host that has it at the default path, and the command line \<open>-mtu=1234\<close>.\<close>

definition file_mtu_conntrack :: config where
  "file_mtu_conntrack =
     zero_config\<lparr>config.Default :=
       \<lparr>MTU = 1500, ConntrackZone = 64321, EncapType = [], EncapIP = [], InactivityProbe = 0\<rparr>\<rparr>"

definition host_with_file :: host where
  "host_with_file = bare_host\<lparr>readConfigFile := (\<lambda>path. Parsed file_mtu_conntrack)\<rparr>"

definition cli_mtu :: config where
  "cli_mtu =
     zero_config\<lparr>config.Default :=
       \<lparr>MTU = 1234, ConntrackZone = 0, EncapType = [], EncapIP = [], InactivityProbe = 0\<rparr>\<rparr>"

text \<open>The \<open>Defaults\<close> that ask for the Kubernetes API server only, and those that ask
  for everything; a host whose \<open>ovs-vsctl\<close> knows the external-ids \<open>k8s-api-server\<close>,
  \<open>k8s-api-token\<close> and \<open>ovn-nb\<close> and prints them between quotes, with a line feed after
  them, and prints an empty line for all others; and the command line
  \<open>-k8s-token=cli-token\<close>.\<close>

definition defaults_APIServer :: Defaults where
  "defaults_APIServer =
     \<lparr>OvnNorthAddress = False, K8sAPIServer = True, K8sToken = False, K8sCert = False\<rparr>"

definition defaults_all :: Defaults where
  "defaults_all =
     \<lparr>OvnNorthAddress = True, K8sAPIServer = True, K8sToken = True, K8sCert = True\<rparr>"

definition quoted :: "string \<Rightarrow> string" where
  "quoted s = [CHR 0x22] @ s @ [CHR 0x22, CHR 0x0A]"

definition host_with_ovs :: host where
  "host_with_ovs =
     bare_host\<lparr>exec := (\<lambda>cmd args.
       if cmd \<noteq> ''ovs-vsctl'' then None
       else if last args = ''external_ids:k8s-api-server'' then Some (quoted ''https://1.2.3.4:8443'')
       else if last args = ''external_ids:k8s-api-token'' then Some (quoted ''ovs-token'')
       else if last args = ''external_ids:ovn-nb'' then Some (quoted ''tcp://1.1.1.1:6641'')
       else Some [CHR 0x0A])\<rparr>"

definition cli_token :: config where
  "cli_token =
     zero_config\<lparr>config.Kubernetes :=
       \<lparr>Kubeconfig = [], KubernetesConfig.CACert = [], APIServer = [], Token = ''cli-token''\<rparr>\<rparr>"

section \<open>Command ovnkube (go-controller/cmd/ovnkube/ovnkube.go)\<close>

text \<open>\<open>CIDRNetworkEntry\<close> of package \<open>cluster\<close>: a network and the prefix length of
  the subnets handed to the nodes, a \<open>uint32\<close>.\<close>

record CIDRNetworkEntry =
  CIDR :: IPNet
  HostSubnetLength :: "32 word"

datatype cluster_error =
    ParseUintFailed string NumError
  | NotFormattedProperly
      \<comment> \<open>cluster-cidr not formatted properly\<close>
  | ParseCIDRFailed string
  | CIDROverlaps IPNet
      \<comment> \<open>CIDR \<open>cidr\<close> overlaps with another cluster network CIDR\<close>

fun cidrsOverlap :: "IPNet \<Rightarrow> CIDRNetworkEntry list \<Rightarrow> bool" where
  "cidrsOverlap cidr [] = False"
| "cidrsOverlap cidr (clusterEntry # cidrList) =
     (if Contains cidr (IP (CIDR clusterEntry)) \<or> Contains (CIDR clusterEntry) (IP cidr) then True
      else cidrsOverlap cidr cidrList)"

text \<open>The loop of \<open>parseClusterSubnetEntries\<close>; its state is \<open>parsedClusterList\<close>.\<close>

fun parseClusterSubnetEntries_loop ::
  "CIDRNetworkEntry list \<Rightarrow> string list \<Rightarrow> cluster_error + CIDRNetworkEntry list" where
  "parseClusterSubnetEntries_loop parsedClusterList [] = Inr parsedClusterList"
| "parseClusterSubnetEntries_loop parsedClusterList (clusterEntry # rest) =
     (let splitClusterEntry = Split (CHR ''/'') clusterEntry in
      case
        (if length splitClusterEntry = 3 then
           (case ParseUint32 (splitClusterEntry ! 2) of
              Inl err \<Rightarrow> Inl (ParseUintFailed (splitClusterEntry ! 2) err)
            | Inr tmp \<Rightarrow> Inr (word_of_nat tmp))
         else if length splitClusterEntry = 2 then Inr 24
         else Inl NotFormattedProperly)
      of
        Inl err \<Rightarrow> Inl err
      | Inr hostSubnetLength \<Rightarrow>
          (case ParseCIDR (splitClusterEntry ! 0 @ ''/'' @ splitClusterEntry ! 1) of
             None \<Rightarrow> Inl (ParseCIDRFailed (splitClusterEntry ! 0 @ ''/'' @ splitClusterEntry ! 1))
           | Some (ip, cidr) \<Rightarrow>
               if cidrsOverlap cidr parsedClusterList then Inl (CIDROverlaps cidr)
               else
                 parseClusterSubnetEntries_loop
                   (parsedClusterList @ [\<lparr>CIDR = cidr, HostSubnetLength = hostSubnetLength\<rparr>])
                   rest))"

definition parseClusterSubnetEntries :: "string \<Rightarrow> cluster_error + CIDRNetworkEntry list" where
  "parseClusterSubnetEntries clusterSubnetCmd =
     parseClusterSubnetEntries_loop [] (Split (CHR '','') clusterSubnetCmd)"

text \<open>The addresses of a network, and the prefix length of an entry.\<close>

definition addresses :: "IPNet \<Rightarrow> IP set" where
  "addresses n = {ip. Contains n ip}"

definition prefixLength :: "CIDRNetworkEntry \<Rightarrow> nat" where
  "prefixLength e = Mask_Size (Mask (CIDR e))"

section \<open>The management port (CreateManagementPort)\<close>

text \<open>
  \<open>CreateManagementPort\<close> and \<open>configureManagementPort\<close> run the tools
  \<open>ovs-vsctl\<close>, \<open>ovn-nbctl\<close> and \<open>ip\<close> through package \<open>util\<close>, which is not among
  the sources. Its functions are parameters of the model: \<open>NextIP\<close>,
  \<open>GetK8sMgmtIntfName\<close>, and \<open>run\<close> for \<open>RunOVSVsctl\<close>, \<open>RunOVNNbctl\<close> and
  \<open>RunIP\<close>, which answers a command, given the commands run before it, with its
  standard output and its error, if any. The model is the code on a host that is not
  Windows. Its result is the list of the commands run, in order, and the error returned.
\<close>

datatype command = OVSVsctl "string list" | OVNNbctl "string list" | IPTool "string list"

datatype run_error = NotExist | OtherError

record util =
  NextIP :: "IP \<Rightarrow> IP"
  GetK8sMgmtIntfName :: "string \<Rightarrow> string"
  run :: "command list \<Rightarrow> command \<Rightarrow> string \<times> run_error option"

datatype port_error =
    FailedToParseLocalSubnet string
  | CommandFailed command run_error
  | FailedToGetMacAddress string

definition toLowerChar :: "char \<Rightarrow> char" where
  "toLowerChar c =
     (case IndexByte ''ABCDEFGHIJKLMNOPQRSTUVWXYZ'' c of
        None \<Rightarrow> c
      | Some i \<Rightarrow> ''abcdefghijklmnopqrstuvwxyz'' ! i)"

definition ToLower :: "string \<Rightarrow> string" where
  "ToLower s = map toLowerChar s"

definition itoa_int :: "int \<Rightarrow> string" where
  "itoa_int i = (if i < 0 then ''-'' @ itoa (nat (- i)) else itoa (nat i))"

text \<open>Commands run one after the other, up to the first that fails.\<close>

fun runAll :: "util \<Rightarrow> command list \<Rightarrow> command list \<Rightarrow> command list \<times> port_error option" where
  "runAll u trace [] = (trace, None)"
| "runAll u trace (c # cs) =
     (case snd (run u trace c) of
        Some err \<Rightarrow> (trace @ [c], Some (CommandFailed c err))
      | None \<Rightarrow> runAll u (trace @ [c]) cs)"

definition configureManagementPort ::
  "util \<Rightarrow> command list \<Rightarrow> string list \<Rightarrow> string \<Rightarrow> string \<Rightarrow> string \<Rightarrow> string \<Rightarrow> string \<Rightarrow>
     command list \<times> port_error option" where
  "configureManagementPort u trace clusterSubnet clusterServicesSubnet routerIP routerMac
     interfaceName interfaceIP =
     (case runAll u trace
        ([IPTool [''link'', ''set'', interfaceName, ''up''],
          IPTool [''addr'', ''flush'', ''dev'', interfaceName],
          IPTool [''addr'', ''add'', interfaceIP, ''dev'', interfaceName]] @
         concat (map (\<lambda>subnet.
            [IPTool [''route'', ''flush'', subnet],
             IPTool [''route'', ''add'', subnet, ''via'', routerIP]]) clusterSubnet) @
         (if clusterServicesSubnet \<noteq> [] then
            [IPTool [''route'', ''flush'', clusterServicesSubnet],
             IPTool [''route'', ''add'', clusterServicesSubnet, ''via'', routerIP]]
          else []))
      of
        (trace', Some err) \<Rightarrow> (trace', Some err)
      | (trace', None) \<Rightarrow>
          (let neigh = IPTool [''neigh'', ''add'', routerIP, ''dev'', interfaceName, ''lladdr'', routerMac]
           in case snd (run u trace' neigh) of
                Some NotExist \<Rightarrow> (trace' @ [neigh], Some (CommandFailed neigh NotExist))
              | _ \<Rightarrow> (trace' @ [neigh], None)))"

definition CreateManagementPort ::
  "util \<Rightarrow> int \<Rightarrow> string \<Rightarrow> string \<Rightarrow> string \<Rightarrow> string list \<Rightarrow> command list \<times> port_error option" where
  "CreateManagementPort u mtu nodeName0 localSubnet clusterServicesSubnet clusterSubnet =
     (case ParseCIDR localSubnet of
        None \<Rightarrow> ([], Some (FailedToParseLocalSubnet localSubnet))
      | Some (ip0, subnet) \<Rightarrow>
          (let ip1 = NextIP u ip0;
               routerIP = IP_String ip1;
               nodeName = ToLower nodeName0;
               addBr = OVSVsctl [''--'', ''--may-exist'', ''add-br'', ''br-int'']
           in
             case snd (run u [] addBr) of
               Some err \<Rightarrow> ([addBr], Some (CommandFailed addBr err))
             | None \<Rightarrow>
                 (let interfaceName = GetK8sMgmtIntfName u nodeName;
                      addPort = OVSVsctl [''--'', ''--may-exist'', ''add-port'', ''br-int'', interfaceName,
                        ''--'', ''set'', ''interface'', interfaceName, ''type=internal'',
                        ''mtu_request='' @ itoa_int mtu, ''external-ids:iface-id=k8s-'' @ nodeName]
                  in
                    case snd (run u [addBr] addPort) of
                      Some err \<Rightarrow> ([addBr, addPort], Some (CommandFailed addPort err))
                    | None \<Rightarrow>
                        (let getMac = OVSVsctl [''--if-exists'', ''get'', ''interface'', interfaceName,
                               ''mac_in_use''];
                             (macAddress, macErr) = run u [addBr, addPort] getMac
                         in
                           case macErr of
                             Some err \<Rightarrow> ([addBr, addPort, getMac], Some (CommandFailed getMac err))
                           | None \<Rightarrow>
                               if macAddress = ''[]''
                               then ([addBr, addPort, getMac], Some (FailedToGetMacAddress interfaceName))
                               else
                                 (let ip2 = NextIP u ip1;
                                      portIP = IP_String ip2;
                                      n = Mask_Size (Mask subnet);
                                      portIPMask = portIP @ ''/'' @ itoa n;
                                      lspAdd = OVNNbctl [''--'', ''--may-exist'', ''lsp-add'', nodeName,
                                        ''k8s-'' @ nodeName, ''--'', ''lsp-set-addresses'',
                                        ''k8s-'' @ nodeName, macAddress @ '' '' @ portIP]
                                  in
                                    case snd (run u [addBr, addPort, getMac] lspAdd) of
                                      Some err \<Rightarrow>
                                        ([addBr, addPort, getMac, lspAdd], Some (CommandFailed lspAdd err))
                                    | None \<Rightarrow>
                                        (let getRouterMac = OVNNbctl [''lsp-get-addresses'',
                                               ''stor-'' @ nodeName];
                                             (routerMac, routerMacErr) =
                                               run u [addBr, addPort, getMac, lspAdd] getRouterMac
                                         in
                                           case routerMacErr of
                                             Some err \<Rightarrow>
                                               ([addBr, addPort, getMac, lspAdd, getRouterMac],
                                                Some (CommandFailed getRouterMac err))
                                           | None \<Rightarrow>
                                               configureManagementPort u
                                                 [addBr, addPort, getMac, lspAdd, getRouterMac]
                                                 clusterSubnet clusterServicesSubnet routerIP routerMac
                                                 interfaceName portIPMask))))))"

text \<open>The number an address stands for: its bytes, the most significant first, four of
  them for an IPv4 address in either form. The \<open>i\<close>-th address of a subnet is counted
  from its network address, as the specification counts them (of \<open>10.0.0.0/24\<close> it
  reserves \<open>.0\<close> and \<open>.1\<close> and gives \<open>.2\<close> to the first endpoint).\<close>

definition addressNumber :: "IP \<Rightarrow> nat" where
  "addressNumber ip =
     foldl (\<lambda>n b. n * 256 + unat b) 0 (if To4 ip \<noteq> [] then To4 ip else ip)"

definition HostSubnet_at :: "IPNet \<Rightarrow> nat \<Rightarrow> nat" where
  "HostSubnet_at subnet i = addressNumber (IP subnet) + i"

text \<open>A \<open>util\<close> whose commands all succeed, with fixed answers, and whose \<open>NextIP\<close>
  is the address one above, in four bytes for an IPv4 address: \<open>increment\<close> adds one to
  the last byte of the bytes written in reverse, and carries.\<close>

fun increment :: "byte list \<Rightarrow> byte list" where
  "increment [] = []"
| "increment (b # bs) = (if b = 0xff then 0 # increment bs else (b + 1) # bs)"

definition plain_util :: util where
  "plain_util =
     \<lparr>NextIP = (\<lambda>ip. rev (increment (rev (if To4 ip \<noteq> [] then To4 ip else ip)))),
      GetK8sMgmtIntfName = (\<lambda>nodeName. ''k8s-'' @ nodeName),
      run = (\<lambda>trace c.
        (case c of
           OVSVsctl args \<Rightarrow> if last args = ''mac_in_use'' then ''0a:58:0a:00:00:02'' else []
         | OVNNbctl args \<Rightarrow> if hd args = ''lsp-get-addresses'' then ''0a:58:0a:00:00:01'' else []
         | IPTool args \<Rightarrow> [],
         None))\<rparr>"

text \<open>The network that an entry of the cluster subnet list names: what \<open>net.ParseCIDR\<close>
  reads from its first two parts, when it has two or three parts.\<close>

definition entryCIDR :: "string \<Rightarrow> IPNet option" where
  "entryCIDR clusterEntry =
     (let splitClusterEntry = Split (CHR ''/'') clusterEntry in
      if length splitClusterEntry = 2 \<or> length splitClusterEntry = 3
      then map_option snd (ParseCIDR (splitClusterEntry ! 0 @ ''/'' @ splitClusterEntry ! 1))
      else None)"

text \<open>A network as \<open>net.ParseCIDR\<close> returns it: the mask is a prefix of ones, of 32 or
  of 128 bits, and the address has the length of the mask and no bit outside it.\<close>

definition cidrNetwork :: "IPNet \<Rightarrow> bool" where
  "cidrNetwork n =
     (\<exists>bits \<in> {32, 128}. \<exists>ones \<le> bits.
        Mask n = CIDRMask ones bits \<and> length (IP n) = bits div 8 \<and>
        map2 (AND) (IP n) (Mask n) = IP n)"

section \<open>Facts about the library functions\<close>

lemma Split_not_Nil: "Split sep s \<noteq> []"
  by (induction s) (auto split: list.splits)

lemma Join_Cons_Cons: "Join ((c # w) # ws) sep = c # Join (w # ws) sep"
  by (cases ws) auto

lemma Join_Split: "Join (Split sep s) [sep] = s"
proof (induction s)
  case Nil
  then show ?case by simp
next
  case (Cons c cs)
  obtain w ws where w: "Split sep cs = w # ws"
    using Split_not_Nil [of sep cs] by (cases "Split sep cs") auto
  show ?case
  proof (cases "c = sep")
    case True
    with Cons w show ?thesis by simp
  next
    case False
    with Cons w show ?thesis by (simp add: Join_Cons_Cons)
  qed
qed

lemma Split_eq_three: "Split sep s = [a, b, c] \<Longrightarrow> s = a @ sep # b @ sep # c"
  using Join_Split [of sep s] by simp

lemma Split_without_sep: "sep \<notin> set a \<Longrightarrow> Split sep a = [a]"
  by (induction a) auto

lemma Split_append_sep: "sep \<notin> set a \<Longrightarrow> Split sep (a @ sep # r) = a # Split sep r"
  by (induction a) auto

lemma Split_no_sep: "x \<in> set (Split sep s) \<Longrightarrow> sep \<notin> set x"
proof (induction s arbitrary: x)
  case Nil
  then show ?case by simp
next
  case (Cons c cs)
  obtain w ws where w: "Split sep cs = w # ws"
    using Split_not_Nil [of sep cs] by (cases "Split sep cs") auto
  show ?case
  proof (cases "c = sep")
    case True
    with Cons show ?thesis by auto
  next
    case False
    with Cons w show ?thesis by auto
  qed
qed

text \<open>The loops whose counter is a numeral.\<close>

lemma replicate_numeral_Cons: "replicate (numeral k) x = x # replicate (pred_numeral k) x"
  by (simp add: numeral_eq_Suc)

lemma leadingOnes_numeral:
  "leadingOnes (numeral k) v =
     (if v AND 0x80 \<noteq> 0 then
        (case leadingOnes (pred_numeral k) (push_bit 1 v) of (n, v') \<Rightarrow> (Suc n, v'))
      else (0, v))"
  by (simp add: numeral_eq_Suc)

lemma CIDRMask_loop_numeral:
  "CIDRMask_loop (numeral k) n =
     (if n \<ge> 8 then 0xff # CIDRMask_loop (pred_numeral k) (n - 8)
      else NOT (drop_bit n 0xff) # CIDRMask_loop (pred_numeral k) 0)"
  by (simp add: numeral_eq_Suc)

lemma parseIPv6_loop_numeral:
  "parseIPv6_loop (numeral k) bytes ellipsis s =
     (case xtoi s of
        (n, c, ok) \<Rightarrow>
          if \<not> ok \<or> n > 0xFFFF then None
          else if c < length s \<and> s ! c = CHR ''.'' then
            (if ellipsis = None \<and> length bytes \<noteq> 12 then None
             else if length bytes + 4 > 16 then None
             else
               (case parseIPv4 s of
                  None \<Rightarrow> None
                | Some ip4 \<Rightarrow> Some (bytes @ drop 12 ip4, ellipsis, [])))
          else
            (let bytes' = bytes @ [of_nat (n div 256 mod 256), of_nat (n mod 256)];
                 s1 = drop c s
             in
               if s1 = [] then Some (bytes', ellipsis, s1)
               else if hd s1 \<noteq> CHR '':'' \<or> length s1 = 1 then None
               else
                 (let s2 = tl s1 in
                  if hd s2 = CHR '':'' then
                    (if ellipsis \<noteq> None then None
                     else if tl s2 = [] then Some (bytes', Some (length bytes'), [])
                     else parseIPv6_loop (pred_numeral k) bytes' (Some (length bytes')) (tl s2))
                  else parseIPv6_loop (pred_numeral k) bytes' ellipsis s2)))"
  unfolding numeral_eq_Suc parseIPv6_loop.simps ..

text \<open>The equations that run the library functions on given arguments.\<close>

lemmas library_defs =
  dtoi_def isDigit_def digitVal_def big_def parseIPv4_def ParseIP_def SplitHostPort_def
  SplitHostPort_tail_def ParseCIDR_def IPv4_def v4InV6Prefix_def CIDRMask_def Mask_Size_def
  Contains_def networkNumberAndMask_def To4_def IP_Mask_def parseIPv6_def parseIPv6_expand_def
  xtoi_def hexVal_def ParseUint32_def IP_String_def digitChar_def itoa.simps HasPrefix_def
  hexDigit_def appendHex.simps zeroRun.simps hexString_def
  leadingOnes_numeral CIDRMask_loop_numeral parseIPv6_loop_numeral replicate_numeral_Cons

section \<open>The loop of newOvnDBAuth\<close>

text \<open>The host that \<open>newOvnDBAuth\<close> hands to \<open>net.ParseIP\<close> has no colon in it: it is
  cut from one field of a split at the colons. So \<open>net.ParseIP\<close> never takes it for an
  IPv6 literal.\<close>

lemma LastIndexByte_append_sep:
  "c \<notin> set p \<Longrightarrow> LastIndexByte (h @ c # p) c = Some (length h)"
proof (induction h)
  case Nil
  have "LastIndexByte p c = None" using Nil by (induction p) (auto split: option.splits)
  then show ?case by simp
next
  case (Cons x h)
  then show ?case by simp
qed

lemma SplitHostPort_host_of_field:
  assumes "SplitHostPort (h @ '':'' @ p) = Inr (host, port)" "CHR '':'' \<notin> set p"
  shows "set host \<subseteq> set h"
proof -
  have i: "LastIndexByte (h @ '':'' @ p) (CHR '':'') = Some (length h)"
    using LastIndexByte_append_sep [OF assms(2), of h] by simp
  have "host = take (length h) (h @ '':'' @ p) \<or>
      (\<exists>e. Suc e = length h \<and> host = drop 1 (take e (h @ '':'' @ p)))"
    using assms(1) unfolding SplitHostPort_def i
    by (auto simp: SplitHostPort_tail_def Let_def split: if_splits option.splits)
  then show ?thesis
  proof
    assume "host = take (length h) (h @ '':'' @ p)"
    then show ?thesis by simp
  next
    assume "\<exists>e. Suc e = length h \<and> host = drop 1 (take e (h @ '':'' @ p))"
    then obtain e where e: "Suc e = length h" "host = drop 1 (take e (h @ '':'' @ p))"
      by blast
    then have "host = drop 1 (take e h)" by simp
    then show ?thesis
      by (metis set_drop_subset set_take_subset subset_trans)
  qed
qed

lemma ParseIP_argument_has_no_colon:
  assumes "length (Split (CHR '':'') ovnAddress) = 3"
    and "SplitHostPort (Split (CHR '':'') ovnAddress ! 1 @ '':'' @ Split (CHR '':'') ovnAddress ! 2) =
      Inr (host, port)"
  shows "CHR '':'' \<notin> set host"
proof -
  have "Split (CHR '':'') ovnAddress ! 1 \<in> set (Split (CHR '':'') ovnAddress)"
    "Split (CHR '':'') ovnAddress ! 2 \<in> set (Split (CHR '':'') ovnAddress)"
    using assms(1) by simp_all
  then have "CHR '':'' \<notin> set (Split (CHR '':'') ovnAddress ! 1)"
    "CHR '':'' \<notin> set (Split (CHR '':'') ovnAddress ! 2)"
    by (simp_all add: Split_no_sep)
  with SplitHostPort_host_of_field [OF assms(2)] show ?thesis by blast
qed

lemma loop_accepts_only_IP_hosts:
  "newOvnDBAuth_loop u s0 a0 eps = Inr (s, a) \<Longrightarrow> ep \<in> set eps \<Longrightarrow> hostIsIP ep"
proof (induction eps arbitrary: s0 a0)
  case Nil
  then show ?case by simp
next
  case (Cons x xs)
  from Cons.prems(1) have x: "hostIsIP x"
    by (auto simp: hostIsIP_def Let_def split: if_splits sum.splits prod.splits)
  from Cons.prems(1) obtain s1 a1 where "newOvnDBAuth_loop u s1 a1 xs = Inr (s, a)"
    by (auto simp: Let_def split: if_splits sum.splits prod.splits)
  with Cons.IH Cons.prems(2) x show ?case by auto
qed

lemma loop_append:
  "newOvnDBAuth_loop u s0 a0 pre = Inr (s1, a1) \<Longrightarrow>
   newOvnDBAuth_loop u s0 a0 (pre @ rest) = newOvnDBAuth_loop u s1 a1 rest"
proof (induction pre arbitrary: s0 a0)
  case Nil
  then show ?case by simp
next
  case (Cons x xs)
  then show ?case
    by (auto simp: Let_def split: if_splits sum.splits prod.splits)
qed

lemma loop_HostMustBeIP:
  "newOvnDBAuth_loop u s0 a0 eps = Inl (HostMustBeIP hp) \<Longrightarrow>
   \<exists>ep \<in> set eps. \<exists>host port.
     length (Split (CHR '':'') ep) = 3 \<and>
     hp = Split (CHR '':'') ep ! 1 @ '':'' @ Split (CHR '':'') ep ! 2 \<and>
     SplitHostPort hp = Inr (host, port) \<and> ParseIP host = None"
proof (induction eps arbitrary: s0 a0)
  case Nil
  then show ?case by simp
next
  case (Cons x xs)
  then show ?case
    by (fastforce simp: Let_def split: if_splits sum.splits prod.splits)
qed

lemma loop_same_scheme_no_InvalidProtocols:
  "\<forall>ep \<in> set eps. Split (CHR '':'') ep ! 0 = sch \<Longrightarrow> s0 = [] \<or> s0 = sch \<Longrightarrow>
   newOvnDBAuth_loop u s0 a0 eps \<noteq> Inl (InvalidProtocols x)"
proof (induction eps arbitrary: s0 a0)
  case Nil
  then show ?case by simp
next
  case (Cons y ys)
  then show ?case
    by (auto simp: Let_def split: if_splits sum.splits prod.splits)
qed

lemma loop_fixed_scheme:
  "newOvnDBAuth_loop u s0 a0 eps = Inr (s, a) \<Longrightarrow> s0 \<noteq> [] \<Longrightarrow>
   s = s0 \<and> (\<forall>ep \<in> set eps. Split (CHR '':'') ep ! 0 = s0)"
proof (induction eps arbitrary: a0)
  case Nil
  then show ?case by simp
next
  case (Cons y ys)
  then show ?case
    by (fastforce simp: Let_def split: if_splits sum.splits prod.splits)
qed

lemma loop_accepts:
  "\<forall>ep \<in> set eps. hostIsIP ep \<and> Split (CHR '':'') ep ! 0 = sch \<Longrightarrow> s0 = [] \<or> s0 = sch \<Longrightarrow>
   \<exists>s1 a1. newOvnDBAuth_loop u s0 a0 eps = Inr (s1, a1) \<and> (s1 = [] \<or> s1 = sch) \<and>
     (eps \<noteq> [] \<longrightarrow> s1 = sch)"
proof (induction eps arbitrary: s0 a0)
  case Nil
  then show ?case by simp
next
  case (Cons y ys)
  from Cons.prems(1) have y: "hostIsIP y" "Split (CHR '':'') y ! 0 = sch"
    and ys: "\<forall>ep \<in> set ys. hostIsIP ep \<and> Split (CHR '':'') ep ! 0 = sch"
    by auto
  from y(1) obtain host port where
    len: "length (Split (CHR '':'') y) = 3" and
    hp: "SplitHostPort (Split (CHR '':'') y ! 1 @ '':'' @ Split (CHR '':'') y ! 2) = Inr (host, port)" and
    ip: "ParseIP host \<noteq> None"
    by (auto simp: hostIsIP_def Let_def split: sum.splits)
  let ?s' = "if s0 = [] then sch else s0"
  let ?a' = "if a0 = [] then ?s' @ '':'' @ host @ '':'' @ port
             else a0 @ '','' @ ?s' @ '':'' @ host @ '':'' @ port"
  have step: "newOvnDBAuth_loop u s0 a0 (y # ys) = newOvnDBAuth_loop u ?s' ?a' ys"
    using len hp ip y(2) Cons.prems(2) by (auto simp: Let_def)
  have "?s' = [] \<or> ?s' = sch" using Cons.prems(2) by auto
  from Cons.IH [OF ys this, of ?a'] obtain s1 a1 where
    r: "newOvnDBAuth_loop u ?s' ?a' ys = Inr (s1, a1)" "s1 = [] \<or> s1 = sch" "ys \<noteq> [] \<longrightarrow> s1 = sch"
    by blast
  have "s1 = sch"
  proof (cases "sch = []")
    case True
    with r(2) show ?thesis by simp
  next
    case False
    then have "?s' \<noteq> []" using Cons.prems(2) by auto
    from loop_fixed_scheme [OF r(1) this] have "s1 = ?s'" by simp
    then show ?thesis using Cons.prems(2) False by auto
  qed
  with step r(1) show ?case by simp
qed

lemma loop_rejects_mixed_schemes:
  "i < j \<Longrightarrow> j < length eps \<Longrightarrow> Split (CHR '':'') (eps ! i) ! 0 \<noteq> [] \<Longrightarrow>
   Split (CHR '':'') (eps ! j) ! 0 \<noteq> Split (CHR '':'') (eps ! i) ! 0 \<Longrightarrow>
   \<exists>err. newOvnDBAuth_loop u s0 a0 eps = Inl err"
proof (induction eps arbitrary: i j s0 a0)
  case Nil
  then show ?case by simp
next
  case (Cons y ys)
  show ?case
  proof (cases "newOvnDBAuth_loop u s0 a0 (y # ys)")
    case (Inl err)
    then show ?thesis by simp
  next
    case (Inr r)
    obtain s a where r: "r = (s, a)" by (cases r)
    from Inr r obtain s1 a1 where
      tl: "newOvnDBAuth_loop u s1 a1 ys = Inr (s, a)" and
      s1: "s1 = (if s0 = [] then Split (CHR '':'') y ! 0 else s0)" and
      ok: "s0 = [] \<or> s0 = Split (CHR '':'') y ! 0"
      by (auto simp: Let_def split: if_splits sum.splits prod.splits)
    obtain j' where j': "j = Suc j'" using Cons.prems(1) by (cases j) auto
    show ?thesis
    proof (cases i)
      case 0
      with Cons.prems(3) have "Split (CHR '':'') y ! 0 \<noteq> []" by simp
      with s1 ok have ne: "s1 \<noteq> []" and eq: "s1 = Split (CHR '':'') y ! 0" by auto
      from loop_fixed_scheme [OF tl ne] have "\<forall>ep \<in> set ys. Split (CHR '':'') ep ! 0 = s1" by simp
      moreover have "ys ! j' \<in> set ys" using Cons.prems(2) j' by simp
      ultimately have "Split (CHR '':'') (ys ! j') ! 0 = s1" by blast
      with Cons.prems(4) 0 j' eq show ?thesis by simp
    next
      case (Suc i')
      with Cons.prems j' have "i' < j'" "j' < length ys"
        "Split (CHR '':'') (ys ! i') ! 0 \<noteq> []"
        "Split (CHR '':'') (ys ! j') ! 0 \<noteq> Split (CHR '':'') (ys ! i') ! 0"
        by auto
      from Cons.IH [OF this, of s1 a1] tl show ?thesis by simp
    qed
  qed
qed

lemma newOvnDBAuth_nonempty:
  "urlString \<noteq> [] \<Longrightarrow>
   newOvnDBAuth c e urlString privkey cert cacert =
     (case newOvnDBAuth_loop (Replace_slashes urlString) [] [] (ovnAddresses urlString) of
        Inl err \<Rightarrow> Inl err
      | Inr (scheme, addressForClient) \<Rightarrow>
          if scheme = ''ssl'' then
            (if privkey = [] \<or> cert = [] \<or> cacert = [] then Inl MustSpecifyKeyAndCerts
             else
               Inr \<lparr>OvnAddressForClient = addressForClient, PrivKey = privkey, Cert = cert,
                    CACert = cacert, Scheme = ''ssl'', ctlCmd = c, externalID = e\<rparr>)
          else if scheme = ''tcp'' then
            (if privkey \<noteq> [] \<or> cert \<noteq> [] \<or> cacert \<noteq> [] then Inl CertificateOrKeyGiven
             else
               Inr \<lparr>OvnAddressForClient = addressForClient, PrivKey = [], Cert = [],
                    CACert = [], Scheme = ''tcp'', ctlCmd = c, externalID = e\<rparr>)
          else Inl (UnknownScheme scheme))"
  by (simp add: newOvnDBAuth_def ovnAddresses_def Let_def OvnDBSchemeSSL_def OvnDBSchemeTCP_def
      split: sum.splits prod.splits)

lemma newOvnDBAuth_keeps_arguments:
  "newOvnDBAuth c e urlString privkey cert cacert = Inr a \<Longrightarrow>
   PrivKey a = privkey \<and> Cert a = cert \<and> CACert a = cacert \<and> ctlCmd a = c \<and> externalID a = e"
  by (auto simp: newOvnDBAuth_def Let_def split: if_splits sum.splits prod.splits)

section \<open>Claims about newOvnDBAuth\<close>

text \<open>The equations that run \<open>newOvnDBAuth\<close> on a given connection string.\<close>

lemmas run_newOvnDBAuth =
  newOvnDBAuth_def Let_def library_defs OvnDBSchemeSSL_def OvnDBSchemeTCP_def OvnDBSchemeUnix_def

text \<open>
  Claim C10. With the empty address string \<open>newOvnDBAuth\<close> returns an authentication
  whose scheme is \<open>unix\<close>, with no key and no certificate; if a private key, a
  certificate or a CA certificate comes with the empty address, it returns an error.
\<close>

theorem newOvnDBAuth_empty_address:
  "(privkey = [] \<and> cert = [] \<and> cacert = [] \<longrightarrow>
      newOvnDBAuth c e [] privkey cert cacert =
        Inr \<lparr>OvnAddressForClient = [], PrivKey = [], Cert = [], CACert = [], Scheme = ''unix'',
             ctlCmd = c, externalID = e\<rparr>) \<and>
   (privkey \<noteq> [] \<or> cert \<noteq> [] \<or> cacert \<noteq> [] \<longrightarrow>
      newOvnDBAuth c e [] privkey cert cacert = Inl CertificateOrKeyGiven)"
  by (simp add: newOvnDBAuth_def OvnDBSchemeUnix_def)

theorem newOvnDBAuth_empty_address_witness:
  "newOvnDBAuth ''ovn-nbctl'' ''ovn-nb'' [] [] [] [] =
     Inr \<lparr>OvnAddressForClient = [], PrivKey = [], Cert = [], CACert = [], Scheme = ''unix'',
          ctlCmd = ''ovn-nbctl'', externalID = ''ovn-nb''\<rparr> \<and>
   newOvnDBAuth ''ovn-nbctl'' ''ovn-nb'' [] ''/bar/baz/foo'' [] [] = Inl CertificateOrKeyGiven"
  using newOvnDBAuth_empty_address [where privkey = "[]" and cert = "[]" and cacert = "[]"
      and c = "''ovn-nbctl''" and e = "''ovn-nb''"]
    newOvnDBAuth_empty_address [where privkey = "''/bar/baz/foo''" and cert = "[]" and cacert = "[]"
      and c = "''ovn-nbctl''" and e = "''ovn-nb''"]
  by simp

text \<open>
  Claim C5, as stated: a connection string is accepted exactly when its scheme is one of
  \<open>tcp\<close>, \<open>ssl\<close>, \<open>unix\<close>. It fails for \<open>unix\<close>: the well-formed endpoint
  \<open>unix:1.2.3.4:6641\<close> is answered with the error for an unknown scheme.
\<close>

theorem newOvnDBAuth_unix_scheme_rejected:
  "newOvnDBAuth ''ovn-nbctl'' ''ovn-nb'' ''unix:1.2.3.4:6641'' [] [] [] =
     Inl (UnknownScheme ''unix'')"
  by (simp add: run_newOvnDBAuth)

text \<open>
  Claim C5, amended. Take a non-empty connection string whose endpoints all have a
  numeric IP host and one and the same scheme. It is accepted exactly when the scheme is
  \<open>ssl\<close> and private key, certificate and CA certificate are all given, or the scheme
  is \<open>tcp\<close> and none of them is given; the authentication returned carries that scheme.
  For any other scheme, \<open>unix\<close> among them, the result is the error for an unknown
  scheme. The scheme \<open>unix\<close> is returned for the empty connection string only.
\<close>

theorem newOvnDBAuth_accepts_ssl_and_tcp:
  assumes nonempty: "urlString \<noteq> []"
    and endpoints: "\<forall>ep \<in> set (ovnAddresses urlString). hostIsIP ep \<and> Split (CHR '':'') ep ! 0 = scheme"
  shows "((\<exists>a. newOvnDBAuth c e urlString privkey cert cacert = Inr a) \<longleftrightarrow>
            (scheme = ''ssl'' \<and> privkey \<noteq> [] \<and> cert \<noteq> [] \<and> cacert \<noteq> []) \<or>
            (scheme = ''tcp'' \<and> privkey = [] \<and> cert = [] \<and> cacert = [])) \<and>
         (\<forall>a. newOvnDBAuth c e urlString privkey cert cacert = Inr a \<longrightarrow> Scheme a = scheme) \<and>
         (scheme \<noteq> ''ssl'' \<and> scheme \<noteq> ''tcp'' \<longrightarrow>
            newOvnDBAuth c e urlString privkey cert cacert = Inl (UnknownScheme scheme)) \<and>
         (\<forall>c' e' u a. newOvnDBAuth c' e' u privkey cert cacert = Inr a \<longrightarrow>
            (Scheme a = ''unix'' \<longleftrightarrow> u = []))"
proof -
  have "ovnAddresses urlString \<noteq> []"
    by (simp add: ovnAddresses_def Split_not_Nil)
  with loop_accepts [OF endpoints, of "[]" "Replace_slashes urlString" "[]"]
  obtain a1 where loop:
    "newOvnDBAuth_loop (Replace_slashes urlString) [] [] (ovnAddresses urlString) = Inr (scheme, a1)"
    by auto
  have unix: "\<forall>c' e' u a. newOvnDBAuth c' e' u privkey cert cacert = Inr a \<longrightarrow>
      (Scheme a = ''unix'' \<longleftrightarrow> u = [])"
    by (auto simp: run_newOvnDBAuth split: if_splits sum.splits prod.splits)
  show ?thesis
    using unix by (simp add: newOvnDBAuth_nonempty [OF nonempty] loop)
qed

theorem newOvnDBAuth_accepts_ssl_and_tcp_witness:
  "(\<exists>a. newOvnDBAuth ''ovn-nbctl'' ''ovn-nb'' ''ssl://1.2.3.4:6641,ssl://1.2.3.5:6641''
          ''/client/privkey'' ''/client/cert'' ''/client/cacert'' = Inr a) \<and>
   newOvnDBAuth ''ovn-nbctl'' ''ovn-nb'' ''blah://1.2.3.4:5555'' [] [] [] =
     Inl (UnknownScheme ''blah'')"
proof -
  have ssl: "''ssl://1.2.3.4:6641,ssl://1.2.3.5:6641'' \<noteq> []"
    "\<forall>ep \<in> set (ovnAddresses ''ssl://1.2.3.4:6641,ssl://1.2.3.5:6641'').
       hostIsIP ep \<and> Split (CHR '':'') ep ! 0 = ''ssl''"
    by (simp_all add: ovnAddresses_def hostIsIP_def Let_def library_defs)
  have blah: "''blah://1.2.3.4:5555'' \<noteq> []"
    "\<forall>ep \<in> set (ovnAddresses ''blah://1.2.3.4:5555'').
       hostIsIP ep \<and> Split (CHR '':'') ep ! 0 = ''blah''"
    by (simp_all add: ovnAddresses_def hostIsIP_def Let_def library_defs)
  show ?thesis
    using newOvnDBAuth_accepts_ssl_and_tcp [OF ssl, of "''ovn-nbctl''" "''ovn-nb''"
        "''/client/privkey''" "''/client/cert''" "''/client/cacert''"]
      newOvnDBAuth_accepts_ssl_and_tcp [OF blah, of "''ovn-nbctl''" "''ovn-nb''" "[]" "[]" "[]"]
    by simp
qed

text \<open>
  Claim C6: two endpoints with different schemes in one connection string are rejected.
  The loop compares each scheme with the one it has seen, and takes the empty string for
  "none seen yet": after an endpoint whose scheme is empty it takes the next scheme
  without comparing. The string below, with the schemes \<open>''''\<close> and \<open>tcp\<close>, is
  accepted, and its first endpoint goes into the client address as it is.
\<close>

theorem newOvnDBAuth_empty_first_scheme:
  "newOvnDBAuth ''ovn-nbctl'' ''ovn-nb'' '':1.2.3.4:6641,tcp:1.2.3.5:6641'' [] [] [] =
     Inr \<lparr>OvnAddressForClient = '':1.2.3.4:6641,tcp:1.2.3.5:6641'', PrivKey = [], Cert = [],
          CACert = [], Scheme = ''tcp'', ctlCmd = ''ovn-nbctl'', externalID = ''ovn-nb''\<rparr>"
  by (simp add: run_newOvnDBAuth)

theorem newOvnDBAuth_empty_first_scheme_witness:
  "\<exists>a. newOvnDBAuth ''ovn-nbctl'' ''ovn-nb'' '':1.2.3.4:6641,tcp:1.2.3.5:6641'' [] [] [] = Inr a \<and>
       Scheme a = ''tcp'' \<and> OvnAddressForClient a = '':1.2.3.4:6641,tcp:1.2.3.5:6641''"
  using newOvnDBAuth_empty_first_scheme by simp

text \<open>What the loop does reject: two endpoints with different schemes, when the earlier
  of the two schemes is not empty. And endpoints that all have one scheme are never
  answered with the error for mixed schemes.\<close>

lemma newOvnDBAuth_rejects_mixed_schemes:
  assumes "urlString \<noteq> []" "i < j" "j < length (ovnAddresses urlString)"
    and "Split (CHR '':'') (ovnAddresses urlString ! i) ! 0 \<noteq> []"
    and "Split (CHR '':'') (ovnAddresses urlString ! j) ! 0 \<noteq>
         Split (CHR '':'') (ovnAddresses urlString ! i) ! 0"
  shows "\<exists>err. newOvnDBAuth c e urlString privkey cert cacert = Inl err"
  using loop_rejects_mixed_schemes [OF assms(2-5), of "Replace_slashes urlString" "[]" "[]"]
  by (auto simp: newOvnDBAuth_nonempty [OF assms(1)])

lemma newOvnDBAuth_one_scheme_not_mixed:
  assumes "\<forall>ep \<in> set (ovnAddresses urlString). Split (CHR '':'') ep ! 0 = scheme"
  shows "newOvnDBAuth c e urlString privkey cert cacert \<noteq> Inl (InvalidProtocols x)"
proof (cases "urlString = []")
  case True
  then show ?thesis by (simp add: newOvnDBAuth_def)
next
  case False
  from loop_same_scheme_no_InvalidProtocols [OF assms, of "[]" "Replace_slashes urlString" "[]" x]
  show ?thesis
    by (auto simp: newOvnDBAuth_nonempty [OF False] split: sum.splits prod.splits if_splits)
qed

text \<open>
  Claim C7, as stated: every endpoint whose host is not a numeric IP address makes
  \<open>newOvnDBAuth\<close> fail with an error naming that host. The loop returns at the first
  check that fails: of \<open>tcp://foo.org:1,tcp://bar.org:2\<close> the error names \<open>foo.org\<close>, and
  \<open>bar.org\<close>, the host of an endpoint of the string that is no IP address either, is
  named by no error.
\<close>

theorem newOvnDBAuth_names_first_host_only:
  "newOvnDBAuth ''ovn-nbctl'' ''ovn-nb'' ''tcp://foo.org:1,tcp://bar.org:2'' [] [] [] =
     Inl (HostMustBeIP ''foo.org:1'') \<and>
   ovnAddresses ''tcp://foo.org:1,tcp://bar.org:2'' = [''tcp:foo.org:1'', ''tcp:bar.org:2''] \<and>
   Split (CHR '':'') ''tcp:bar.org:2'' = [''tcp'', ''bar.org'', ''2''] \<and>
   SplitHostPort ''bar.org:2'' = Inr (''bar.org'', ''2'') \<and>
   ParseIP ''bar.org'' = None \<and>
   \<not> hostIsIP ''tcp:bar.org:2'' \<and>
   HostMustBeIP ''foo.org:1'' \<noteq> HostMustBeIP ''bar.org:2''"
  by (simp add: run_newOvnDBAuth ovnAddresses_def hostIsIP_def)

text \<open>
  Claim C7, amended. An endpoint whose host part is not a numeric IP address makes
  \<open>newOvnDBAuth\<close> fail, with the error of the first check that fails in the string;
  the error "must be an IP address, not a DNS name", whenever it
  is returned, quotes host and port of an endpoint of the string whose host
  \<open>net.ParseIP\<close> does not read; it is the error returned when the endpoints before the
  offending one are in order and have its scheme; and every endpoint of an accepted
  connection string has a numeric IP host.
\<close>

theorem newOvnDBAuth_host_must_be_IP:
  "(urlString \<noteq> [] \<longrightarrow> ep \<in> set (ovnAddresses urlString) \<longrightarrow> \<not> hostIsIP ep \<longrightarrow>
      (\<exists>err. newOvnDBAuth c e urlString privkey cert cacert = Inl err)) \<and>
   (newOvnDBAuth c e urlString privkey cert cacert = Inl (HostMustBeIP hostPort) \<longrightarrow>
      (\<exists>ep' \<in> set (ovnAddresses urlString). \<exists>host port.
         length (Split (CHR '':'') ep') = 3 \<and>
         hostPort = Split (CHR '':'') ep' ! 1 @ '':'' @ Split (CHR '':'') ep' ! 2 \<and>
         SplitHostPort hostPort = Inr (host, port) \<and> ParseIP host = None)) \<and>
   (urlString \<noteq> [] \<longrightarrow> ovnAddresses urlString = pre @ ep # post \<longrightarrow>
      (\<forall>x \<in> set pre. hostIsIP x \<and> Split (CHR '':'') x ! 0 = scheme) \<longrightarrow>
      Split (CHR '':'') ep = [scheme, h, p] \<longrightarrow>
      SplitHostPort (h @ '':'' @ p) = Inr (host, port) \<longrightarrow> ParseIP host = None \<longrightarrow>
      newOvnDBAuth c e urlString privkey cert cacert = Inl (HostMustBeIP (h @ '':'' @ p))) \<and>
   (urlString \<noteq> [] \<longrightarrow> newOvnDBAuth c e urlString privkey cert cacert = Inr a \<longrightarrow>
      (\<forall>x \<in> set (ovnAddresses urlString). hostIsIP x))"
proof (intro conjI impI)
  assume ne: "urlString \<noteq> []" and ep: "ep \<in> set (ovnAddresses urlString)" and bad: "\<not> hostIsIP ep"
  show "\<exists>err. newOvnDBAuth c e urlString privkey cert cacert = Inl err"
  proof (cases "newOvnDBAuth_loop (Replace_slashes urlString) [] [] (ovnAddresses urlString)")
    case (Inl err)
    then show ?thesis by (simp add: newOvnDBAuth_nonempty [OF ne])
  next
    case (Inr r)
    then have "hostIsIP ep"
      using loop_accepts_only_IP_hosts [of _ "[]" "[]" _ "fst r" "snd r" ep] ep by simp
    with bad show ?thesis by simp
  qed
next
  assume err: "newOvnDBAuth c e urlString privkey cert cacert = Inl (HostMustBeIP hostPort)"
  then have ne: "urlString \<noteq> []"
    by (auto simp: newOvnDBAuth_def split: if_splits)
  from err have
    "newOvnDBAuth_loop (Replace_slashes urlString) [] [] (ovnAddresses urlString) =
       Inl (HostMustBeIP hostPort)"
    by (auto simp: newOvnDBAuth_nonempty [OF ne] split: sum.splits prod.splits if_splits)
  from loop_HostMustBeIP [OF this]
  show "\<exists>ep' \<in> set (ovnAddresses urlString). \<exists>host port.
         length (Split (CHR '':'') ep') = 3 \<and>
         hostPort = Split (CHR '':'') ep' ! 1 @ '':'' @ Split (CHR '':'') ep' ! 2 \<and>
         SplitHostPort hostPort = Inr (host, port) \<and> ParseIP host = None" .
next
  assume ne: "urlString \<noteq> []" and eps: "ovnAddresses urlString = pre @ ep # post"
    and pre: "\<forall>x \<in> set pre. hostIsIP x \<and> Split (CHR '':'') x ! 0 = scheme"
    and ep: "Split (CHR '':'') ep = [scheme, h, p]"
    and hp: "SplitHostPort (h @ '':'' @ p) = Inr (host, port)" and ip: "ParseIP host = None"
  from loop_accepts [OF pre, of "[]" "Replace_slashes urlString" "[]"]
  obtain s1 a1 where
    l: "newOvnDBAuth_loop (Replace_slashes urlString) [] [] pre = Inr (s1, a1)" and
    s1: "s1 = [] \<or> s1 = scheme"
    by auto
  have "newOvnDBAuth_loop (Replace_slashes urlString) s1 a1 (ep # post) =
          Inl (HostMustBeIP (h @ '':'' @ p))"
    using ep hp ip s1 by (auto simp: Let_def)
  with loop_append [OF l, of "ep # post"] eps
  show "newOvnDBAuth c e urlString privkey cert cacert = Inl (HostMustBeIP (h @ '':'' @ p))"
    by (simp add: newOvnDBAuth_nonempty [OF ne])
next
  assume ne: "urlString \<noteq> []" and ok: "newOvnDBAuth c e urlString privkey cert cacert = Inr a"
  from ok obtain s1 a1 where
    "newOvnDBAuth_loop (Replace_slashes urlString) [] [] (ovnAddresses urlString) = Inr (s1, a1)"
    by (auto simp: newOvnDBAuth_nonempty [OF ne] split: sum.splits prod.splits if_splits)
  then show "\<forall>x \<in> set (ovnAddresses urlString). hostIsIP x"
    using loop_accepts_only_IP_hosts by blast
qed

theorem newOvnDBAuth_host_must_be_IP_witness:
  "(\<exists>err. newOvnDBAuth ''ovn-nbctl'' ''ovn-nb'' ''tcp://foobar.org:4444'' [] [] [] = Inl err) \<and>
   newOvnDBAuth ''ovn-nbctl'' ''ovn-nb'' ''tcp://foobar.org:4444'' [] [] [] =
     Inl (HostMustBeIP ''foobar.org:4444'') \<and>
   hostIsIP ''tcp:1.2.3.4:6641'' \<and> hostIsIP ''tcp:1.2.3.5:6641''"
proof -
  have eval: "ovnAddresses ''tcp://foobar.org:4444'' = [] @ ''tcp:foobar.org:4444'' # []"
    "ovnAddresses ''tcp://1.2.3.4:6641,tcp://1.2.3.5:6641'' = [''tcp:1.2.3.4:6641'', ''tcp:1.2.3.5:6641'']"
    "Split (CHR '':'') ''tcp:foobar.org:4444'' = [''tcp'', ''foobar.org'', ''4444'']"
    "SplitHostPort (''foobar.org'' @ '':'' @ ''4444'') = Inr (''foobar.org'', ''4444'')"
    "ParseIP ''foobar.org'' = None"
    "\<not> hostIsIP ''tcp:foobar.org:4444''"
    by (simp_all add: ovnAddresses_def hostIsIP_def Let_def library_defs)
  have ok: "newOvnDBAuth ''ovn-nbctl'' ''ovn-nb'' ''tcp://1.2.3.4:6641,tcp://1.2.3.5:6641'' [] [] [] =
      Inr \<lparr>OvnAddressForClient = ''tcp:1.2.3.4:6641,tcp:1.2.3.5:6641'', PrivKey = [], Cert = [],
           CACert = [], Scheme = ''tcp'', ctlCmd = ''ovn-nbctl'', externalID = ''ovn-nb''\<rparr>"
    by (simp add: run_newOvnDBAuth)
  show ?thesis
    using
      newOvnDBAuth_host_must_be_IP [where urlString = "''tcp://foobar.org:4444''"
        and ep = "''tcp:foobar.org:4444''" and pre = "[]" and post = "[]" and scheme = "''tcp''"
        and h = "''foobar.org''" and p = "''4444''" and host = "''foobar.org''" and port = "''4444''"
        and c = "''ovn-nbctl''" and e = "''ovn-nb''" and privkey = "[]" and cert = "[]"
        and cacert = "[]"]
      newOvnDBAuth_host_must_be_IP [where urlString = "''tcp://1.2.3.4:6641,tcp://1.2.3.5:6641''"
        and c = "''ovn-nbctl''" and e = "''ovn-nb''" and privkey = "[]" and cert = "[]"
        and cacert = "[]", THEN conjunct2, THEN conjunct2, THEN conjunct2] ok eval
    by simp
qed

section \<open>Claims about InitConfig\<close>

lemma overrideString_twice: "overrideString (overrideString b f) c = chosen [] c f b"
  by (simp add: overrideString_def chosen_def)

lemma overrideInt_twice: "overrideInt (overrideInt b f) c = chosen 0 c f b"
  by (simp add: overrideInt_def chosen_def)

lemma overrideFields_DefaultConfig_sel:
  "MTU (overrideFields_DefaultConfig a b) = overrideInt (MTU a) (MTU b)"
  "ConntrackZone (overrideFields_DefaultConfig a b) = overrideInt (ConntrackZone a) (ConntrackZone b)"
  "EncapType (overrideFields_DefaultConfig a b) = overrideString (EncapType a) (EncapType b)"
  "EncapIP (overrideFields_DefaultConfig a b) = overrideString (EncapIP a) (EncapIP b)"
  "InactivityProbe (overrideFields_DefaultConfig a b) =
     overrideInt (InactivityProbe a) (InactivityProbe b)"
  by (simp_all add: overrideFields_DefaultConfig_def)

lemma overrideFields_LoggingConfig_sel:
  "File (overrideFields_LoggingConfig a b) = overrideString (File a) (File b)"
  "Level (overrideFields_LoggingConfig a b) = overrideInt (Level a) (Level b)"
  by (simp_all add: overrideFields_LoggingConfig_def)

lemma overrideFields_CNIConfig_sel:
  "ConfDir (overrideFields_CNIConfig a b) = overrideString (ConfDir a) (ConfDir b)"
  "Plugin (overrideFields_CNIConfig a b) = overrideString (Plugin a) (Plugin b)"
  "WinHNSNetworkID (overrideFields_CNIConfig a b) =
     overrideString (WinHNSNetworkID a) (WinHNSNetworkID b)"
  by (simp_all add: overrideFields_CNIConfig_def)

lemma overrideFields_KubernetesConfig_sel:
  "Kubeconfig (overrideFields_KubernetesConfig a b) = overrideString (Kubeconfig a) (Kubeconfig b)"
  "KubernetesConfig.CACert (overrideFields_KubernetesConfig a b) =
     overrideString (KubernetesConfig.CACert a) (KubernetesConfig.CACert b)"
  "APIServer (overrideFields_KubernetesConfig a b) = overrideString (APIServer a) (APIServer b)"
  "Token (overrideFields_KubernetesConfig a b) = overrideString (Token a) (Token b)"
  by (simp_all add: overrideFields_KubernetesConfig_def)

lemma overrideFields_rawOvnAuthConfig_sel:
  "Address (overrideFields_rawOvnAuthConfig a b) = overrideString (Address a) (Address b)"
  "ClientPrivKey (overrideFields_rawOvnAuthConfig a b) =
     overrideString (ClientPrivKey a) (ClientPrivKey b)"
  "ClientCert (overrideFields_rawOvnAuthConfig a b) = overrideString (ClientCert a) (ClientCert b)"
  "ClientCACert (overrideFields_rawOvnAuthConfig a b) =
     overrideString (ClientCACert a) (ClientCACert b)"
  by (simp_all add: overrideFields_rawOvnAuthConfig_def)

lemma buildKubernetesConfig_fst:
  "fst (buildKubernetesConfig h cli file d k0) =
     overrideFields_KubernetesConfig
       (overrideFields_KubernetesConfig
          (k0\<lparr>APIServer := (if K8sAPIServer d then getOVSExternalID h ''k8s-api-server'' else APIServer k0),
              Token := (if K8sToken d then getOVSExternalID h ''k8s-api-token'' else Token k0),
              KubernetesConfig.CACert :=
                (if K8sCert d then getOVSExternalID h ''k8s-ca-certificate''
                 else KubernetesConfig.CACert k0)\<rparr>)
          (config.Kubernetes file))
       (config.Kubernetes cli)"
  by (cases "K8sAPIServer d"; cases "K8sToken d"; cases "K8sCert d")
     (simp_all add: buildKubernetesConfig_def Let_def split: option.splits)

lemma buildKubernetesConfig_fields:
  "Kubeconfig (fst (buildKubernetesConfig h cli file d k0)) =
     chosen [] (Kubeconfig (config.Kubernetes cli)) (Kubeconfig (config.Kubernetes file)) (Kubeconfig k0)"
  "KubernetesConfig.CACert (fst (buildKubernetesConfig h cli file d k0)) =
     chosen [] (KubernetesConfig.CACert (config.Kubernetes cli))
       (KubernetesConfig.CACert (config.Kubernetes file))
       (if K8sCert d then getOVSExternalID h ''k8s-ca-certificate'' else KubernetesConfig.CACert k0)"
  "APIServer (fst (buildKubernetesConfig h cli file d k0)) =
     chosen [] (APIServer (config.Kubernetes cli)) (APIServer (config.Kubernetes file))
       (if K8sAPIServer d then getOVSExternalID h ''k8s-api-server'' else APIServer k0)"
  "Token (fst (buildKubernetesConfig h cli file d k0)) =
     chosen [] (Token (config.Kubernetes cli)) (Token (config.Kubernetes file))
       (if K8sToken d then getOVSExternalID h ''k8s-api-token'' else Token k0)"
  by (simp_all add: buildKubernetesConfig_fst overrideFields_KubernetesConfig_sel
      overrideString_twice del: if_split cong: if_cong)

lemma buildOvnAuth_raw_Address:
  "Address (buildOvnAuth_raw h direction cliAuth confAuth readAddress) =
     chosen [] (Address cliAuth) (Address confAuth)
       (if readAddress then getOVSExternalID h (''ovn-'' @ direction) else [])"
  by (simp add: buildOvnAuth_raw_def Let_def overrideFields_rawOvnAuthConfig_sel
      overrideString_def chosen_def)

lemma buildOvnAuth_raw_keys:
  "ClientPrivKey (buildOvnAuth_raw h direction cliAuth confAuth readAddress) =
     chosen [] (ClientPrivKey cliAuth) (ClientPrivKey confAuth)
       (if HasPrefix (Address (buildOvnAuth_raw h direction cliAuth confAuth readAddress)) ''ssl''
        then ''/etc/openvswitch/ovn'' @ direction @ ''-privkey.pem'' else [])"
  "ClientCert (buildOvnAuth_raw h direction cliAuth confAuth readAddress) =
     chosen [] (ClientCert cliAuth) (ClientCert confAuth)
       (if HasPrefix (Address (buildOvnAuth_raw h direction cliAuth confAuth readAddress)) ''ssl''
        then ''/etc/openvswitch/ovn'' @ direction @ ''-cert.pem'' else [])"
  "ClientCACert (buildOvnAuth_raw h direction cliAuth confAuth readAddress) =
     chosen [] (ClientCACert cliAuth) (ClientCACert confAuth)
       (if HasPrefix (Address (buildOvnAuth_raw h direction cliAuth confAuth readAddress)) ''ssl''
        then ''/etc/openvswitch/ovn'' @ direction @ ''-ca.cert'' else [])"
  unfolding buildOvnAuth_raw_Address
  by (simp_all add: buildOvnAuth_raw_def Let_def overrideFields_rawOvnAuthConfig_sel
      overrideString_twice chosen_def [of "[]" "Address cliAuth"] overrideString_def [of "Address _"])

lemma buildOvnAuth_success:
  "buildOvnAuth h direction ext cliAuth confAuth readAddress = Inr n \<Longrightarrow>
   \<exists>a. n = \<lparr>ClientAuth = Some a\<rparr> \<and>
     newOvnDBAuth (''ovn-'' @ direction @ ''ctl'') ext
       (Address (buildOvnAuth_raw h direction cliAuth confAuth readAddress))
       (ClientPrivKey (buildOvnAuth_raw h direction cliAuth confAuth readAddress))
       (ClientCert (buildOvnAuth_raw h direction cliAuth confAuth readAddress))
       (ClientCACert (buildOvnAuth_raw h direction cliAuth confAuth readAddress)) = Inr a"
  by (auto simp: buildOvnAuth_def Let_def split: sum.splits)

lemma InitConfigWithPath_success:
  assumes "InitConfigWithPath h cli configFileFlag configFile0 defaults0 g = (g', Inr ret)"
    and "file = fileConfig h configFileFlag configFile0"
    and "d = (case defaults0 of None \<Rightarrow> zero_Defaults | Some d' \<Rightarrow> d')"
  shows "\<exists>k north south.
     buildKubernetesConfig h cli file d (globals.Kubernetes g) = (k, None) \<and>
     buildOvnAuth h ''nb'' ''ovn-nb'' (config.OvnNorth cli) (config.OvnNorth file)
       (OvnNorthAddress d) = Inr north \<and>
     buildOvnAuth h ''sb'' ''ovn-remote'' (config.OvnSouth cli) (config.OvnSouth file) False =
       Inr south \<and>
     g' = \<lparr>globals.Default =
             overrideFields_DefaultConfig
               (overrideFields_DefaultConfig (globals.Default g) (config.Default file))
               (config.Default cli),
           globals.Logging =
             overrideFields_LoggingConfig
               (overrideFields_LoggingConfig (globals.Logging g) (config.Logging file))
               (config.Logging cli),
           globals.CNI =
             overrideFields_CNIConfig
               (overrideFields_CNIConfig (globals.CNI g) (config.CNI file))
               (config.CNI cli),
           globals.Kubernetes = k, globals.OvnNorth = north, globals.OvnSouth = south\<rparr>"
  using assms(1) unfolding assms(2,3) InitConfigWithPath_def fileConfig_def getConfigFilePath_def
  by (auto simp: Let_def split: file_read.splits if_splits prod.splits option.splits sum.splits)

lemma loop_never_MustSpecifyKeyAndCerts:
  "newOvnDBAuth_loop u s0 a0 eps \<noteq> Inl MustSpecifyKeyAndCerts"
proof (induction eps arbitrary: s0 a0)
  case Nil
  then show ?case by simp
next
  case (Cons y ys)
  then show ?case
    by (auto simp: Let_def split: if_splits sum.splits prod.splits)
qed

lemma newOvnDBAuth_MustSpecifyKeyAndCerts:
  "newOvnDBAuth c e urlString privkey cert cacert = Inl MustSpecifyKeyAndCerts \<Longrightarrow>
   privkey = [] \<or> cert = [] \<or> cacert = []"
  using loop_never_MustSpecifyKeyAndCerts
  by (auto simp: newOvnDBAuth_def Let_def split: if_splits sum.splits prod.splits)

lemma chosen_not_unset: "beneath \<noteq> unset \<Longrightarrow> chosen unset c f beneath \<noteq> unset"
  by (simp add: chosen_def)

text \<open>The equations that run \<open>InitConfig\<close> on a given host and command line.\<close>

lemmas run_InitConfig =
  InitConfig_def InitConfigWithPath_def getConfigFilePath_def buildKubernetesConfig_def
  buildOvnAuth_def buildOvnAuth_raw_def getOVSExternalID_def runOVSVsctl_def rawExec_def
  overrideFields_DefaultConfig_def overrideFields_LoggingConfig_def overrideFields_CNIConfig_def
  overrideFields_KubernetesConfig_def overrideFields_rawOvnAuthConfig_def overrideString_def
  overrideInt_def zero_config_def zero_rawOvnAuthConfig_def zero_Defaults_def initial_globals_def
  bare_host_def

text \<open>
  Claim C1, as stated: with \<open>nb-address=ssl://1.2.3.4:6641\<close> on the command line and
  no \<open>client-privkey\<close>, \<open>InitConfig\<close> fails. It does not: on a host without
  configuration file it returns no error, and the northbound authentication it leaves has
  the scheme \<open>ssl\<close> and the default paths of key and certificates.
\<close>

theorem InitConfig_ssl_without_privkey:
  "InitConfig bare_host cli_nb_address_ssl [] None initial_globals =
     (initial_globals
        \<lparr>globals.OvnNorth :=
           \<lparr>ClientAuth = Some
              \<lparr>OvnAddressForClient = ''ssl:1.2.3.4:6641'',
               PrivKey = ''/etc/openvswitch/ovnnb-privkey.pem'',
               Cert = ''/etc/openvswitch/ovnnb-cert.pem'',
               CACert = ''/etc/openvswitch/ovnnb-ca.cert'',
               Scheme = ''ssl'', ctlCmd = ''ovn-nbctl'', externalID = ''ovn-nb''\<rparr>\<rparr>,
         globals.OvnSouth :=
           \<lparr>ClientAuth = Some
              \<lparr>OvnAddressForClient = [], PrivKey = [], Cert = [], CACert = [],
               Scheme = ''unix'', ctlCmd = ''ovn-sbctl'', externalID = ''ovn-remote''\<rparr>\<rparr>\<rparr>,
      Inr [])"
  by (simp add: run_InitConfig cli_nb_address_ssl_def run_newOvnDBAuth)

text \<open>
  Claim C1, amended. \<open>newOvnDBAuth\<close> answers a well-formed connection string of scheme
  \<open>ssl\<close> with the error "must specify private key, certificate, and CA certificate"
  when one of the three it is given is empty. \<open>buildOvnAuth\<close> never hands it an empty
  one for an address that begins with \<open>ssl\<close>: what neither the command line nor the
  configuration file sets is the default path
  \<open>/etc/openvswitch/ovn<direction>-privkey.pem\<close>, \<open>-cert.pem\<close>, \<open>-ca.cert\<close>; so
  \<open>buildOvnAuth\<close> does not return that error for such an address.
\<close>

theorem ssl_key_and_certificates_default:
  "(urlString \<noteq> [] \<longrightarrow>
      (\<forall>ep \<in> set (ovnAddresses urlString). hostIsIP ep \<and> Split (CHR '':'') ep ! 0 = ''ssl'') \<longrightarrow>
      privkey = [] \<or> cert = [] \<or> cacert = [] \<longrightarrow>
      newOvnDBAuth c e urlString privkey cert cacert = Inl MustSpecifyKeyAndCerts) \<and>
   (raw = buildOvnAuth_raw h direction cliAuth confAuth readAddress \<longrightarrow>
      HasPrefix (Address raw) ''ssl'' \<longrightarrow>
      ClientPrivKey raw =
        chosen [] (ClientPrivKey cliAuth) (ClientPrivKey confAuth)
          (''/etc/openvswitch/ovn'' @ direction @ ''-privkey.pem'') \<and>
      ClientCert raw =
        chosen [] (ClientCert cliAuth) (ClientCert confAuth)
          (''/etc/openvswitch/ovn'' @ direction @ ''-cert.pem'') \<and>
      ClientCACert raw =
        chosen [] (ClientCACert cliAuth) (ClientCACert confAuth)
          (''/etc/openvswitch/ovn'' @ direction @ ''-ca.cert'') \<and>
      ClientPrivKey raw \<noteq> [] \<and> ClientCert raw \<noteq> [] \<and> ClientCACert raw \<noteq> [] \<and>
      buildOvnAuth h direction ext cliAuth confAuth readAddress \<noteq> Inl MustSpecifyKeyAndCerts)"
proof (rule conjI; intro impI)
  assume ne: "urlString \<noteq> []"
    and eps: "\<forall>ep \<in> set (ovnAddresses urlString). hostIsIP ep \<and> Split (CHR '':'') ep ! 0 = ''ssl''"
    and empty: "privkey = [] \<or> cert = [] \<or> cacert = []"
  have "ovnAddresses urlString \<noteq> []"
    by (simp add: ovnAddresses_def Split_not_Nil)
  with loop_accepts [OF eps, of "[]" "Replace_slashes urlString" "[]"]
  obtain a1 where
    "newOvnDBAuth_loop (Replace_slashes urlString) [] [] (ovnAddresses urlString) = Inr (''ssl'', a1)"
    by auto
  with empty show "newOvnDBAuth c e urlString privkey cert cacert = Inl MustSpecifyKeyAndCerts"
    by (simp add: newOvnDBAuth_nonempty [OF ne])
next
  assume raw: "raw = buildOvnAuth_raw h direction cliAuth confAuth readAddress"
    and ssl: "HasPrefix (Address raw) ''ssl''"
  have k: "ClientPrivKey raw =
      chosen [] (ClientPrivKey cliAuth) (ClientPrivKey confAuth)
        (''/etc/openvswitch/ovn'' @ direction @ ''-privkey.pem'')"
    and c: "ClientCert raw =
      chosen [] (ClientCert cliAuth) (ClientCert confAuth)
        (''/etc/openvswitch/ovn'' @ direction @ ''-cert.pem'')"
    and ca: "ClientCACert raw =
      chosen [] (ClientCACert cliAuth) (ClientCACert confAuth)
        (''/etc/openvswitch/ovn'' @ direction @ ''-ca.cert'')"
    using ssl buildOvnAuth_raw_keys [of h direction cliAuth confAuth readAddress]
    unfolding raw by simp_all
  have ne: "ClientPrivKey raw \<noteq> []" "ClientCert raw \<noteq> []" "ClientCACert raw \<noteq> []"
    unfolding k c ca by (rule chosen_not_unset, simp)+
  have nb: "buildOvnAuth h direction ext cliAuth confAuth readAddress \<noteq> Inl MustSpecifyKeyAndCerts"
  proof
    assume "buildOvnAuth h direction ext cliAuth confAuth readAddress = Inl MustSpecifyKeyAndCerts"
    then have "newOvnDBAuth (''ovn-'' @ direction @ ''ctl'') ext (Address raw) (ClientPrivKey raw)
        (ClientCert raw) (ClientCACert raw) = Inl MustSpecifyKeyAndCerts"
      unfolding raw by (auto simp: buildOvnAuth_def Let_def split: sum.splits)
    from newOvnDBAuth_MustSpecifyKeyAndCerts [OF this] ne show False by simp
  qed
  show "ClientPrivKey raw =
      chosen [] (ClientPrivKey cliAuth) (ClientPrivKey confAuth)
        (''/etc/openvswitch/ovn'' @ direction @ ''-privkey.pem'') \<and>
    ClientCert raw =
      chosen [] (ClientCert cliAuth) (ClientCert confAuth)
        (''/etc/openvswitch/ovn'' @ direction @ ''-cert.pem'') \<and>
    ClientCACert raw =
      chosen [] (ClientCACert cliAuth) (ClientCACert confAuth)
        (''/etc/openvswitch/ovn'' @ direction @ ''-ca.cert'') \<and>
    ClientPrivKey raw \<noteq> [] \<and> ClientCert raw \<noteq> [] \<and> ClientCACert raw \<noteq> [] \<and>
    buildOvnAuth h direction ext cliAuth confAuth readAddress \<noteq> Inl MustSpecifyKeyAndCerts"
    using k c ca ne nb by blast
qed

theorem ssl_key_and_certificates_default_witness:
  "newOvnDBAuth ''ovn-nbctl'' ''ovn-nb'' ''ssl://1.2.3.4:6641'' [] ''/client/cert'' ''/client/cacert'' =
     Inl MustSpecifyKeyAndCerts \<and>
   ClientPrivKey (buildOvnAuth_raw bare_host ''nb'' (config.OvnNorth cli_nb_address_ssl)
       zero_rawOvnAuthConfig False) = ''/etc/openvswitch/ovnnb-privkey.pem'' \<and>
   buildOvnAuth bare_host ''nb'' ''ovn-nb'' (config.OvnNorth cli_nb_address_ssl)
       zero_rawOvnAuthConfig False \<noteq> Inl MustSpecifyKeyAndCerts"
proof -
  have eps: "''ssl://1.2.3.4:6641'' \<noteq> []"
    "\<forall>ep \<in> set (ovnAddresses ''ssl://1.2.3.4:6641'').
       hostIsIP ep \<and> Split (CHR '':'') ep ! 0 = ''ssl''"
    by (simp_all add: ovnAddresses_def hostIsIP_def Let_def library_defs)
  have ssl: "HasPrefix (Address (buildOvnAuth_raw bare_host ''nb''
      (config.OvnNorth cli_nb_address_ssl) zero_rawOvnAuthConfig False)) ''ssl''"
    by (simp add: buildOvnAuth_raw_Address cli_nb_address_ssl_def zero_config_def
        zero_rawOvnAuthConfig_def chosen_def HasPrefix_def)
  have cli: "ClientPrivKey (config.OvnNorth cli_nb_address_ssl) = []"
    "ClientPrivKey zero_rawOvnAuthConfig = []"
    by (simp_all add: cli_nb_address_ssl_def zero_config_def zero_rawOvnAuthConfig_def)
  show ?thesis
    using
      ssl_key_and_certificates_default [where urlString = "''ssl://1.2.3.4:6641''"
        and privkey = "[]" and cert = "''/client/cert''" and cacert = "''/client/cacert''"
        and c = "''ovn-nbctl''" and e = "''ovn-nb''", THEN conjunct1]
      ssl_key_and_certificates_default [where h = bare_host and direction = "''nb''"
        and cliAuth = "config.OvnNorth cli_nb_address_ssl" and confAuth = zero_rawOvnAuthConfig
        and readAddress = False and ext = "''ovn-nb''"
        and raw = "buildOvnAuth_raw bare_host ''nb'' (config.OvnNorth cli_nb_address_ssl)
          zero_rawOvnAuthConfig False", THEN conjunct2]
      eps ssl cli
    by (simp add: chosen_def)
qed

text \<open>
  Claim C2, as stated: a field that neither the command line nor the configuration file
  sets, and for which the database has no external-id, holds its built-in default. It
  does not when the caller asks for the external-id: \<open>buildKubernetesConfig\<close> assigns
  what it read, also when that is empty. On a host without \<open>ovs-vsctl\<close>, with the
  \<open>Defaults\<close> that ask for the API server, the built-in \<open>http://localhost:8080\<close> is
  replaced by the empty string and \<open>InitConfigWithPath\<close> fails; with no \<open>Defaults\<close> it
  succeeds and keeps the built-in default.
\<close>

theorem InitConfigWithPath_empty_discovery:
  "getOVSExternalID bare_host ''k8s-api-server'' = [] \<and>
   APIServer (config.Kubernetes zero_config) = [] \<and>
   fileConfig bare_host [] [] = zero_config \<and>
   APIServer (globals.Kubernetes initial_globals) = ''http://localhost:8080'' \<and>
   snd (InitConfigWithPath bare_host zero_config [] [] (Some defaults_APIServer) initial_globals) =
     Inl (APIServerSchemeInvalid []) \<and>
   APIServer (globals.Kubernetes
     (fst (InitConfigWithPath bare_host zero_config [] [] (Some defaults_APIServer) initial_globals))) = [] \<and>
   snd (InitConfigWithPath bare_host zero_config [] [] None initial_globals) = Inr [] \<and>
   APIServer (globals.Kubernetes
     (fst (InitConfigWithPath bare_host zero_config [] [] None initial_globals))) =
     ''http://localhost:8080''"
  by (simp add: run_InitConfig run_newOvnDBAuth fileConfig_def defaults_APIServer_def)

text \<open>
  Claim C2, amended. After a successful \<open>InitConfigWithPath\<close> every configuration field holds
  the value the precedence gives it: the command line's when it sets the field (a
  non-zero number, a non-empty string), else the configuration file's when it sets it,
  else what lies beneath both. Beneath both is, for the Kubernetes API server, token and
  CA certificate and for the northbound address, the external-id read from the database
  when the caller asks for it in \<open>Defaults\<close>, and otherwise the value the variable had:
  the built-in default (for key and certificates of a database, the default path when
  the address begins with \<open>ssl\<close>, else nothing). The database address in effect is the
  chosen one as \<open>newOvnDBAuth\<close> rewrites it.
\<close>

theorem InitConfigWithPath_precedence:
  assumes ok: "InitConfigWithPath h cli configFileFlag configFile0 defaults0 g = (g', Inr ret)"
    and fromFile: "file = fileConfig h configFileFlag configFile0"
    and d: "d = (case defaults0 of None \<Rightarrow> zero_Defaults | Some d' \<Rightarrow> d')"
    and addressNorth: "addressNorth =
      chosen [] (Address (config.OvnNorth cli)) (Address (config.OvnNorth file))
        (if OvnNorthAddress d then getOVSExternalID h ''ovn-nb'' else [])"
    and addressSouth: "addressSouth =
      chosen [] (Address (config.OvnSouth cli)) (Address (config.OvnSouth file)) []"
  shows
    "MTU (globals.Default g') =
       chosen 0 (MTU (config.Default cli)) (MTU (config.Default file)) (MTU (globals.Default g)) \<and>
     ConntrackZone (globals.Default g') =
       chosen 0 (ConntrackZone (config.Default cli)) (ConntrackZone (config.Default file))
         (ConntrackZone (globals.Default g)) \<and>
     EncapType (globals.Default g') =
       chosen [] (EncapType (config.Default cli)) (EncapType (config.Default file))
         (EncapType (globals.Default g)) \<and>
     EncapIP (globals.Default g') =
       chosen [] (EncapIP (config.Default cli)) (EncapIP (config.Default file))
         (EncapIP (globals.Default g)) \<and>
     InactivityProbe (globals.Default g') =
       chosen 0 (InactivityProbe (config.Default cli)) (InactivityProbe (config.Default file))
         (InactivityProbe (globals.Default g)) \<and>
     File (globals.Logging g') =
       chosen [] (File (config.Logging cli)) (File (config.Logging file)) (File (globals.Logging g)) \<and>
     Level (globals.Logging g') =
       chosen 0 (Level (config.Logging cli)) (Level (config.Logging file)) (Level (globals.Logging g)) \<and>
     ConfDir (globals.CNI g') =
       chosen [] (ConfDir (config.CNI cli)) (ConfDir (config.CNI file)) (ConfDir (globals.CNI g)) \<and>
     Plugin (globals.CNI g') =
       chosen [] (Plugin (config.CNI cli)) (Plugin (config.CNI file)) (Plugin (globals.CNI g)) \<and>
     WinHNSNetworkID (globals.CNI g') =
       chosen [] (WinHNSNetworkID (config.CNI cli)) (WinHNSNetworkID (config.CNI file))
         (WinHNSNetworkID (globals.CNI g)) \<and>
     Kubeconfig (globals.Kubernetes g') =
       chosen [] (Kubeconfig (config.Kubernetes cli)) (Kubeconfig (config.Kubernetes file))
         (Kubeconfig (globals.Kubernetes g)) \<and>
     KubernetesConfig.CACert (globals.Kubernetes g') =
       chosen [] (KubernetesConfig.CACert (config.Kubernetes cli))
         (KubernetesConfig.CACert (config.Kubernetes file))
         (if K8sCert d then getOVSExternalID h ''k8s-ca-certificate''
          else KubernetesConfig.CACert (globals.Kubernetes g)) \<and>
     APIServer (globals.Kubernetes g') =
       chosen [] (APIServer (config.Kubernetes cli)) (APIServer (config.Kubernetes file))
         (if K8sAPIServer d then getOVSExternalID h ''k8s-api-server''
          else APIServer (globals.Kubernetes g)) \<and>
     Token (globals.Kubernetes g') =
       chosen [] (Token (config.Kubernetes cli)) (Token (config.Kubernetes file))
         (if K8sToken d then getOVSExternalID h ''k8s-api-token''
          else Token (globals.Kubernetes g)) \<and>
     (\<exists>north.
        ClientAuth (globals.OvnNorth g') = Some north \<and>
        newOvnDBAuth ''ovn-nbctl'' ''ovn-nb'' addressNorth (PrivKey north) (Cert north)
          (CACert north) = Inr north \<and>
        PrivKey north =
          chosen [] (ClientPrivKey (config.OvnNorth cli)) (ClientPrivKey (config.OvnNorth file))
            (if HasPrefix addressNorth ''ssl'' then ''/etc/openvswitch/ovnnb-privkey.pem'' else []) \<and>
        Cert north =
          chosen [] (ClientCert (config.OvnNorth cli)) (ClientCert (config.OvnNorth file))
            (if HasPrefix addressNorth ''ssl'' then ''/etc/openvswitch/ovnnb-cert.pem'' else []) \<and>
        CACert north =
          chosen [] (ClientCACert (config.OvnNorth cli)) (ClientCACert (config.OvnNorth file))
            (if HasPrefix addressNorth ''ssl'' then ''/etc/openvswitch/ovnnb-ca.cert'' else [])) \<and>
     (\<exists>south.
        ClientAuth (globals.OvnSouth g') = Some south \<and>
        newOvnDBAuth ''ovn-sbctl'' ''ovn-remote'' addressSouth (PrivKey south) (Cert south)
          (CACert south) = Inr south \<and>
        PrivKey south =
          chosen [] (ClientPrivKey (config.OvnSouth cli)) (ClientPrivKey (config.OvnSouth file))
            (if HasPrefix addressSouth ''ssl'' then ''/etc/openvswitch/ovnsb-privkey.pem'' else []) \<and>
        Cert south =
          chosen [] (ClientCert (config.OvnSouth cli)) (ClientCert (config.OvnSouth file))
            (if HasPrefix addressSouth ''ssl'' then ''/etc/openvswitch/ovnsb-cert.pem'' else []) \<and>
        CACert south =
          chosen [] (ClientCACert (config.OvnSouth cli)) (ClientCACert (config.OvnSouth file))
            (if HasPrefix addressSouth ''ssl'' then ''/etc/openvswitch/ovnsb-ca.cert'' else []))"
proof -
  from InitConfigWithPath_success [OF ok fromFile d] obtain k north south where
    kube: "buildKubernetesConfig h cli file d (globals.Kubernetes g) = (k, None)" and
    nb: "buildOvnAuth h ''nb'' ''ovn-nb'' (config.OvnNorth cli) (config.OvnNorth file)
           (OvnNorthAddress d) = Inr north" and
    sb: "buildOvnAuth h ''sb'' ''ovn-remote'' (config.OvnSouth cli) (config.OvnSouth file) False =
           Inr south" and
    g': "g' = \<lparr>globals.Default =
             overrideFields_DefaultConfig
               (overrideFields_DefaultConfig (globals.Default g) (config.Default file))
               (config.Default cli),
           globals.Logging =
             overrideFields_LoggingConfig
               (overrideFields_LoggingConfig (globals.Logging g) (config.Logging file))
               (config.Logging cli),
           globals.CNI =
             overrideFields_CNIConfig
               (overrideFields_CNIConfig (globals.CNI g) (config.CNI file))
               (config.CNI cli),
           globals.Kubernetes = k, globals.OvnNorth = north, globals.OvnSouth = south\<rparr>"
    by blast
  have dflt: "globals.Default g' =
      overrideFields_DefaultConfig
        (overrideFields_DefaultConfig (globals.Default g) (config.Default file)) (config.Default cli)"
    and logging: "globals.Logging g' =
      overrideFields_LoggingConfig
        (overrideFields_LoggingConfig (globals.Logging g) (config.Logging file)) (config.Logging cli)"
    and cni: "globals.CNI g' =
      overrideFields_CNIConfig
        (overrideFields_CNIConfig (globals.CNI g) (config.CNI file)) (config.CNI cli)"
    and kubernetes: "globals.Kubernetes g' = fst (buildKubernetesConfig h cli file d (globals.Kubernetes g))"
    and north: "globals.OvnNorth g' = north" and south: "globals.OvnSouth g' = south"
    using kube by (simp_all add: g')
  have p1: "MTU (globals.Default g') =
       chosen 0 (MTU (config.Default cli)) (MTU (config.Default file)) (MTU (globals.Default g))"
    "ConntrackZone (globals.Default g') =
       chosen 0 (ConntrackZone (config.Default cli)) (ConntrackZone (config.Default file))
         (ConntrackZone (globals.Default g))"
    "EncapType (globals.Default g') =
       chosen [] (EncapType (config.Default cli)) (EncapType (config.Default file))
         (EncapType (globals.Default g))"
    "EncapIP (globals.Default g') =
       chosen [] (EncapIP (config.Default cli)) (EncapIP (config.Default file))
         (EncapIP (globals.Default g))"
    "InactivityProbe (globals.Default g') =
       chosen 0 (InactivityProbe (config.Default cli)) (InactivityProbe (config.Default file))
         (InactivityProbe (globals.Default g))"
    unfolding dflt
    by (simp_all only: overrideFields_DefaultConfig_sel overrideInt_twice overrideString_twice)
  have p2: "File (globals.Logging g') =
       chosen [] (File (config.Logging cli)) (File (config.Logging file)) (File (globals.Logging g))"
    "Level (globals.Logging g') =
       chosen 0 (Level (config.Logging cli)) (Level (config.Logging file)) (Level (globals.Logging g))"
    unfolding logging
    by (simp_all only: overrideFields_LoggingConfig_sel overrideInt_twice overrideString_twice)
  have p3: "ConfDir (globals.CNI g') =
       chosen [] (ConfDir (config.CNI cli)) (ConfDir (config.CNI file)) (ConfDir (globals.CNI g))"
    "Plugin (globals.CNI g') =
       chosen [] (Plugin (config.CNI cli)) (Plugin (config.CNI file)) (Plugin (globals.CNI g))"
    "WinHNSNetworkID (globals.CNI g') =
       chosen [] (WinHNSNetworkID (config.CNI cli)) (WinHNSNetworkID (config.CNI file))
         (WinHNSNetworkID (globals.CNI g))"
    unfolding cni
    by (simp_all only: overrideFields_CNIConfig_sel overrideString_twice)
  have p4: "Kubeconfig (globals.Kubernetes g') =
       chosen [] (Kubeconfig (config.Kubernetes cli)) (Kubeconfig (config.Kubernetes file))
         (Kubeconfig (globals.Kubernetes g))"
    "KubernetesConfig.CACert (globals.Kubernetes g') =
       chosen [] (KubernetesConfig.CACert (config.Kubernetes cli))
         (KubernetesConfig.CACert (config.Kubernetes file))
         (if K8sCert d then getOVSExternalID h ''k8s-ca-certificate''
          else KubernetesConfig.CACert (globals.Kubernetes g))"
    "APIServer (globals.Kubernetes g') =
       chosen [] (APIServer (config.Kubernetes cli)) (APIServer (config.Kubernetes file))
         (if K8sAPIServer d then getOVSExternalID h ''k8s-api-server''
          else APIServer (globals.Kubernetes g))"
    "Token (globals.Kubernetes g') =
       chosen [] (Token (config.Kubernetes cli)) (Token (config.Kubernetes file))
         (if K8sToken d then getOVSExternalID h ''k8s-api-token''
          else Token (globals.Kubernetes g))"
    unfolding kubernetes by (rule buildKubernetesConfig_fields)+
  let ?rn = "buildOvnAuth_raw h ''nb'' (config.OvnNorth cli) (config.OvnNorth file) (OvnNorthAddress d)"
  let ?rs = "buildOvnAuth_raw h ''sb'' (config.OvnSouth cli) (config.OvnSouth file) False"
  have an: "Address ?rn = addressNorth"
    by (simp add: buildOvnAuth_raw_Address addressNorth)
  have as: "Address ?rs = addressSouth"
    by (simp add: buildOvnAuth_raw_Address addressSouth)
  from buildOvnAuth_success [OF nb] obtain a where
    a: "north = \<lparr>ClientAuth = Some a\<rparr>"
      "newOvnDBAuth ''ovn-nbctl'' ''ovn-nb'' addressNorth (ClientPrivKey ?rn) (ClientCert ?rn)
         (ClientCACert ?rn) = Inr a"
    unfolding an by auto
  from newOvnDBAuth_keeps_arguments [OF a(2)] have ka:
    "PrivKey a = ClientPrivKey ?rn" "Cert a = ClientCert ?rn" "CACert a = ClientCACert ?rn"
    by simp_all
  have p5: "\<exists>north.
        ClientAuth (globals.OvnNorth g') = Some north \<and>
        newOvnDBAuth ''ovn-nbctl'' ''ovn-nb'' addressNorth (PrivKey north) (Cert north)
          (CACert north) = Inr north \<and>
        PrivKey north =
          chosen [] (ClientPrivKey (config.OvnNorth cli)) (ClientPrivKey (config.OvnNorth file))
            (if HasPrefix addressNorth ''ssl'' then ''/etc/openvswitch/ovnnb-privkey.pem'' else []) \<and>
        Cert north =
          chosen [] (ClientCert (config.OvnNorth cli)) (ClientCert (config.OvnNorth file))
            (if HasPrefix addressNorth ''ssl'' then ''/etc/openvswitch/ovnnb-cert.pem'' else []) \<and>
        CACert north =
          chosen [] (ClientCACert (config.OvnNorth cli)) (ClientCACert (config.OvnNorth file))
            (if HasPrefix addressNorth ''ssl'' then ''/etc/openvswitch/ovnnb-ca.cert'' else [])"
  proof (intro exI conjI)
    show "ClientAuth (globals.OvnNorth g') = Some a" by (simp add: north a(1))
    show "newOvnDBAuth ''ovn-nbctl'' ''ovn-nb'' addressNorth (PrivKey a) (Cert a) (CACert a) = Inr a"
      using a(2) by (simp only: ka)
    show "PrivKey a =
          chosen [] (ClientPrivKey (config.OvnNorth cli)) (ClientPrivKey (config.OvnNorth file))
            (if HasPrefix addressNorth ''ssl'' then ''/etc/openvswitch/ovnnb-privkey.pem'' else [])"
      using buildOvnAuth_raw_keys(1) [of h "''nb''" "config.OvnNorth cli" "config.OvnNorth file"
          "OvnNorthAddress d"]
      unfolding an ka by simp
    show "Cert a =
          chosen [] (ClientCert (config.OvnNorth cli)) (ClientCert (config.OvnNorth file))
            (if HasPrefix addressNorth ''ssl'' then ''/etc/openvswitch/ovnnb-cert.pem'' else [])"
      using buildOvnAuth_raw_keys(2) [of h "''nb''" "config.OvnNorth cli" "config.OvnNorth file"
          "OvnNorthAddress d"]
      unfolding an ka by simp
    show "CACert a =
          chosen [] (ClientCACert (config.OvnNorth cli)) (ClientCACert (config.OvnNorth file))
            (if HasPrefix addressNorth ''ssl'' then ''/etc/openvswitch/ovnnb-ca.cert'' else [])"
      using buildOvnAuth_raw_keys(3) [of h "''nb''" "config.OvnNorth cli" "config.OvnNorth file"
          "OvnNorthAddress d"]
      unfolding an ka by simp
  qed
  from buildOvnAuth_success [OF sb] obtain b where
    b: "south = \<lparr>ClientAuth = Some b\<rparr>"
      "newOvnDBAuth ''ovn-sbctl'' ''ovn-remote'' addressSouth (ClientPrivKey ?rs) (ClientCert ?rs)
         (ClientCACert ?rs) = Inr b"
    unfolding as by auto
  from newOvnDBAuth_keeps_arguments [OF b(2)] have kb:
    "PrivKey b = ClientPrivKey ?rs" "Cert b = ClientCert ?rs" "CACert b = ClientCACert ?rs"
    by simp_all
  have p6: "\<exists>south.
        ClientAuth (globals.OvnSouth g') = Some south \<and>
        newOvnDBAuth ''ovn-sbctl'' ''ovn-remote'' addressSouth (PrivKey south) (Cert south)
          (CACert south) = Inr south \<and>
        PrivKey south =
          chosen [] (ClientPrivKey (config.OvnSouth cli)) (ClientPrivKey (config.OvnSouth file))
            (if HasPrefix addressSouth ''ssl'' then ''/etc/openvswitch/ovnsb-privkey.pem'' else []) \<and>
        Cert south =
          chosen [] (ClientCert (config.OvnSouth cli)) (ClientCert (config.OvnSouth file))
            (if HasPrefix addressSouth ''ssl'' then ''/etc/openvswitch/ovnsb-cert.pem'' else []) \<and>
        CACert south =
          chosen [] (ClientCACert (config.OvnSouth cli)) (ClientCACert (config.OvnSouth file))
            (if HasPrefix addressSouth ''ssl'' then ''/etc/openvswitch/ovnsb-ca.cert'' else [])"
  proof (intro exI conjI)
    show "ClientAuth (globals.OvnSouth g') = Some b" by (simp add: south b(1))
    show "newOvnDBAuth ''ovn-sbctl'' ''ovn-remote'' addressSouth (PrivKey b) (Cert b) (CACert b) = Inr b"
      using b(2) by (simp only: kb)
    show "PrivKey b =
          chosen [] (ClientPrivKey (config.OvnSouth cli)) (ClientPrivKey (config.OvnSouth file))
            (if HasPrefix addressSouth ''ssl'' then ''/etc/openvswitch/ovnsb-privkey.pem'' else [])"
      using buildOvnAuth_raw_keys(1) [of h "''sb''" "config.OvnSouth cli" "config.OvnSouth file" False]
      unfolding as kb by simp
    show "Cert b =
          chosen [] (ClientCert (config.OvnSouth cli)) (ClientCert (config.OvnSouth file))
            (if HasPrefix addressSouth ''ssl'' then ''/etc/openvswitch/ovnsb-cert.pem'' else [])"
      using buildOvnAuth_raw_keys(2) [of h "''sb''" "config.OvnSouth cli" "config.OvnSouth file" False]
      unfolding as kb by simp
    show "CACert b =
          chosen [] (ClientCACert (config.OvnSouth cli)) (ClientCACert (config.OvnSouth file))
            (if HasPrefix addressSouth ''ssl'' then ''/etc/openvswitch/ovnsb-ca.cert'' else [])"
      using buildOvnAuth_raw_keys(3) [of h "''sb''" "config.OvnSouth cli" "config.OvnSouth file" False]
      unfolding as kb by simp
  qed
  from p1 p2 p3 p4 p5 p6 show ?thesis by (intro conjI)
qed

text \<open>What \<open>getOVSExternalID\<close> reads on the host with \<open>ovs-vsctl\<close>: the external-ids
  without the quotes and the line feed, and nothing for an external-id that is not there.\<close>

lemma host_with_ovs_external_ids:
  "getOVSExternalID host_with_ovs ''k8s-api-server'' = ''https://1.2.3.4:8443''"
  "getOVSExternalID host_with_ovs ''k8s-api-token'' = ''ovs-token''"
  "getOVSExternalID host_with_ovs ''k8s-ca-certificate'' = []"
  "getOVSExternalID host_with_ovs ''ovn-nb'' = ''tcp://1.1.1.1:6641''"
proof -
  have e: "\<And>name. exec host_with_ovs ''ovs-vsctl''
      [''--timeout=15'', ''--if-exists'', ''get'', ''Open_vSwitch'', ''.'', name] =
      Some (if name = ''external_ids:k8s-api-server'' then quoted ''https://1.2.3.4:8443''
       else if name = ''external_ids:k8s-api-token'' then quoted ''ovs-token''
       else if name = ''external_ids:ovn-nb'' then quoted ''tcp://1.1.1.1:6641''
       else [CHR 0x0A])"
    by (simp add: host_with_ovs_def)
  have t:
    "Trim_quotes (TrimSpace (TrimSpace (quoted ''https://1.2.3.4:8443''))) = ''https://1.2.3.4:8443''"
    "Trim_quotes (TrimSpace (TrimSpace (quoted ''ovs-token''))) = ''ovs-token''"
    "Trim_quotes (TrimSpace (TrimSpace (quoted ''tcp://1.1.1.1:6641''))) = ''tcp://1.1.1.1:6641''"
    "Trim_quotes (TrimSpace (TrimSpace [CHR 0x0A])) = []"
    by (simp_all add: quoted_def TrimSpace_def TrimLeftSpace.simps TrimRightSpace.simps
        spaceWidthFirst_def spaceWidthLast_def spaceRunes_def HasPrefix_def HasSuffix_def
        Trim_quotes_def)
  show "getOVSExternalID host_with_ovs ''k8s-api-server'' = ''https://1.2.3.4:8443''"
    "getOVSExternalID host_with_ovs ''k8s-api-token'' = ''ovs-token''"
    "getOVSExternalID host_with_ovs ''k8s-ca-certificate'' = []"
    "getOVSExternalID host_with_ovs ''ovn-nb'' = ''tcp://1.1.1.1:6641''"
    unfolding getOVSExternalID_def runOVSVsctl_def rawExec_def ovsVsctlCommand_def append.simps e
    by (simp_all add: t)
qed

lemma host_with_ovs_fields:
  "pathExists host_with_ovs = (\<lambda>path. False)"
  "readConfigFile host_with_ovs = (\<lambda>path. OpenFailed)"
  "url_Parse host_with_ovs = (\<lambda>s. Some (takeWhile (\<lambda>c. c \<noteq> CHR '':'') s))"
  "defaultConfigFile host_with_ovs = ''/etc/openvswitch/ovn_k8s.conf''"
  by (simp_all add: host_with_ovs_def bare_host_def)

theorem InitConfigWithPath_precedence_witness:
  "(\<exists>g'. InitConfigWithPath host_with_file cli_mtu [] [] None initial_globals = (g', Inr []) \<and>
     MTU (globals.Default g') = 1234 \<and>
     ConntrackZone (globals.Default g') = 64321 \<and>
     EncapType (globals.Default g') = ''geneve'' \<and>
     APIServer (globals.Kubernetes g') = ''http://localhost:8080'') \<and>
   (\<exists>g'. InitConfigWithPath host_with_ovs cli_token [] [] (Some defaults_all) initial_globals =
       (g', Inr []) \<and>
     APIServer (globals.Kubernetes g') = ''https://1.2.3.4:8443'' \<and>
     Token (globals.Kubernetes g') = ''cli-token'' \<and>
     (\<exists>north. ClientAuth (globals.OvnNorth g') = Some north \<and>
        newOvnDBAuth ''ovn-nbctl'' ''ovn-nb'' ''tcp://1.1.1.1:6641'' (PrivKey north) (Cert north)
          (CACert north) = Inr north))"
proof (rule conjI)
  obtain g' where g': "g' = fst (InitConfigWithPath host_with_file cli_mtu [] [] None initial_globals)"
    by simp
  have "snd (InitConfigWithPath host_with_file cli_mtu [] [] None initial_globals) = Inr []"
    by (simp add: run_InitConfig cli_mtu_def host_with_file_def file_mtu_conntrack_def
        run_newOvnDBAuth)
  with g' have ok: "InitConfigWithPath host_with_file cli_mtu [] [] None initial_globals = (g', Inr [])"
    by (simp add: prod_eq_iff)
  have fromFile: "fileConfig host_with_file [] [] = file_mtu_conntrack"
    by (simp add: fileConfig_def host_with_file_def getConfigFilePath_def)
  have vals:
    "MTU (config.Default cli_mtu) = 1234" "ConntrackZone (config.Default cli_mtu) = 0"
    "EncapType (config.Default cli_mtu) = []"
    "ConntrackZone (config.Default file_mtu_conntrack) = 64321"
    "EncapType (config.Default file_mtu_conntrack) = []"
    "EncapType (globals.Default initial_globals) = ''geneve''"
    "APIServer (config.Kubernetes cli_mtu) = []"
    "APIServer (config.Kubernetes file_mtu_conntrack) = []"
    "APIServer (globals.Kubernetes initial_globals) = ''http://localhost:8080''"
    by (simp_all add: cli_mtu_def file_mtu_conntrack_def zero_config_def initial_globals_def)
  from InitConfigWithPath_precedence [OF ok fromFile [symmetric] refl refl refl]
  have "MTU (globals.Default g') = 1234 \<and>
     ConntrackZone (globals.Default g') = 64321 \<and>
     EncapType (globals.Default g') = ''geneve'' \<and>
     APIServer (globals.Kubernetes g') = ''http://localhost:8080''"
    by (simp add: vals chosen_def zero_Defaults_def)
  with ok show "\<exists>g'. InitConfigWithPath host_with_file cli_mtu [] [] None initial_globals = (g', Inr []) \<and>
     MTU (globals.Default g') = 1234 \<and>
     ConntrackZone (globals.Default g') = 64321 \<and>
     EncapType (globals.Default g') = ''geneve'' \<and>
     APIServer (globals.Kubernetes g') = ''http://localhost:8080''"
    by blast
next
  note ids = host_with_ovs_external_ids
  obtain g' where
    g': "g' = fst (InitConfigWithPath host_with_ovs cli_token [] [] (Some defaults_all) initial_globals)"
    by simp
  have "snd (InitConfigWithPath host_with_ovs cli_token [] [] (Some defaults_all) initial_globals) =
      Inr []"
    by (simp add: InitConfigWithPath_def getConfigFilePath_def buildKubernetesConfig_def
        buildOvnAuth_def buildOvnAuth_raw_def ids host_with_ovs_fields
        overrideFields_KubernetesConfig_def overrideFields_rawOvnAuthConfig_def overrideString_def
        zero_config_def zero_rawOvnAuthConfig_def initial_globals_def
        cli_token_def defaults_all_def run_newOvnDBAuth)
  with g' have ok:
    "InitConfigWithPath host_with_ovs cli_token [] [] (Some defaults_all) initial_globals = (g', Inr [])"
    by (simp add: prod_eq_iff)
  have fromFile: "fileConfig host_with_ovs [] [] = zero_config"
    by (simp add: fileConfig_def host_with_ovs_fields getConfigFilePath_def)
  have vals:
    "APIServer (config.Kubernetes cli_token) = []" "Token (config.Kubernetes cli_token) = ''cli-token''"
    "Address (config.OvnNorth cli_token) = []"
    "APIServer (config.Kubernetes zero_config) = []" "Token (config.Kubernetes zero_config) = []"
    "Address (config.OvnNorth zero_config) = []"
    "K8sAPIServer defaults_all" "K8sToken defaults_all" "OvnNorthAddress defaults_all"
    by (simp_all add: cli_token_def zero_config_def zero_rawOvnAuthConfig_def defaults_all_def)
  from InitConfigWithPath_precedence [OF ok fromFile [symmetric] refl refl refl]
  have "APIServer (globals.Kubernetes g') = ''https://1.2.3.4:8443'' \<and>
     Token (globals.Kubernetes g') = ''cli-token'' \<and>
     (\<exists>north. ClientAuth (globals.OvnNorth g') = Some north \<and>
        newOvnDBAuth ''ovn-nbctl'' ''ovn-nb'' ''tcp://1.1.1.1:6641'' (PrivKey north) (Cert north)
          (CACert north) = Inr north)"
    by (auto simp: vals ids chosen_def)
  with ok show "\<exists>g'. InitConfigWithPath host_with_ovs cli_token [] [] (Some defaults_all) initial_globals =
       (g', Inr []) \<and>
     APIServer (globals.Kubernetes g') = ''https://1.2.3.4:8443'' \<and>
     Token (globals.Kubernetes g') = ''cli-token'' \<and>
     (\<exists>north. ClientAuth (globals.OvnNorth g') = Some north \<and>
        newOvnDBAuth ''ovn-nbctl'' ''ovn-nb'' ''tcp://1.1.1.1:6641'' (PrivKey north) (Cert north)
          (CACert north) = Inr north)"
    by blast
qed

section \<open>Claims about updateIP\<close>

text \<open>
  Claim C8, as stated in its second half: for an address that does not split into exactly
  three fields between colons \<open>updateIP\<close> returns an error. The empty address, which
  an authentication of scheme \<open>unix\<close> has, is one field, and \<open>updateIP\<close> returns no
  error for it.
\<close>

theorem updateIP_empty_address:
  "length (Split (CHR '':'') []) \<noteq> 3 \<and>
   updateIP \<lparr>OvnAddressForClient = [], PrivKey = [], Cert = [], CACert = [], Scheme = ''unix'',
             ctlCmd = ''ovn-nbctl'', externalID = ''ovn-nb''\<rparr> ''10.0.0.1'' =
     (\<lparr>OvnAddressForClient = [], PrivKey = [], Cert = [], CACert = [], Scheme = ''unix'',
       ctlCmd = ''ovn-nbctl'', externalID = ''ovn-nb''\<rparr>, None)"
  by (simp add: updateIP_def)

text \<open>
  Claim C8, amended. \<open>updateIP\<close> leaves an empty address as it is and returns no error.
  For a non-empty address that does not split into exactly three fields between colons it
  returns an error and leaves the address unchanged. For an address \<open>scheme:host:port\<close>
  it returns no error and changes nothing but the address, which then begins with the
  scheme, a colon and the new IP, and ends with the port. \<open>UpdateOvnNodeAuth\<close> applies
  it to the northbound and then to the southbound authentication, and stops at the
  first error.
\<close>

theorem updateIP_fields:
  "(OvnAddressForClient a = [] \<longrightarrow> updateIP a newIP = (a, None)) \<and>
   (OvnAddressForClient a \<noteq> [] \<longrightarrow> length (Split (CHR '':'') (OvnAddressForClient a)) \<noteq> 3 \<longrightarrow>
      updateIP a newIP = (a, Some (FailedToParseOvnAddressForClient (OvnAddressForClient a)))) \<and>
   (Split (CHR '':'') (OvnAddressForClient a) = [scheme, host, port] \<longrightarrow>
      (\<exists>between.
         updateIP a newIP =
           (a\<lparr>OvnAddressForClient := scheme @ '':'' @ newIP @ between @ port\<rparr>, None))) \<and>
   (ClientAuth (globals.OvnNorth g) = Some north \<longrightarrow> updateIP north masterIP = (north', Some err) \<longrightarrow>
      UpdateOvnNodeAuth masterIP g =
        (g\<lparr>globals.OvnNorth := \<lparr>ClientAuth = Some north'\<rparr>\<rparr>, Some (FailedToUpdateOvnNorth err))) \<and>
   (ClientAuth (globals.OvnNorth g) = Some north \<longrightarrow> ClientAuth (globals.OvnSouth g) = Some south \<longrightarrow>
      updateIP north masterIP = (north', None) \<longrightarrow> updateIP south masterIP = (south', None) \<longrightarrow>
      UpdateOvnNodeAuth masterIP g =
        (g\<lparr>globals.OvnNorth := \<lparr>ClientAuth = Some north'\<rparr>,
           globals.OvnSouth := \<lparr>ClientAuth = Some south'\<rparr>\<rparr>, None))"
proof (intro conjI impI)
  assume s: "Split (CHR '':'') (OvnAddressForClient a) = [scheme, host, port]"
  then have "OvnAddressForClient a \<noteq> []" by auto
  with s have "updateIP a newIP =
      (a\<lparr>OvnAddressForClient := scheme @ '':'' @ newIP @ [] @ port\<rparr>, None)"
    by (simp add: updateIP_def)
  then show "\<exists>between. updateIP a newIP =
      (a\<lparr>OvnAddressForClient := scheme @ '':'' @ newIP @ between @ port\<rparr>, None)"
    by blast
qed (simp_all add: updateIP_def UpdateOvnNodeAuth_def)

theorem updateIP_fields_witness:
  "updateIP \<lparr>OvnAddressForClient = ''tcp:1.2.3.4'', PrivKey = [], Cert = [], CACert = [],
             Scheme = ''tcp'', ctlCmd = ''ovn-nbctl'', externalID = ''ovn-nb''\<rparr> ''10.0.0.1'' =
     (\<lparr>OvnAddressForClient = ''tcp:1.2.3.4'', PrivKey = [], Cert = [], CACert = [],
       Scheme = ''tcp'', ctlCmd = ''ovn-nbctl'', externalID = ''ovn-nb''\<rparr>,
      Some (FailedToParseOvnAddressForClient ''tcp:1.2.3.4'')) \<and>
   (\<exists>between.
      updateIP \<lparr>OvnAddressForClient = ''tcp:1.2.3.4:6641'', PrivKey = [], Cert = [], CACert = [],
                Scheme = ''tcp'', ctlCmd = ''ovn-nbctl'', externalID = ''ovn-nb''\<rparr> ''10.0.0.1'' =
        (\<lparr>OvnAddressForClient = ''tcp:10.0.0.1'' @ between @ ''6641'', PrivKey = [], Cert = [],
          CACert = [], Scheme = ''tcp'', ctlCmd = ''ovn-nbctl'', externalID = ''ovn-nb''\<rparr>, None))"
  using
    updateIP_fields [where a = "\<lparr>OvnAddressForClient = ''tcp:1.2.3.4'', PrivKey = [], Cert = [],
      CACert = [], Scheme = ''tcp'', ctlCmd = ''ovn-nbctl'', externalID = ''ovn-nb''\<rparr>"
      and newIP = "''10.0.0.1''", THEN conjunct2, THEN conjunct1]
    updateIP_fields [where a = "\<lparr>OvnAddressForClient = ''tcp:1.2.3.4:6641'', PrivKey = [], Cert = [],
      CACert = [], Scheme = ''tcp'', ctlCmd = ''ovn-nbctl'', externalID = ''ovn-nb''\<rparr>"
      and newIP = "''10.0.0.1''" and scheme = "''tcp''" and host = "''1.2.3.4''" and port = "''6641''",
      THEN conjunct2, THEN conjunct2, THEN conjunct1]
  by simp

text \<open>What \<open>updateIP\<close> writes for an address of three fields: the scheme, a colon, the
  new IP and the port, with nothing between the last two.\<close>

lemma updateIP_three_fields:
  "updateIP \<lparr>OvnAddressForClient = ''tcp:1.2.3.4:6641'', PrivKey = [], Cert = [], CACert = [],
             Scheme = ''tcp'', ctlCmd = ''ovn-nbctl'', externalID = ''ovn-nb''\<rparr> ''10.0.0.1'' =
     (\<lparr>OvnAddressForClient = ''tcp:10.0.0.16641'', PrivKey = [], Cert = [], CACert = [],
       Scheme = ''tcp'', ctlCmd = ''ovn-nbctl'', externalID = ''ovn-nb''\<rparr>, None)"
  by (simp add: updateIP_def)

section \<open>Claims about parseClusterSubnetEntries\<close>

subsection \<open>Masks and networks\<close>

lemma length_CIDRMask_loop [simp]: "length (CIDRMask_loop l n) = l"
  by (induction l arbitrary: n) auto

lemma byte_AND_ff [simp]: "x AND (0xff :: byte) = x"
proof -
  have "(0xff :: byte) = - 1" by simp
  then show ?thesis by (simp only: and.right_neutral word_bw_comms)
qed

lemma NOT_drop_bit_AND:
  "a \<le> b \<Longrightarrow>
   NOT (drop_bit a (0xff :: byte)) AND NOT (drop_bit b (0xff :: byte)) = NOT (drop_bit a (0xff :: byte))"
proof -
  assume ab: "a \<le> b"
  have ff: "(0xff :: byte) = - 1" by simp
  show ?thesis
    unfolding ff by (rule bit_eqI) (use ab in \<open>auto simp: bit_simps\<close>)
qed

text \<open>The mask of a shorter prefix has no bit outside the mask of a longer one.\<close>

lemma CIDRMask_loop_AND:
  "a \<le> b \<Longrightarrow> i < l \<Longrightarrow>
   CIDRMask_loop l a ! i AND CIDRMask_loop l b ! i = CIDRMask_loop l a ! i"
proof (induction l arbitrary: a b i)
  case 0
  then show ?case by simp
next
  case (Suc l)
  show ?case
  proof (cases i)
    case 0
    with Suc.prems show ?thesis
      by (auto simp: NOT_drop_bit_AND)
  next
    case (Suc i')
    with Suc.prems have i': "i' < l" by simp
    have "(if a \<ge> 8 then a - 8 else 0) \<le> (if b \<ge> 8 then b - 8 else 0)"
      using Suc.prems(1) by auto
    from Suc.IH [OF this i'] Suc show ?thesis
      by (auto split: if_splits)
  qed
qed

lemma drop_CIDRMask_loop: "drop a (CIDRMask_loop (a + l) n) = CIDRMask_loop l (n - 8 * a)"
proof (induction a arbitrary: n)
  case 0
  then show ?case by simp
next
  case (Suc a)
  have "n - 8 - 8 * a = n - 8 * Suc a" by simp
  with Suc [of "n - 8"] Suc [of 0] show ?case by auto
qed

lemma map2_AND_idem: "map2 (AND) (map2 (AND) x m) m = map2 (AND) (x :: byte list) m"
proof (induction x arbitrary: m)
  case Nil
  then show ?case by simp
next
  case (Cons a x)
  then show ?case by (cases m) (auto simp: and.assoc)
qed

lemma map2_AND_nth:
  "map2 (AND) (x :: byte list) m = x \<Longrightarrow> length m = length x \<Longrightarrow> i < length x \<Longrightarrow>
   x ! i AND m ! i = x ! i"
  by (metis (no_types, lifting) length_zip min.idem nth_map nth_zip old.prod.case)

lemma length_parseIPv4:
  "parseIPv4 s = Some ip \<Longrightarrow> length ip = 16 \<and> take 12 ip = v4InV6Prefix"
  by (auto simp: parseIPv4_def IPv4_def v4InV6Prefix_def split: option.splits if_splits)

lemma length_parseIPv6_loop:
  "parseIPv6_loop k bytes ellipsis s = Some (bytes', ellipsis', s') \<Longrightarrow>
   length bytes + 2 * k = 16 \<Longrightarrow> length bytes' \<le> 16"
proof (induction k arbitrary: bytes ellipsis s)
  case 0
  then show ?case by simp
next
  case (Suc k)
  obtain n c ok where x: "xtoi s = (n, c, ok)" by (cases "xtoi s") auto
  let ?b = "bytes @ [of_nat (n div 256 mod 256), of_nat (n mod 256)]"
  have len: "length ?b + 2 * k = 16" "length ?b \<le> 16" using Suc.prems(2) by simp_all
  from Suc.prems(1) x consider
      (dot) ip4 where "parseIPv4 s = Some ip4" "bytes' = bytes @ drop 12 ip4" "length bytes + 4 \<le> 16"
    | (stop) "bytes' = ?b"
    | (go) e t where "parseIPv6_loop k ?b e t = Some (bytes', ellipsis', s')"
    by (auto simp: Let_def split: if_splits option.splits)
  then show ?case
  proof cases
    case dot
    with length_parseIPv4 [OF dot(1)] show ?thesis by simp
  next
    case stop
    with len show ?thesis by simp
  next
    case go
    from Suc.IH [OF go len(1)] show ?thesis .
  qed
qed

lemma length_parseIPv6: "parseIPv6 s = Some ip \<Longrightarrow> length ip = 16"
proof -
  assume p: "parseIPv6 s = Some ip"
  have expand: "length ip = 16"
    if "parseIPv6_expand (parseIPv6_loop 8 [] e t) = Some ip" for e t
  proof -
    from that obtain bytes ellipsis r where
      l: "parseIPv6_loop 8 [] e t = Some (bytes, ellipsis, r)"
      by (auto simp: parseIPv6_expand_def split: option.splits)
    from length_parseIPv6_loop [OF l] have "length bytes \<le> 16" by simp
    with that l show ?thesis
      by (auto simp: parseIPv6_expand_def split: option.splits if_splits)
  qed
  from p show ?thesis
    by (auto simp: parseIPv6_def dest: expand split: if_splits)
qed

text \<open>\<open>net.ParseCIDR\<close> returns a network.\<close>

lemma ParseCIDR_cidrNetwork:
  assumes "ParseCIDR s = Some (ip, n)"
  shows "cidrNetwork n"
proof -
  from assms have
    "(\<exists>ip0 k. parseIPv4 ip0 = Some ip \<and> k \<le> 32 \<and>
        n = \<lparr>IP = IP_Mask ip (CIDRMask k 32), Mask = CIDRMask k 32\<rparr>) \<or>
     (\<exists>ip0 k. parseIPv6 ip0 = Some ip \<and> k \<le> 128 \<and>
        n = \<lparr>IP = IP_Mask ip (CIDRMask k 128), Mask = CIDRMask k 128\<rparr>)"
    by (auto simp: ParseCIDR_def Let_def not_less split: option.splits prod.splits if_splits)
  then consider
      (v4) ip0 k where "parseIPv4 ip0 = Some ip" "k \<le> 32"
        "n = \<lparr>IP = IP_Mask ip (CIDRMask k 32), Mask = CIDRMask k 32\<rparr>"
    | (v6) ip0 k where "parseIPv6 ip0 = Some ip" "k \<le> 128"
        "n = \<lparr>IP = IP_Mask ip (CIDRMask k 128), Mask = CIDRMask k 128\<rparr>"
    by blast
  then show ?thesis
  proof cases
    case v4
    from length_parseIPv4 [OF v4(1)] v4(2)
    have "IP_Mask ip (CIDRMask k 32) = map2 (AND) (drop 12 ip) (CIDRMask_loop 4 k)"
      by (simp add: IP_Mask_def CIDRMask_def)
    with v4 length_parseIPv4 [OF v4(1)] show ?thesis
      by (auto simp: cidrNetwork_def CIDRMask_def map2_AND_idem intro!: exI [of _ k])
  next
    case v6
    from length_parseIPv6 [OF v6(1)] v6(2)
    have "IP_Mask ip (CIDRMask k 128) = map2 (AND) ip (CIDRMask_loop 16 k)"
      by (simp add: IP_Mask_def CIDRMask_def)
    with v6 length_parseIPv6 [OF v6(1)] show ?thesis
      by (auto simp: cidrNetwork_def CIDRMask_def map2_AND_idem intro!: exI [of _ k])
  qed
qed

text \<open>\<open>networkNumberAndMask\<close> of a network that \<open>net.ParseCIDR\<close> returns: the address as
  \<open>Contains\<close> compares it, a prefix mask of its length, and no bit of the address outside
  the mask.\<close>

lemma cidrNetwork_normal:
  assumes "cidrNetwork n"
  obtains l k nn where
    "networkNumberAndMask n = (nn, CIDRMask_loop l k)" "length nn = l"
    "nn = (if To4 (IP n) \<noteq> [] then To4 (IP n) else IP n)"
    "\<forall>i < l. nn ! i AND CIDRMask_loop l k ! i = nn ! i"
proof -
  from assms obtain bits ones where bs: "bits \<in> {32, 128}" and ones: "ones \<le> bits"
    and m: "Mask n = CIDRMask ones bits" and len: "length (IP n) = bits div 8"
    and own: "map2 (AND) (IP n) (Mask n) = IP n"
    unfolding cidrNetwork_def by blast
  from bs ones have b: "bits = 32 \<or> bits = 128" "ones \<le> bits" by simp_all
  from b m have ml: "Mask n = CIDRMask_loop (bits div 8) ones"
    by (auto simp: CIDRMask_def)
  have own': "\<forall>i < length (IP n). IP n ! i AND Mask n ! i = IP n ! i"
    using map2_AND_nth [OF own] ml len by simp
  from b(1) show thesis
  proof
    assume "bits = 32"
    with len ml own' show thesis
      by (intro that [of "IP n" 4 ones]) (auto simp: networkNumberAndMask_def To4_def)
  next
    assume b128: "bits = 128"
    show thesis
    proof (cases "To4 (IP n) = []")
      case True
      with b128 len ml own' show thesis
        by (intro that [of "IP n" 16 ones]) (auto simp: networkNumberAndMask_def)
    next
      case False
      with b128 len have t: "To4 (IP n) = drop 12 (IP n)"
        by (auto simp: To4_def split: if_splits)
      have d: "drop 12 (Mask n) = CIDRMask_loop 4 (ones - 96)"
        using drop_CIDRMask_loop [of 12 4 ones] ml b128 by simp
      have "\<forall>i < 4. drop 12 (IP n) ! i AND drop 12 (Mask n) ! i = drop 12 (IP n) ! i"
        using own' len b128 ml by simp
      with False t d b128 len ml show thesis
        by (intro that [of "drop 12 (IP n)" 4 "ones - 96"])
          (auto simp: networkNumberAndMask_def)
    qed
  qed
qed

lemma Contains_nth:
  "Contains n x \<longleftrightarrow>
     (case networkNumberAndMask n of
        (nn, m) \<Rightarrow>
          length (if To4 x \<noteq> [] then To4 x else x) = length nn \<and>
          (\<forall>i < length nn. nn ! i AND m ! i = (if To4 x \<noteq> [] then To4 x else x) ! i AND m ! i))"
  by (auto simp: Contains_def list_all_iff Let_def split: prod.splits)

lemma Contains_own_IP: "cidrNetwork n \<Longrightarrow> Contains n (IP n)"
  by (erule cidrNetwork_normal) (simp add: Contains_nth)

text \<open>Two networks share an address exactly when one of them holds the address of the
  other: the test \<open>cidrsOverlap\<close> makes.\<close>

lemma cidr_overlap_iff:
  assumes "cidrNetwork n1" "cidrNetwork n2"
  shows "addresses n1 \<inter> addresses n2 \<noteq> {} \<longleftrightarrow> Contains n1 (IP n2) \<or> Contains n2 (IP n1)"
proof
  from assms(1) obtain l1 k1 nn1 where
    n1: "networkNumberAndMask n1 = (nn1, CIDRMask_loop l1 k1)" "length nn1 = l1"
      "nn1 = (if To4 (IP n1) \<noteq> [] then To4 (IP n1) else IP n1)" and
    own1: "\<forall>i < l1. nn1 ! i AND CIDRMask_loop l1 k1 ! i = nn1 ! i"
    by (rule cidrNetwork_normal)
  from assms(2) obtain l2 k2 nn2 where
    n2: "networkNumberAndMask n2 = (nn2, CIDRMask_loop l2 k2)" "length nn2 = l2"
      "nn2 = (if To4 (IP n2) \<noteq> [] then To4 (IP n2) else IP n2)" and
    own2: "\<forall>i < l2. nn2 ! i AND CIDRMask_loop l2 k2 ! i = nn2 ! i"
    by (rule cidrNetwork_normal)
  assume "addresses n1 \<inter> addresses n2 \<noteq> {}"
  then obtain x where x: "Contains n1 x" "Contains n2 x"
    by (auto simp: addresses_def)
  define x' where "x' = (if To4 x \<noteq> [] then To4 x else x)"
  from x(1) n1 have c1: "length x' = l1"
    "\<forall>i < l1. nn1 ! i AND CIDRMask_loop l1 k1 ! i = x' ! i AND CIDRMask_loop l1 k1 ! i"
    by (simp_all add: Contains_nth x'_def)
  from x(2) n2 have c2: "length x' = l2"
    "\<forall>i < l2. nn2 ! i AND CIDRMask_loop l2 k2 ! i = x' ! i AND CIDRMask_loop l2 k2 ! i"
    by (simp_all add: Contains_nth x'_def)
  from c1(1) c2(1) have l: "l2 = l1" by simp
  show "Contains n1 (IP n2) \<or> Contains n2 (IP n1)"
  proof (cases "k1 \<le> k2")
    case True
    have "nn1 ! i AND CIDRMask_loop l1 k1 ! i = nn2 ! i AND CIDRMask_loop l1 k1 ! i"
      if i: "i < l1" for i
    proof -
      have "nn2 ! i AND CIDRMask_loop l1 k1 ! i =
          (x' ! i AND CIDRMask_loop l1 k2 ! i) AND CIDRMask_loop l1 k1 ! i"
        using own2 c2(2) i l by simp
      also have "\<dots> = x' ! i AND (CIDRMask_loop l1 k1 ! i AND CIDRMask_loop l1 k2 ! i)"
        by (simp add: ac_simps)
      also have "\<dots> = x' ! i AND CIDRMask_loop l1 k1 ! i"
        using CIDRMask_loop_AND [OF True i] by simp
      finally show ?thesis using c1(2) i by simp
    qed
    then have "Contains n1 (IP n2)"
      using n1 n2 l by (simp add: Contains_nth)
    then show ?thesis ..
  next
    case False
    then have le: "k2 \<le> k1" by simp
    have "nn2 ! i AND CIDRMask_loop l1 k2 ! i = nn1 ! i AND CIDRMask_loop l1 k2 ! i"
      if i: "i < l1" for i
    proof -
      have "nn1 ! i AND CIDRMask_loop l1 k2 ! i =
          (x' ! i AND CIDRMask_loop l1 k1 ! i) AND CIDRMask_loop l1 k2 ! i"
        using own1 c1(2) i by simp
      also have "\<dots> = x' ! i AND (CIDRMask_loop l1 k2 ! i AND CIDRMask_loop l1 k1 ! i)"
        by (simp add: ac_simps)
      also have "\<dots> = x' ! i AND CIDRMask_loop l1 k2 ! i"
        using CIDRMask_loop_AND [OF le i] by simp
      finally show ?thesis using c2(2) i l by simp
    qed
    then have "Contains n2 (IP n1)"
      using n1 n2 l by (simp add: Contains_nth)
    then show ?thesis ..
  qed
next
  assume "Contains n1 (IP n2) \<or> Contains n2 (IP n1)"
  then show "addresses n1 \<inter> addresses n2 \<noteq> {}"
    using Contains_own_IP [OF assms(1)] Contains_own_IP [OF assms(2)]
    by (auto simp: addresses_def)
qed

lemma cidrsOverlap_iff:
  "cidrsOverlap cidr cidrList \<longleftrightarrow>
     (\<exists>e \<in> set cidrList. Contains cidr (IP (CIDR e)) \<or> Contains (CIDR e) (IP cidr))"
  by (induction cidrList) auto

lemma entries_loop_result:
  "parseClusterSubnetEntries_loop parsed entries = Inr es \<Longrightarrow>
   \<exists>new. es = parsed @ new \<and> length new = length entries \<and>
     (\<forall>i < length entries.
        (length (Split (CHR ''/'') (entries ! i)) = 2 \<and> HostSubnetLength (new ! i) = 24 \<or>
         length (Split (CHR ''/'') (entries ! i)) = 3 \<and>
           (\<exists>n. ParseUint32 (Split (CHR ''/'') (entries ! i) ! 2) = Inr n \<and>
                HostSubnetLength (new ! i) = word_of_nat n)) \<and>
        (\<exists>ip. ParseCIDR (Split (CHR ''/'') (entries ! i) ! 0 @ ''/'' @
                          Split (CHR ''/'') (entries ! i) ! 1) = Some (ip, CIDR (new ! i))) \<and>
        \<not> cidrsOverlap (CIDR (new ! i)) (parsed @ take i new))"
proof (induction entries arbitrary: parsed)
  case Nil
  then show ?case by simp
next
  case (Cons x xs)
  let ?sp = "Split (CHR ''/'') x"
  from Cons.prems obtain hsl ip cidr where
    hsl: "length ?sp = 2 \<and> hsl = 24 \<or>
          length ?sp = 3 \<and> (\<exists>n. ParseUint32 (?sp ! 2) = Inr n \<and> hsl = word_of_nat n)" and
    cidr: "ParseCIDR (?sp ! 0 @ ''/'' @ ?sp ! 1) = Some (ip, cidr)" and
    no: "\<not> cidrsOverlap cidr parsed" and
    rest: "parseClusterSubnetEntries_loop (parsed @ [\<lparr>CIDR = cidr, HostSubnetLength = hsl\<rparr>]) xs = Inr es"
    by (auto simp: Let_def split: if_splits sum.splits option.splits prod.splits)
  let ?e = "\<lparr>CIDR = cidr, HostSubnetLength = hsl\<rparr>"
  from Cons.IH [OF rest] obtain new' where
    new': "es = (parsed @ [?e]) @ new'" "length new' = length xs" and
    each: "\<And>i. i < length xs \<Longrightarrow>
        (length (Split (CHR ''/'') (xs ! i)) = 2 \<and> HostSubnetLength (new' ! i) = 24 \<or>
         length (Split (CHR ''/'') (xs ! i)) = 3 \<and>
           (\<exists>n. ParseUint32 (Split (CHR ''/'') (xs ! i) ! 2) = Inr n \<and>
                HostSubnetLength (new' ! i) = word_of_nat n)) \<and>
        (\<exists>ip. ParseCIDR (Split (CHR ''/'') (xs ! i) ! 0 @ ''/'' @
                          Split (CHR ''/'') (xs ! i) ! 1) = Some (ip, CIDR (new' ! i))) \<and>
        \<not> cidrsOverlap (CIDR (new' ! i)) ((parsed @ [?e]) @ take i new')"
    by blast
  show ?case
  proof (intro exI [of _ "?e # new'"] conjI allI impI)
    show "es = parsed @ ?e # new'" using new'(1) by simp
    show "length (?e # new') = length (x # xs)" using new'(2) by simp
  next
    fix i assume i: "i < length (x # xs)"
    show "(length (Split (CHR ''/'') ((x # xs) ! i)) = 2 \<and> HostSubnetLength ((?e # new') ! i) = 24 \<or>
         length (Split (CHR ''/'') ((x # xs) ! i)) = 3 \<and>
           (\<exists>n. ParseUint32 (Split (CHR ''/'') ((x # xs) ! i) ! 2) = Inr n \<and>
                HostSubnetLength ((?e # new') ! i) = word_of_nat n))"
      using hsl each i by (cases i) auto
    show "\<exists>ip. ParseCIDR (Split (CHR ''/'') ((x # xs) ! i) ! 0 @ ''/'' @
                          Split (CHR ''/'') ((x # xs) ! i) ! 1) = Some (ip, CIDR ((?e # new') ! i))"
      using cidr each i by (cases i) auto
    show "\<not> cidrsOverlap (CIDR ((?e # new') ! i)) (parsed @ take i (?e # new'))"
      using no each i by (cases i) auto
  qed
qed

lemma entries_loop_append:
  "parseClusterSubnetEntries_loop parsed pre = Inr parsed' \<Longrightarrow>
   parseClusterSubnetEntries_loop parsed (pre @ rest) = parseClusterSubnetEntries_loop parsed' rest"
proof (induction pre arbitrary: parsed)
  case Nil
  then show ?case by simp
next
  case (Cons x xs)
  then show ?case
    by (auto simp: Let_def split: if_splits sum.splits option.splits prod.splits)
qed

text \<open>What a successful call returns: one entry for each entry of the list, in order,
  with the network the entry names and the host subnet length it gives (24 when it gives
  none); and no network holds the address of an earlier one, or has its address in it.\<close>

lemma parseClusterSubnetEntries_result:
  assumes "parseClusterSubnetEntries clusterSubnetCmd = Inr es"
  shows "length es = length (Split (CHR '','') clusterSubnetCmd)"
    and "\<And>i. i < length es \<Longrightarrow>
      length (Split (CHR ''/'') (Split (CHR '','') clusterSubnetCmd ! i)) = 2 \<and>
        HostSubnetLength (es ! i) = 24 \<or>
      length (Split (CHR ''/'') (Split (CHR '','') clusterSubnetCmd ! i)) = 3 \<and>
        (\<exists>n. ParseUint32 (Split (CHR ''/'') (Split (CHR '','') clusterSubnetCmd ! i) ! 2) = Inr n \<and>
             HostSubnetLength (es ! i) = word_of_nat n)"
    and "\<And>i. i < length es \<Longrightarrow> entryCIDR (Split (CHR '','') clusterSubnetCmd ! i) = Some (CIDR (es ! i))"
    and "\<And>i. i < length es \<Longrightarrow> cidrNetwork (CIDR (es ! i))"
    and "\<And>i j. i < j \<Longrightarrow> j < length es \<Longrightarrow>
      \<not> Contains (CIDR (es ! j)) (IP (CIDR (es ! i))) \<and> \<not> Contains (CIDR (es ! i)) (IP (CIDR (es ! j)))"
proof -
  let ?entries = "Split (CHR '','') clusterSubnetCmd"
  from entries_loop_result [of "[]" ?entries es] assms
  have len: "length es = length ?entries" and
    each: "\<And>i. i < length ?entries \<Longrightarrow>
        (length (Split (CHR ''/'') (?entries ! i)) = 2 \<and> HostSubnetLength (es ! i) = 24 \<or>
         length (Split (CHR ''/'') (?entries ! i)) = 3 \<and>
           (\<exists>n. ParseUint32 (Split (CHR ''/'') (?entries ! i) ! 2) = Inr n \<and>
                HostSubnetLength (es ! i) = word_of_nat n)) \<and>
        (\<exists>ip. ParseCIDR (Split (CHR ''/'') (?entries ! i) ! 0 @ ''/'' @
                          Split (CHR ''/'') (?entries ! i) ! 1) = Some (ip, CIDR (es ! i))) \<and>
        \<not> cidrsOverlap (CIDR (es ! i)) (take i es)"
    by (auto simp: parseClusterSubnetEntries_def)
  show "length es = length ?entries" by (rule len)
  show "\<And>i. i < length es \<Longrightarrow>
      length (Split (CHR ''/'') (?entries ! i)) = 2 \<and> HostSubnetLength (es ! i) = 24 \<or>
      length (Split (CHR ''/'') (?entries ! i)) = 3 \<and>
        (\<exists>n. ParseUint32 (Split (CHR ''/'') (?entries ! i) ! 2) = Inr n \<and>
             HostSubnetLength (es ! i) = word_of_nat n)"
    using each len by simp
  show "\<And>i. i < length es \<Longrightarrow> entryCIDR (?entries ! i) = Some (CIDR (es ! i))"
    using each len by (fastforce simp: entryCIDR_def Let_def)
  show "\<And>i. i < length es \<Longrightarrow> cidrNetwork (CIDR (es ! i))"
    using each len ParseCIDR_cidrNetwork by fastforce
  show "\<And>i j. i < j \<Longrightarrow> j < length es \<Longrightarrow>
      \<not> Contains (CIDR (es ! j)) (IP (CIDR (es ! i))) \<and> \<not> Contains (CIDR (es ! i)) (IP (CIDR (es ! j)))"
  proof -
    fix i j assume ij: "i < j" "j < length es"
    then have "es ! i \<in> set (take j es)"
      by (metis in_set_conv_nth length_take min.absorb2 less_imp_le nth_take)
    moreover have "\<not> cidrsOverlap (CIDR (es ! j)) (take j es)"
      using each [of j] ij len by simp
    ultimately show "\<not> Contains (CIDR (es ! j)) (IP (CIDR (es ! i))) \<and>
        \<not> Contains (CIDR (es ! i)) (IP (CIDR (es ! j)))"
      by (auto simp: cidrsOverlap_iff)
  qed
qed

text \<open>The equations that run \<open>parseClusterSubnetEntries\<close> on a given list.\<close>

lemmas run_parseClusterSubnetEntries = parseClusterSubnetEntries_def Let_def library_defs

text \<open>
  Claim C3, as stated: an entry whose host-prefix-length is not at least its prefix length
  plus one is an error. It is not: \<open>10.0.0.0/16/8\<close> is accepted, with a network of
  prefix length 16 and the host subnet length 8.
\<close>

theorem parseClusterSubnetEntries_short_host_length:
  "parseClusterSubnetEntries ''10.0.0.0/16/8'' =
     Inr [\<lparr>CIDR = \<lparr>IP = [10, 0, 0, 0], Mask = [255, 255, 0, 0]\<rparr>, HostSubnetLength = 8\<rparr>] \<and>
   prefixLength \<lparr>CIDR = \<lparr>IP = [10, 0, 0, 0], Mask = [255, 255, 0, 0]\<rparr>, HostSubnetLength = 8\<rparr> = 16 \<and>
   unat (HostSubnetLength \<lparr>CIDR = \<lparr>IP = [10, 0, 0, 0], Mask = [255, 255, 0, 0]\<rparr>, HostSubnetLength = 8\<rparr>) <
     prefixLength \<lparr>CIDR = \<lparr>IP = [10, 0, 0, 0], Mask = [255, 255, 0, 0]\<rparr>, HostSubnetLength = 8\<rparr> + 1"
  by (simp add: run_parseClusterSubnetEntries prefixLength_def)

text \<open>
  Claim C3, amended. \<open>parseClusterSubnetEntries\<close> returns an error when the network of
  an entry overlaps the network of an earlier entry, the error that names the network
  when the loop comes to the entry; and the networks of a list it returns are pairwise
  disjoint, each the network its entry names. The host subnet length of an entry is the
  number the entry gives, or 24: it is not compared with the prefix length.
\<close>

theorem parseClusterSubnetEntries_disjoint:
  "(parseClusterSubnetEntries clusterSubnetCmd = Inr es \<longrightarrow>
      length es = length (Split (CHR '','') clusterSubnetCmd) \<and>
      (\<forall>i < length es. entryCIDR (Split (CHR '','') clusterSubnetCmd ! i) = Some (CIDR (es ! i))) \<and>
      (\<forall>i < length es. \<forall>j < length es. i \<noteq> j \<longrightarrow>
         addresses (CIDR (es ! i)) \<inter> addresses (CIDR (es ! j)) = {})) \<and>
   (i < j \<longrightarrow> j < length (Split (CHR '','') clusterSubnetCmd) \<longrightarrow>
      entryCIDR (Split (CHR '','') clusterSubnetCmd ! i) = Some n1 \<longrightarrow>
      entryCIDR (Split (CHR '','') clusterSubnetCmd ! j) = Some n2 \<longrightarrow>
      addresses n1 \<inter> addresses n2 \<noteq> {} \<longrightarrow>
      (\<exists>err. parseClusterSubnetEntries clusterSubnetCmd = Inl err)) \<and>
   (ParseCIDR (Split (CHR ''/'') clusterEntry ! 0 @ ''/'' @ Split (CHR ''/'') clusterEntry ! 1) =
        Some (ip, cidr) \<longrightarrow>
      (length (Split (CHR ''/'') clusterEntry) = 2 \<or>
       length (Split (CHR ''/'') clusterEntry) = 3 \<and>
         (\<exists>n. ParseUint32 (Split (CHR ''/'') clusterEntry ! 2) = Inr n)) \<longrightarrow>
      (\<forall>e \<in> set parsed. cidrNetwork (CIDR e)) \<longrightarrow>
      (\<exists>e \<in> set parsed. addresses (CIDR e) \<inter> addresses cidr \<noteq> {}) \<longrightarrow>
      parseClusterSubnetEntries_loop parsed (clusterEntry # rest) = Inl (CIDROverlaps cidr))"
proof (intro conjI impI)
  assume ok: "parseClusterSubnetEntries clusterSubnetCmd = Inr es"
  note r = parseClusterSubnetEntries_result [OF ok]
  show "length es = length (Split (CHR '','') clusterSubnetCmd)" by (rule r(1))
  show "\<forall>i < length es. entryCIDR (Split (CHR '','') clusterSubnetCmd ! i) = Some (CIDR (es ! i))"
    using r(3) by blast
  have less: "addresses (CIDR (es ! a)) \<inter> addresses (CIDR (es ! b)) = {}"
    if "a < b" "b < length es" for a b
  proof -
    from that have "a < length es" by simp
    from cidr_overlap_iff [OF r(4) [OF this] r(4) [OF that(2)]] r(5) [OF that]
    show ?thesis by blast
  qed
  show "\<forall>i < length es. \<forall>j < length es. i \<noteq> j \<longrightarrow>
      addresses (CIDR (es ! i)) \<inter> addresses (CIDR (es ! j)) = {}"
  proof (intro allI impI)
    fix a b assume "a < length es" "b < length es" "a \<noteq> b"
    then consider "a < b" | "b < a" by linarith
    then show "addresses (CIDR (es ! a)) \<inter> addresses (CIDR (es ! b)) = {}"
    proof cases
      case 1
      from less [OF 1 \<open>b < length es\<close>] show ?thesis .
    next
      case 2
      from less [OF 2 \<open>a < length es\<close>] show ?thesis by blast
    qed
  qed
next
  assume ij: "i < j" "j < length (Split (CHR '','') clusterSubnetCmd)"
    and n1: "entryCIDR (Split (CHR '','') clusterSubnetCmd ! i) = Some n1"
    and n2: "entryCIDR (Split (CHR '','') clusterSubnetCmd ! j) = Some n2"
    and overlap: "addresses n1 \<inter> addresses n2 \<noteq> {}"
  show "\<exists>err. parseClusterSubnetEntries clusterSubnetCmd = Inl err"
  proof (cases "parseClusterSubnetEntries clusterSubnetCmd")
    case (Inl err)
    then show ?thesis by blast
  next
    case (Inr es)
    note r = parseClusterSubnetEntries_result [OF Inr]
    from ij r(1) have lt: "i < length es" "j < length es" by simp_all
    from r(3) [OF lt(1)] r(3) [OF lt(2)] n1 n2
    have eq: "CIDR (es ! i) = n1" "CIDR (es ! j) = n2" by simp_all
    from cidr_overlap_iff [OF r(4) [OF lt(1)] r(4) [OF lt(2)]] r(5) [OF ij(1) lt(2)] overlap
    show ?thesis by (simp add: eq)
  qed
next
  assume cidr: "ParseCIDR (Split (CHR ''/'') clusterEntry ! 0 @ ''/'' @
        Split (CHR ''/'') clusterEntry ! 1) = Some (ip, cidr)"
    and two: "length (Split (CHR ''/'') clusterEntry) = 2 \<or>
       length (Split (CHR ''/'') clusterEntry) = 3 \<and>
         (\<exists>n. ParseUint32 (Split (CHR ''/'') clusterEntry ! 2) = Inr n)"
    and wf: "\<forall>e \<in> set parsed. cidrNetwork (CIDR e)"
    and overlap: "\<exists>e \<in> set parsed. addresses (CIDR e) \<inter> addresses cidr \<noteq> {}"
  from overlap obtain e where e: "e \<in> set parsed" "addresses (CIDR e) \<inter> addresses cidr \<noteq> {}"
    by blast
  from cidr_overlap_iff [OF _ ParseCIDR_cidrNetwork [OF cidr], of "CIDR e"] wf e
  have "Contains (CIDR e) (IP cidr) \<or> Contains cidr (IP (CIDR e))" by blast
  with e(1) have "cidrsOverlap cidr parsed"
    by (auto simp: cidrsOverlap_iff)
  with cidr two show "parseClusterSubnetEntries_loop parsed (clusterEntry # rest) = Inl (CIDROverlaps cidr)"
    by (auto simp: Let_def)
qed

theorem parseClusterSubnetEntries_disjoint_witness:
  "(\<exists>e1 e2. parseClusterSubnetEntries ''10.128.0.0/14/23,10.0.0.0/14/23'' = Inr [e1, e2] \<and>
      addresses (CIDR e1) \<inter> addresses (CIDR e2) = {}) \<and>
   (\<exists>e1 e2. parseClusterSubnetEntries ''fd00::/64/80,10.0.0.0/16'' = Inr [e1, e2] \<and>
      HostSubnetLength e1 = 80 \<and> prefixLength e1 = 64 \<and>
      addresses (CIDR e1) \<inter> addresses (CIDR e2) = {}) \<and>
   parseClusterSubnetEntries ''10.0.0.0/16,10.0.1.0/24'' =
     Inl (CIDROverlaps \<lparr>IP = [10, 0, 1, 0], Mask = [255, 255, 255, 0]\<rparr>)"
proof -
  let ?e1 = "\<lparr>CIDR = \<lparr>IP = [10, 128, 0, 0], Mask = [255, 252, 0, 0]\<rparr>, HostSubnetLength = 23\<rparr>"
  let ?e2 = "\<lparr>CIDR = \<lparr>IP = [10, 0, 0, 0], Mask = [255, 252, 0, 0]\<rparr>, HostSubnetLength = 23\<rparr>"
  have ok: "parseClusterSubnetEntries ''10.128.0.0/14/23,10.0.0.0/14/23'' = Inr [?e1, ?e2]"
    by (simp add: run_parseClusterSubnetEntries)
  from parseClusterSubnetEntries_disjoint [where clusterSubnetCmd = "''10.128.0.0/14/23,10.0.0.0/14/23''"
      and es = "[?e1, ?e2]", THEN conjunct1, THEN mp, OF ok]
  have "\<forall>i < length [?e1, ?e2]. \<forall>j < length [?e1, ?e2]. i \<noteq> j \<longrightarrow>
      addresses (CIDR ([?e1, ?e2] ! i)) \<inter> addresses (CIDR ([?e1, ?e2] ! j)) = {}"
    by blast
  from this [THEN spec, of 0, THEN mp, THEN spec, of 1, THEN mp, THEN mp]
  have "addresses (CIDR ([?e1, ?e2] ! 0)) \<inter> addresses (CIDR ([?e1, ?e2] ! 1)) = {}"
    by simp
  then have first: "\<exists>e1 e2. parseClusterSubnetEntries ''10.128.0.0/14/23,10.0.0.0/14/23'' = Inr [e1, e2] \<and>
      addresses (CIDR e1) \<inter> addresses (CIDR e2) = {}"
    using ok by simp
  let ?f1 = "\<lparr>CIDR = \<lparr>IP = [253, 0, 0, 0, 0, 0, 0, 0, 0, 0, 0, 0, 0, 0, 0, 0],
        Mask = [255, 255, 255, 255, 255, 255, 255, 255, 0, 0, 0, 0, 0, 0, 0, 0]\<rparr>,
      HostSubnetLength = 80\<rparr>"
  let ?f2 = "\<lparr>CIDR = \<lparr>IP = [10, 0, 0, 0], Mask = [255, 255, 0, 0]\<rparr>, HostSubnetLength = 24\<rparr>"
  have ok6: "parseClusterSubnetEntries ''fd00::/64/80,10.0.0.0/16'' = Inr [?f1, ?f2]"
    by (simp add: run_parseClusterSubnetEntries)
  from parseClusterSubnetEntries_disjoint [where clusterSubnetCmd = "''fd00::/64/80,10.0.0.0/16''"
      and es = "[?f1, ?f2]", THEN conjunct1, THEN mp, OF ok6]
  have "\<forall>i < length [?f1, ?f2]. \<forall>j < length [?f1, ?f2]. i \<noteq> j \<longrightarrow>
      addresses (CIDR ([?f1, ?f2] ! i)) \<inter> addresses (CIDR ([?f1, ?f2] ! j)) = {}"
    by blast
  from this [THEN spec, of 0, THEN mp, THEN spec, of 1, THEN mp, THEN mp]
  have "addresses (CIDR ([?f1, ?f2] ! 0)) \<inter> addresses (CIDR ([?f1, ?f2] ! 1)) = {}"
    by simp
  moreover have "prefixLength ?f1 = 64"
    by (simp add: prefixLength_def library_defs)
  ultimately have mixed: "\<exists>e1 e2. parseClusterSubnetEntries ''fd00::/64/80,10.0.0.0/16'' = Inr [e1, e2] \<and>
      HostSubnetLength e1 = 80 \<and> prefixLength e1 = 64 \<and>
      addresses (CIDR e1) \<inter> addresses (CIDR e2) = {}"
    using ok6 by simp
  let ?p = "\<lparr>CIDR = \<lparr>IP = [10, 0, 0, 0], Mask = [255, 255, 0, 0]\<rparr>, HostSubnetLength = 24\<rparr>"
  have pre: "parseClusterSubnetEntries_loop [] [''10.0.0.0/16''] = Inr [?p]"
    by (simp add: Let_def library_defs)
  have cidr: "ParseCIDR (Split (CHR ''/'') ''10.0.1.0/24'' ! 0 @ ''/'' @
      Split (CHR ''/'') ''10.0.1.0/24'' ! 1) = Some ([0, 0, 0, 0, 0, 0, 0, 0, 0, 0, 255, 255, 10, 0, 1, 0], \<lparr>IP = [10, 0, 1, 0], Mask = [255, 255, 255, 0]\<rparr>)"
    "length (Split (CHR ''/'') ''10.0.1.0/24'') = 2 \<or>
     length (Split (CHR ''/'') ''10.0.1.0/24'') = 3 \<and>
       (\<exists>n. ParseUint32 (Split (CHR ''/'') ''10.0.1.0/24'' ! 2) = Inr n)"
    by (simp_all add: library_defs)
  have wf: "\<forall>e \<in> set [?p]. cidrNetwork (CIDR e)"
    using ParseCIDR_cidrNetwork [of "''10.0.0.0/16''" "[0, 0, 0, 0, 0, 0, 0, 0, 0, 0, 255, 255, 10, 0, 0, 0]" "\<lparr>IP = [10, 0, 0, 0], Mask = [255, 255, 0, 0]\<rparr>"]
    by (simp add: library_defs)
  have "[10, 0, 1, 0] \<in> addresses \<lparr>IP = [10, 0, 0, 0], Mask = [255, 255, 0, 0]\<rparr> \<inter>
      addresses \<lparr>IP = [10, 0, 1, 0], Mask = [255, 255, 255, 0]\<rparr>"
    by (simp add: addresses_def library_defs)
  then have overlap: "\<exists>e \<in> set [?p]. addresses (CIDR e) \<inter>
      addresses \<lparr>IP = [10, 0, 1, 0], Mask = [255, 255, 255, 0]\<rparr> \<noteq> {}"
    by auto
  have "parseClusterSubnetEntries_loop [?p] [''10.0.1.0/24''] =
      Inl (CIDROverlaps \<lparr>IP = [10, 0, 1, 0], Mask = [255, 255, 255, 0]\<rparr>)"
    using parseClusterSubnetEntries_disjoint [where clusterEntry = "''10.0.1.0/24''"
        and parsed = "[?p]" and rest = "[]" and ip = "[0, 0, 0, 0, 0, 0, 0, 0, 0, 0, 255, 255, 10, 0, 1, 0]"
        and cidr = "\<lparr>IP = [10, 0, 1, 0], Mask = [255, 255, 255, 0]\<rparr>", THEN conjunct2, THEN conjunct2]
      cidr wf overlap
    by blast
  with entries_loop_append [OF pre, of "[''10.0.1.0/24'']"]
  have "parseClusterSubnetEntries ''10.0.0.0/16,10.0.1.0/24'' =
      Inl (CIDROverlaps \<lparr>IP = [10, 0, 1, 0], Mask = [255, 255, 255, 0]\<rparr>)"
    by (simp add: parseClusterSubnetEntries_def)
  with first mixed show ?thesis by blast
qed

text \<open>Entries of two parts in a returned list, and an entry that has neither two nor
  three parts.\<close>

lemma entries_parts:
  "(parseClusterSubnetEntries clusterSubnetCmd = Inr es \<longrightarrow>
      length es = length (Split (CHR '','') clusterSubnetCmd) \<and>
      (\<forall>i < length es. length (Split (CHR ''/'') (Split (CHR '','') clusterSubnetCmd ! i)) = 2 \<longrightarrow>
         HostSubnetLength (es ! i) = 24)) \<and>
   (length (Split (CHR ''/'') clusterEntry) \<noteq> 2 \<longrightarrow> length (Split (CHR ''/'') clusterEntry) \<noteq> 3 \<longrightarrow>
      parseClusterSubnetEntries_loop parsed (clusterEntry # rest) = Inl NotFormattedProperly \<and>
      (clusterEntry \<in> set (Split (CHR '','') clusterSubnetCmd) \<longrightarrow>
         (\<exists>err. parseClusterSubnetEntries clusterSubnetCmd = Inl err)) \<and>
      (Split (CHR '','') clusterSubnetCmd = pre @ clusterEntry # rest \<longrightarrow>
         parseClusterSubnetEntries_loop [] pre = Inr parsed \<longrightarrow>
         parseClusterSubnetEntries clusterSubnetCmd = Inl NotFormattedProperly))"
proof (rule conjI; intro impI)
  assume ok: "parseClusterSubnetEntries clusterSubnetCmd = Inr es"
  note r = parseClusterSubnetEntries_result [OF ok]
  show "length es = length (Split (CHR '','') clusterSubnetCmd) \<and>
      (\<forall>i < length es. length (Split (CHR ''/'') (Split (CHR '','') clusterSubnetCmd ! i)) = 2 \<longrightarrow>
         HostSubnetLength (es ! i) = 24)"
    using r(1) r(2) by fastforce
next
  assume parts: "length (Split (CHR ''/'') clusterEntry) \<noteq> 2" "length (Split (CHR ''/'') clusterEntry) \<noteq> 3"
  have step: "parseClusterSubnetEntries_loop p (clusterEntry # q) = Inl NotFormattedProperly" for p q
    using parts by (simp add: Let_def)
  have rejected: "\<exists>err. parseClusterSubnetEntries clusterSubnetCmd = Inl err"
    if mem: "clusterEntry \<in> set (Split (CHR '','') clusterSubnetCmd)"
  proof (cases "parseClusterSubnetEntries clusterSubnetCmd")
    case (Inl err)
    then show ?thesis by blast
  next
    case (Inr es)
    note r = parseClusterSubnetEntries_result [OF Inr]
    from mem obtain i where "i < length (Split (CHR '','') clusterSubnetCmd)"
      "Split (CHR '','') clusterSubnetCmd ! i = clusterEntry"
      by (auto simp: in_set_conv_nth)
    with r(1) r(2) [of i] parts show ?thesis by auto
  qed
  have first: "parseClusterSubnetEntries clusterSubnetCmd = Inl NotFormattedProperly"
    if "Split (CHR '','') clusterSubnetCmd = pre @ clusterEntry # rest"
      "parseClusterSubnetEntries_loop [] pre = Inr parsed"
    using entries_loop_append [OF that(2), of "clusterEntry # rest"] that(1) step
    by (simp add: parseClusterSubnetEntries_def)
  show "parseClusterSubnetEntries_loop parsed (clusterEntry # rest) = Inl NotFormattedProperly \<and>
      (clusterEntry \<in> set (Split (CHR '','') clusterSubnetCmd) \<longrightarrow>
         (\<exists>err. parseClusterSubnetEntries clusterSubnetCmd = Inl err)) \<and>
      (Split (CHR '','') clusterSubnetCmd = pre @ clusterEntry # rest \<longrightarrow>
         parseClusterSubnetEntries_loop [] pre = Inr parsed \<longrightarrow>
         parseClusterSubnetEntries clusterSubnetCmd = Inl NotFormattedProperly)"
    using step rejected first by blast
qed

text \<open>
  Claim C9. An entry of two parts between slashes gets the host subnet length 24: in a
  returned list, and at the step of the loop that reads it, where its network, of IPv4 or
  of IPv6, is appended with that length when it parses and overlaps no earlier one. An
  entry with another number of parts than two or three is answered with the error
  "cluster-cidr not formatted properly" whenever the loop comes to it, whatever was parsed
  before it and whatever follows; so a list with such an entry is always rejected, and
  with that error when the entries before it are in order.
\<close>

theorem parseClusterSubnetEntries_parts:
  "(parseClusterSubnetEntries clusterSubnetCmd = Inr es \<longrightarrow>
      length es = length (Split (CHR '','') clusterSubnetCmd) \<and>
      (\<forall>i < length es. length (Split (CHR ''/'') (Split (CHR '','') clusterSubnetCmd ! i)) = 2 \<longrightarrow>
         HostSubnetLength (es ! i) = 24)) \<and>
   (length (Split (CHR ''/'') clusterEntry) \<noteq> 2 \<longrightarrow> length (Split (CHR ''/'') clusterEntry) \<noteq> 3 \<longrightarrow>
      parseClusterSubnetEntries_loop parsed (clusterEntry # rest) = Inl NotFormattedProperly \<and>
      (clusterEntry \<in> set (Split (CHR '','') clusterSubnetCmd) \<longrightarrow>
         (\<exists>err. parseClusterSubnetEntries clusterSubnetCmd = Inl err)) \<and>
      (Split (CHR '','') clusterSubnetCmd = pre @ clusterEntry # rest \<longrightarrow>
         parseClusterSubnetEntries_loop [] pre = Inr parsed \<longrightarrow>
         parseClusterSubnetEntries clusterSubnetCmd = Inl NotFormattedProperly)) \<and>
   (length (Split (CHR ''/'') clusterEntry) = 2 \<longrightarrow>
      ParseCIDR (Split (CHR ''/'') clusterEntry ! 0 @ ''/'' @ Split (CHR ''/'') clusterEntry ! 1) =
        Some (ip, cidr) \<longrightarrow>
      \<not> cidrsOverlap cidr parsed \<longrightarrow>
      parseClusterSubnetEntries_loop parsed (clusterEntry # rest) =
        parseClusterSubnetEntries_loop
          (parsed @ [\<lparr>CIDR = cidr, HostSubnetLength = 24\<rparr>]) rest)"
proof (intro conjI)
  show "parseClusterSubnetEntries clusterSubnetCmd = Inr es \<longrightarrow>
      length es = length (Split (CHR '','') clusterSubnetCmd) \<and>
      (\<forall>i < length es. length (Split (CHR ''/'') (Split (CHR '','') clusterSubnetCmd ! i)) = 2 \<longrightarrow>
         HostSubnetLength (es ! i) = 24)"
    by (rule entries_parts [THEN conjunct1])
  show "length (Split (CHR ''/'') clusterEntry) \<noteq> 2 \<longrightarrow> length (Split (CHR ''/'') clusterEntry) \<noteq> 3 \<longrightarrow>
      parseClusterSubnetEntries_loop parsed (clusterEntry # rest) = Inl NotFormattedProperly \<and>
      (clusterEntry \<in> set (Split (CHR '','') clusterSubnetCmd) \<longrightarrow>
         (\<exists>err. parseClusterSubnetEntries clusterSubnetCmd = Inl err)) \<and>
      (Split (CHR '','') clusterSubnetCmd = pre @ clusterEntry # rest \<longrightarrow>
         parseClusterSubnetEntries_loop [] pre = Inr parsed \<longrightarrow>
         parseClusterSubnetEntries clusterSubnetCmd = Inl NotFormattedProperly)"
    by (rule entries_parts [THEN conjunct2])
  show "length (Split (CHR ''/'') clusterEntry) = 2 \<longrightarrow>
      ParseCIDR (Split (CHR ''/'') clusterEntry ! 0 @ ''/'' @ Split (CHR ''/'') clusterEntry ! 1) =
        Some (ip, cidr) \<longrightarrow>
      \<not> cidrsOverlap cidr parsed \<longrightarrow>
      parseClusterSubnetEntries_loop parsed (clusterEntry # rest) =
        parseClusterSubnetEntries_loop
          (parsed @ [\<lparr>CIDR = cidr, HostSubnetLength = 24\<rparr>]) rest"
    by (simp add: Let_def)
qed

theorem parseClusterSubnetEntries_parts_witness:
  "(\<exists>e. parseClusterSubnetEntries ''11.11.0.0/16'' = Inr [e] \<and> HostSubnetLength e = 24) \<and>
   (\<exists>e. parseClusterSubnetEntries ''fd00::/64'' = Inr [e] \<and> HostSubnetLength e = 24) \<and>
   parseClusterSubnetEntries ''10.128.0.0/14/23,10.0.0.0'' = Inl NotFormattedProperly"
proof -
  let ?e = "\<lparr>CIDR = \<lparr>IP = [11, 11, 0, 0], Mask = [255, 255, 0, 0]\<rparr>, HostSubnetLength = 24\<rparr>"
  have ok: "parseClusterSubnetEntries ''11.11.0.0/16'' = Inr [?e]"
    by (simp add: run_parseClusterSubnetEntries)
  have two: "length (Split (CHR ''/'') (Split (CHR '','') ''11.11.0.0/16'' ! 0)) = 2"
    by simp
  have "HostSubnetLength ([?e] ! 0) = 24"
    using parseClusterSubnetEntries_parts [where clusterSubnetCmd = "''11.11.0.0/16''"
        and es = "[?e]", THEN conjunct1] ok two
    by simp
  with ok have first: "\<exists>e. parseClusterSubnetEntries ''11.11.0.0/16'' = Inr [e] \<and> HostSubnetLength e = 24"
    by simp
  let ?f = "\<lparr>CIDR = \<lparr>IP = [253, 0, 0, 0, 0, 0, 0, 0, 0, 0, 0, 0, 0, 0, 0, 0],
        Mask = [255, 255, 255, 255, 255, 255, 255, 255, 0, 0, 0, 0, 0, 0, 0, 0]\<rparr>,
      HostSubnetLength = 24\<rparr>"
  have ok6: "parseClusterSubnetEntries ''fd00::/64'' = Inr [?f]"
    by (simp add: run_parseClusterSubnetEntries)
  have two6: "length (Split (CHR ''/'') (Split (CHR '','') ''fd00::/64'' ! 0)) = 2"
    by simp
  have "HostSubnetLength ([?f] ! 0) = 24"
    using parseClusterSubnetEntries_parts [where clusterSubnetCmd = "''fd00::/64''"
        and es = "[?f]", THEN conjunct1] ok6 two6
    by simp
  with ok6 have second: "\<exists>e. parseClusterSubnetEntries ''fd00::/64'' = Inr [e] \<and> HostSubnetLength e = 24"
    by simp
  let ?p = "\<lparr>CIDR = \<lparr>IP = [10, 128, 0, 0], Mask = [255, 252, 0, 0]\<rparr>, HostSubnetLength = 23\<rparr>"
  have parts: "length (Split (CHR ''/'') ''10.0.0.0'') \<noteq> 2" "length (Split (CHR ''/'') ''10.0.0.0'') \<noteq> 3"
    by simp_all
  have split: "Split (CHR '','') ''10.128.0.0/14/23,10.0.0.0'' = [''10.128.0.0/14/23''] @ ''10.0.0.0'' # []"
    by simp
  have pre: "parseClusterSubnetEntries_loop [] [''10.128.0.0/14/23''] = Inr [?p]"
    by (simp add: Let_def library_defs)
  have "parseClusterSubnetEntries ''10.128.0.0/14/23,10.0.0.0'' = Inl NotFormattedProperly"
    using parseClusterSubnetEntries_parts [where clusterEntry = "''10.0.0.0''"
        and clusterSubnetCmd = "''10.128.0.0/14/23,10.0.0.0''" and pre = "[''10.128.0.0/14/23'']"
        and rest = "[]" and parsed = "[?p]", THEN conjunct2, THEN conjunct1] parts split pre
    by blast
  with first second show ?thesis by blast
qed

section \<open>Claims about CreateManagementPort\<close>

lemma runAll_trace: "runAll u trace cs = (trace', None) \<Longrightarrow> trace' = trace @ cs"
proof (induction cs arbitrary: trace)
  case Nil
  then show ?case by simp
next
  case (Cons c cs)
  from Cons.prems have "runAll u (trace @ [c]) cs = (trace', None)"
    by (auto split: option.splits)
  from Cons.IH [OF this] show ?case by simp
qed

lemma configureManagementPort_trace:
  assumes "configureManagementPort u trace clusterSubnet clusterServicesSubnet routerIP routerMac
      interfaceName interfaceIP = (trace', None)"
  shows "trace' = trace @
     ([IPTool [''link'', ''set'', interfaceName, ''up''],
       IPTool [''addr'', ''flush'', ''dev'', interfaceName],
       IPTool [''addr'', ''add'', interfaceIP, ''dev'', interfaceName]] @
      concat (map (\<lambda>subnet.
         [IPTool [''route'', ''flush'', subnet],
          IPTool [''route'', ''add'', subnet, ''via'', routerIP]]) clusterSubnet) @
      (if clusterServicesSubnet \<noteq> [] then
         [IPTool [''route'', ''flush'', clusterServicesSubnet],
          IPTool [''route'', ''add'', clusterServicesSubnet, ''via'', routerIP]]
       else [])) @
     [IPTool [''neigh'', ''add'', routerIP, ''dev'', interfaceName, ''lladdr'', routerMac]]"
  using assms unfolding configureManagementPort_def
  by (auto simp: Let_def dest!: runAll_trace split: prod.splits option.splits run_error.splits)

text \<open>The commands of a successful \<open>CreateManagementPort\<close>, from the one that creates
  the management port on.\<close>

lemma CreateManagementPort_trace:
  assumes "ParseCIDR localSubnet = Some (ip, subnet)"
    and "CreateManagementPort u mtu nodeName localSubnet clusterServicesSubnet clusterSubnet =
      (trace, None)"
  shows "\<exists>macAddress routerMac pre.
    trace = pre @
      [OVNNbctl [''--'', ''--may-exist'', ''lsp-add'', ToLower nodeName, ''k8s-'' @ ToLower nodeName,
         ''--'', ''lsp-set-addresses'', ''k8s-'' @ ToLower nodeName,
         macAddress @ '' '' @ IP_String (NextIP u (NextIP u ip))],
       OVNNbctl [''lsp-get-addresses'', ''stor-'' @ ToLower nodeName]] @
      ([IPTool [''link'', ''set'', GetK8sMgmtIntfName u (ToLower nodeName), ''up''],
        IPTool [''addr'', ''flush'', ''dev'', GetK8sMgmtIntfName u (ToLower nodeName)],
        IPTool [''addr'', ''add'',
          IP_String (NextIP u (NextIP u ip)) @ ''/'' @ itoa (Mask_Size (Mask subnet)), ''dev'',
          GetK8sMgmtIntfName u (ToLower nodeName)]] @
       concat (map (\<lambda>subnet.
          [IPTool [''route'', ''flush'', subnet],
           IPTool [''route'', ''add'', subnet, ''via'', IP_String (NextIP u ip)]]) clusterSubnet) @
       (if clusterServicesSubnet \<noteq> [] then
          [IPTool [''route'', ''flush'', clusterServicesSubnet],
           IPTool [''route'', ''add'', clusterServicesSubnet, ''via'', IP_String (NextIP u ip)]]
        else [])) @
      [IPTool [''neigh'', ''add'', IP_String (NextIP u ip), ''dev'',
         GetK8sMgmtIntfName u (ToLower nodeName), ''lladdr'', routerMac]]"
  using assms(2) unfolding CreateManagementPort_def assms(1)
  by (auto simp: Let_def dest!: configureManagementPort_trace
      split: prod.splits option.splits if_splits)

text \<open>The equations that run \<open>CreateManagementPort\<close> on given arguments.\<close>

lemmas run_CreateManagementPort =
  CreateManagementPort_def configureManagementPort_def plain_util_def Let_def library_defs
  ToLower_def toLowerChar_def itoa_int_def HostSubnet_at_def addressNumber_def

lemma CreateManagementPort_plain:
  "CreateManagementPort plain_util 1400 ''Node1'' ''10.0.0.0/24'' [] [''10.0.0.0/16''] =
     ([OVSVsctl [''--'', ''--may-exist'', ''add-br'', ''br-int''],
       OVSVsctl [''--'', ''--may-exist'', ''add-port'', ''br-int'', ''k8s-node1'', ''--'', ''set'',
         ''interface'', ''k8s-node1'', ''type=internal'', ''mtu_request=1400'',
         ''external-ids:iface-id=k8s-node1''],
       OVSVsctl [''--if-exists'', ''get'', ''interface'', ''k8s-node1'', ''mac_in_use''],
       OVNNbctl [''--'', ''--may-exist'', ''lsp-add'', ''node1'', ''k8s-node1'', ''--'',
         ''lsp-set-addresses'', ''k8s-node1'', ''0a:58:0a:00:00:02 10.0.0.2''],
       OVNNbctl [''lsp-get-addresses'', ''stor-node1''],
       IPTool [''link'', ''set'', ''k8s-node1'', ''up''],
       IPTool [''addr'', ''flush'', ''dev'', ''k8s-node1''],
       IPTool [''addr'', ''add'', ''10.0.0.2/24'', ''dev'', ''k8s-node1''],
       IPTool [''route'', ''flush'', ''10.0.0.0/16''],
       IPTool [''route'', ''add'', ''10.0.0.0/16'', ''via'', ''10.0.0.1''],
       IPTool [''neigh'', ''add'', ''10.0.0.1'', ''dev'', ''k8s-node1'', ''lladdr'',
         ''0a:58:0a:00:00:01'']],
      None)"
  by (simp add: run_CreateManagementPort)

lemma CreateManagementPort_plain_IPv6:
  "CreateManagementPort plain_util 1400 ''Node1'' ''fd00::/64'' [] [''fd00::/48''] =
     ([OVSVsctl [''--'', ''--may-exist'', ''add-br'', ''br-int''],
       OVSVsctl [''--'', ''--may-exist'', ''add-port'', ''br-int'', ''k8s-node1'', ''--'', ''set'',
         ''interface'', ''k8s-node1'', ''type=internal'', ''mtu_request=1400'',
         ''external-ids:iface-id=k8s-node1''],
       OVSVsctl [''--if-exists'', ''get'', ''interface'', ''k8s-node1'', ''mac_in_use''],
       OVNNbctl [''--'', ''--may-exist'', ''lsp-add'', ''node1'', ''k8s-node1'', ''--'',
         ''lsp-set-addresses'', ''k8s-node1'', ''0a:58:0a:00:00:02 fd00::2''],
       OVNNbctl [''lsp-get-addresses'', ''stor-node1''],
       IPTool [''link'', ''set'', ''k8s-node1'', ''up''],
       IPTool [''addr'', ''flush'', ''dev'', ''k8s-node1''],
       IPTool [''addr'', ''add'', ''fd00::2/64'', ''dev'', ''k8s-node1''],
       IPTool [''route'', ''flush'', ''fd00::/48''],
       IPTool [''route'', ''add'', ''fd00::/48'', ''via'', ''fd00::1''],
       IPTool [''neigh'', ''add'', ''fd00::1'', ''dev'', ''k8s-node1'', ''lladdr'',
         ''0a:58:0a:00:00:01'']],
      None)"
  by (simp add: run_CreateManagementPort)

lemma ParseCIDR_10_0_0_0_24:
  "ParseCIDR ''10.0.0.0/24'' = Some ([0, 0, 0, 0, 0, 0, 0, 0, 0, 0, 255, 255, 10, 0, 0, 0], \<lparr>IP = [10, 0, 0, 0], Mask = [255, 255, 255, 0]\<rparr>)"
  by (simp add: library_defs)

lemma ParseCIDR_fd00_64:
  "ParseCIDR ''fd00::/64'' =
     Some ([253, 0, 0, 0, 0, 0, 0, 0, 0, 0, 0, 0, 0, 0, 0, 0],
       \<lparr>IP = [253, 0, 0, 0, 0, 0, 0, 0, 0, 0, 0, 0, 0, 0, 0, 0],
        Mask = [255, 255, 255, 255, 255, 255, 255, 255, 0, 0, 0, 0, 0, 0, 0, 0]\<rparr>)"
  by (simp add: library_defs)

text \<open>
  Claim C4, as stated: the router address is the first address of the host subnet and the
  management port's address the second (\<open>HostSubnet[0]\<close> and \<open>HostSubnet[1]\<close>). For
  the subnet \<open>10.0.0.0/24\<close>, whose first two addresses are \<open>10.0.0.0\<close> and
  \<open>10.0.0.1\<close>, and with a \<open>NextIP\<close> that is the address one above,
  \<open>CreateManagementPort\<close> routes through \<open>10.0.0.1\<close> and gives the management port
  \<open>10.0.0.2\<close>, the second and the third address.
\<close>

theorem CreateManagementPort_second_and_third_address:
  "CreateManagementPort plain_util 1400 ''Node1'' ''10.0.0.0/24'' [] [''10.0.0.0/16''] =
     ([OVSVsctl [''--'', ''--may-exist'', ''add-br'', ''br-int''],
       OVSVsctl [''--'', ''--may-exist'', ''add-port'', ''br-int'', ''k8s-node1'', ''--'', ''set'',
         ''interface'', ''k8s-node1'', ''type=internal'', ''mtu_request=1400'',
         ''external-ids:iface-id=k8s-node1''],
       OVSVsctl [''--if-exists'', ''get'', ''interface'', ''k8s-node1'', ''mac_in_use''],
       OVNNbctl [''--'', ''--may-exist'', ''lsp-add'', ''node1'', ''k8s-node1'', ''--'',
         ''lsp-set-addresses'', ''k8s-node1'', ''0a:58:0a:00:00:02 10.0.0.2''],
       OVNNbctl [''lsp-get-addresses'', ''stor-node1''],
       IPTool [''link'', ''set'', ''k8s-node1'', ''up''],
       IPTool [''addr'', ''flush'', ''dev'', ''k8s-node1''],
       IPTool [''addr'', ''add'', ''10.0.0.2/24'', ''dev'', ''k8s-node1''],
       IPTool [''route'', ''flush'', ''10.0.0.0/16''],
       IPTool [''route'', ''add'', ''10.0.0.0/16'', ''via'', ''10.0.0.1''],
       IPTool [''neigh'', ''add'', ''10.0.0.1'', ''dev'', ''k8s-node1'', ''lladdr'',
         ''0a:58:0a:00:00:01'']],
      None) \<and>
   ParseCIDR ''10.0.0.0/24'' = Some ([0, 0, 0, 0, 0, 0, 0, 0, 0, 0, 255, 255, 10, 0, 0, 0], \<lparr>IP = [10, 0, 0, 0], Mask = [255, 255, 255, 0]\<rparr>) \<and>
   HostSubnet_at \<lparr>IP = [10, 0, 0, 0], Mask = [255, 255, 255, 0]\<rparr> 0 = addressNumber (the (ParseIP ''10.0.0.0'')) \<and>
   HostSubnet_at \<lparr>IP = [10, 0, 0, 0], Mask = [255, 255, 255, 0]\<rparr> 1 = addressNumber (the (ParseIP ''10.0.0.1'')) \<and>
   HostSubnet_at \<lparr>IP = [10, 0, 0, 0], Mask = [255, 255, 255, 0]\<rparr> 2 = addressNumber (the (ParseIP ''10.0.0.2'')) \<and>
   HostSubnet_at \<lparr>IP = [10, 0, 0, 0], Mask = [255, 255, 255, 0]\<rparr> 0 \<noteq> HostSubnet_at \<lparr>IP = [10, 0, 0, 0], Mask = [255, 255, 255, 0]\<rparr> 1 \<and>
   HostSubnet_at \<lparr>IP = [10, 0, 0, 0], Mask = [255, 255, 255, 0]\<rparr> 1 \<noteq> HostSubnet_at \<lparr>IP = [10, 0, 0, 0], Mask = [255, 255, 255, 0]\<rparr> 2"
  by (simp add: CreateManagementPort_plain ParseCIDR_10_0_0_0_24 HostSubnet_at_def
      addressNumber_def library_defs)

text \<open>
  Claim C4, amended. \<open>CreateManagementPort\<close> derives two addresses from the address
  \<open>ip\<close> written in the argument \<open>localSubnet\<close>: the router's, \<open>NextIP ip\<close>,
  through which it routes the cluster subnets and for which it adds the neighbour entry,
  and the management port's, \<open>NextIP (NextIP ip)\<close>, which it sets on the logical port
  and, with the prefix length of the subnet, on the interface, for an IPv4 as for an IPv6
  subnet. When \<open>NextIP\<close> gives the address one above, both times, and \<open>localSubnet\<close>
  is written with its network address, these are the second and the third address of the
  host subnet.
\<close>

theorem CreateManagementPort_addresses:
  assumes parsed: "ParseCIDR localSubnet = Some (ip, subnet)"
    and finished: "CreateManagementPort u mtu nodeName localSubnet clusterServicesSubnet clusterSubnet =
      (trace, None)"
  shows "(\<exists>macAddress.
            OVNNbctl [''--'', ''--may-exist'', ''lsp-add'', ToLower nodeName,
              ''k8s-'' @ ToLower nodeName, ''--'', ''lsp-set-addresses'', ''k8s-'' @ ToLower nodeName,
              macAddress @ '' '' @ IP_String (NextIP u (NextIP u ip))] \<in> set trace) \<and>
         IPTool [''addr'', ''add'',
           IP_String (NextIP u (NextIP u ip)) @ ''/'' @ itoa (Mask_Size (Mask subnet)), ''dev'',
           GetK8sMgmtIntfName u (ToLower nodeName)] \<in> set trace \<and>
         (\<exists>routerMac.
            IPTool [''neigh'', ''add'', IP_String (NextIP u ip), ''dev'',
              GetK8sMgmtIntfName u (ToLower nodeName), ''lladdr'', routerMac] \<in> set trace) \<and>
         (\<forall>s \<in> set clusterSubnet.
            IPTool [''route'', ''add'', s, ''via'', IP_String (NextIP u ip)] \<in> set trace) \<and>
         (addressNumber ip = addressNumber (IP subnet) \<longrightarrow>
          addressNumber (NextIP u ip) = addressNumber ip + 1 \<longrightarrow>
          addressNumber (NextIP u (NextIP u ip)) = addressNumber (NextIP u ip) + 1 \<longrightarrow>
            addressNumber (NextIP u ip) = HostSubnet_at subnet 1 \<and>
            addressNumber (NextIP u (NextIP u ip)) = HostSubnet_at subnet 2)"
proof -
  from CreateManagementPort_trace [OF parsed finished] obtain macAddress routerMac pre where
    trace: "trace = pre @
      [OVNNbctl [''--'', ''--may-exist'', ''lsp-add'', ToLower nodeName, ''k8s-'' @ ToLower nodeName,
         ''--'', ''lsp-set-addresses'', ''k8s-'' @ ToLower nodeName,
         macAddress @ '' '' @ IP_String (NextIP u (NextIP u ip))],
       OVNNbctl [''lsp-get-addresses'', ''stor-'' @ ToLower nodeName]] @
      ([IPTool [''link'', ''set'', GetK8sMgmtIntfName u (ToLower nodeName), ''up''],
        IPTool [''addr'', ''flush'', ''dev'', GetK8sMgmtIntfName u (ToLower nodeName)],
        IPTool [''addr'', ''add'',
          IP_String (NextIP u (NextIP u ip)) @ ''/'' @ itoa (Mask_Size (Mask subnet)), ''dev'',
          GetK8sMgmtIntfName u (ToLower nodeName)]] @
       concat (map (\<lambda>subnet.
          [IPTool [''route'', ''flush'', subnet],
           IPTool [''route'', ''add'', subnet, ''via'', IP_String (NextIP u ip)]]) clusterSubnet) @
       (if clusterServicesSubnet \<noteq> [] then
          [IPTool [''route'', ''flush'', clusterServicesSubnet],
           IPTool [''route'', ''add'', clusterServicesSubnet, ''via'', IP_String (NextIP u ip)]]
        else [])) @
      [IPTool [''neigh'', ''add'', IP_String (NextIP u ip), ''dev'',
         GetK8sMgmtIntfName u (ToLower nodeName), ''lladdr'', routerMac]]"
    by blast
  have a: "\<exists>macAddress.
      OVNNbctl [''--'', ''--may-exist'', ''lsp-add'', ToLower nodeName,
        ''k8s-'' @ ToLower nodeName, ''--'', ''lsp-set-addresses'', ''k8s-'' @ ToLower nodeName,
        macAddress @ '' '' @ IP_String (NextIP u (NextIP u ip))] \<in> set trace"
    unfolding trace by (rule exI [of _ macAddress]) simp
  have b: "IPTool [''addr'', ''add'',
      IP_String (NextIP u (NextIP u ip)) @ ''/'' @ itoa (Mask_Size (Mask subnet)), ''dev'',
      GetK8sMgmtIntfName u (ToLower nodeName)] \<in> set trace"
    unfolding trace by simp
  have c: "\<exists>routerMac.
      IPTool [''neigh'', ''add'', IP_String (NextIP u ip), ''dev'',
        GetK8sMgmtIntfName u (ToLower nodeName), ''lladdr'', routerMac] \<in> set trace"
    unfolding trace by (rule exI [of _ routerMac]) simp
  have d: "\<forall>s \<in> set clusterSubnet.
      IPTool [''route'', ''add'', s, ''via'', IP_String (NextIP u ip)] \<in> set trace"
    unfolding trace by auto
  have e: "addressNumber ip = addressNumber (IP subnet) \<longrightarrow>
      addressNumber (NextIP u ip) = addressNumber ip + 1 \<longrightarrow>
      addressNumber (NextIP u (NextIP u ip)) = addressNumber (NextIP u ip) + 1 \<longrightarrow>
        addressNumber (NextIP u ip) = HostSubnet_at subnet 1 \<and>
        addressNumber (NextIP u (NextIP u ip)) = HostSubnet_at subnet 2"
    by (simp add: HostSubnet_at_def)
  from a b c d e show ?thesis by (intro conjI)
qed

theorem CreateManagementPort_addresses_witness:
  "(\<exists>trace. CreateManagementPort plain_util 1400 ''Node1'' ''10.0.0.0/24'' [] [''10.0.0.0/16''] =
       (trace, None) \<and>
     IPTool [''addr'', ''add'', ''10.0.0.2/24'', ''dev'', ''k8s-node1''] \<in> set trace \<and>
     IPTool [''route'', ''add'', ''10.0.0.0/16'', ''via'', ''10.0.0.1''] \<in> set trace) \<and>
   addressNumber (NextIP plain_util (NextIP plain_util [0, 0, 0, 0, 0, 0, 0, 0, 0, 0, 255, 255, 10, 0, 0, 0])) =
     HostSubnet_at \<lparr>IP = [10, 0, 0, 0], Mask = [255, 255, 255, 0]\<rparr> 2 \<and>
   (\<exists>trace. CreateManagementPort plain_util 1400 ''Node1'' ''fd00::/64'' [] [''fd00::/48''] =
       (trace, None) \<and>
     IPTool [''addr'', ''add'', ''fd00::2/64'', ''dev'', ''k8s-node1''] \<in> set trace \<and>
     IPTool [''route'', ''add'', ''fd00::/48'', ''via'', ''fd00::1''] \<in> set trace)"
proof -
  obtain trace where
    finished: "CreateManagementPort plain_util 1400 ''Node1'' ''10.0.0.0/24'' [] [''10.0.0.0/16''] =
      (trace, None)"
    using CreateManagementPort_plain by blast
  have vals: "IP_String (NextIP plain_util (NextIP plain_util [0, 0, 0, 0, 0, 0, 0, 0, 0, 0, 255, 255, 10, 0, 0, 0])) = ''10.0.0.2''"
    "IP_String (NextIP plain_util [0, 0, 0, 0, 0, 0, 0, 0, 0, 0, 255, 255, 10, 0, 0, 0]) = ''10.0.0.1''"
    "itoa (Mask_Size (Mask \<lparr>IP = [10, 0, 0, 0], Mask = [255, 255, 255, 0]\<rparr>)) = ''24''"
    "GetK8sMgmtIntfName plain_util (ToLower ''Node1'') = ''k8s-node1''"
    "addressNumber [0, 0, 0, 0, 0, 0, 0, 0, 0, 0, 255, 255, 10, 0, 0, 0] = addressNumber (IP \<lparr>IP = [10, 0, 0, 0], Mask = [255, 255, 255, 0]\<rparr>)"
    "addressNumber (NextIP plain_util [0, 0, 0, 0, 0, 0, 0, 0, 0, 0, 255, 255, 10, 0, 0, 0]) =
      addressNumber [0, 0, 0, 0, 0, 0, 0, 0, 0, 0, 255, 255, 10, 0, 0, 0] + 1"
    "addressNumber (NextIP plain_util (NextIP plain_util [0, 0, 0, 0, 0, 0, 0, 0, 0, 0, 255, 255, 10, 0, 0, 0])) =
      addressNumber (NextIP plain_util [0, 0, 0, 0, 0, 0, 0, 0, 0, 0, 255, 255, 10, 0, 0, 0]) + 1"
    by (simp_all add: plain_util_def addressNumber_def library_defs ToLower_def toLowerChar_def)
  from CreateManagementPort_addresses [OF ParseCIDR_10_0_0_0_24 finished] vals
  have "IPTool [''addr'', ''add'', ''10.0.0.2/24'', ''dev'', ''k8s-node1''] \<in> set trace \<and>
     IPTool [''route'', ''add'', ''10.0.0.0/16'', ''via'', ''10.0.0.1''] \<in> set trace \<and>
     addressNumber (NextIP plain_util (NextIP plain_util [0, 0, 0, 0, 0, 0, 0, 0, 0, 0, 255, 255, 10, 0, 0, 0])) =
       HostSubnet_at \<lparr>IP = [10, 0, 0, 0], Mask = [255, 255, 255, 0]\<rparr> 2"
    by simp
  with finished have first:
    "(\<exists>trace. CreateManagementPort plain_util 1400 ''Node1'' ''10.0.0.0/24'' [] [''10.0.0.0/16''] =
       (trace, None) \<and>
     IPTool [''addr'', ''add'', ''10.0.0.2/24'', ''dev'', ''k8s-node1''] \<in> set trace \<and>
     IPTool [''route'', ''add'', ''10.0.0.0/16'', ''via'', ''10.0.0.1''] \<in> set trace) \<and>
     addressNumber (NextIP plain_util (NextIP plain_util [0, 0, 0, 0, 0, 0, 0, 0, 0, 0, 255, 255, 10, 0, 0, 0])) =
       HostSubnet_at \<lparr>IP = [10, 0, 0, 0], Mask = [255, 255, 255, 0]\<rparr> 2"
    by blast
  obtain trace6 where
    finished6: "CreateManagementPort plain_util 1400 ''Node1'' ''fd00::/64'' [] [''fd00::/48''] =
      (trace6, None)"
    using CreateManagementPort_plain_IPv6 by blast
  have vals6: "IP_String (NextIP plain_util (NextIP plain_util [253, 0, 0, 0, 0, 0, 0, 0, 0, 0, 0, 0, 0, 0, 0, 0])) = ''fd00::2''"
    "IP_String (NextIP plain_util [253, 0, 0, 0, 0, 0, 0, 0, 0, 0, 0, 0, 0, 0, 0, 0]) = ''fd00::1''"
    "itoa (Mask_Size (Mask \<lparr>IP = [253, 0, 0, 0, 0, 0, 0, 0, 0, 0, 0, 0, 0, 0, 0, 0],
        Mask = [255, 255, 255, 255, 255, 255, 255, 255, 0, 0, 0, 0, 0, 0, 0, 0]\<rparr>)) = ''64''"
    "GetK8sMgmtIntfName plain_util (ToLower ''Node1'') = ''k8s-node1''"
    by (simp_all add: plain_util_def library_defs ToLower_def toLowerChar_def)
  from CreateManagementPort_addresses [OF ParseCIDR_fd00_64 finished6] vals6
  have "IPTool [''addr'', ''add'', ''fd00::2/64'', ''dev'', ''k8s-node1''] \<in> set trace6 \<and>
     IPTool [''route'', ''add'', ''fd00::/48'', ''via'', ''fd00::1''] \<in> set trace6"
    by simp
  with finished6 first show ?thesis by blast
qed

end
